theory Spec2Isabelle
  imports Complex_Main "HOL-Library.Char_ord" "HOL-Library.List_Lexorder" "HOL-Library.AList"
begin

section \<open>Python values and exceptions\<close>

text \<open>
  Every \<^verbatim>\<open>raise\<close> of the source, and every exception raised by a built-in
  operation the source calls, is a value of \<open>py_error\<close>; a fallible operation
  returns \<open>py_error + 'a\<close> with \<open>Inl\<close> for the exception.
  \<open>PyException\<close> is the plain \<^verbatim>\<open>Exception(msg)\<close> the source raises itself.
\<close>

datatype py_error =
    IndexError
  | KeyError
  | ValueError
  | TypeError
  | AttributeError
  | UnboundLocalError
  | OverflowError
  | UnicodeEncodeError
  | AssertionError
  | UnicodeDecodeError
  | PyException string

definition ebind :: "py_error + 'a \<Rightarrow> ('a \<Rightarrow> py_error + 'b) \<Rightarrow> py_error + 'b" where
  "ebind m f = (case m of Inl e \<Rightarrow> Inl e | Inr x \<Rightarrow> f x)"

section \<open>BUFR descriptor table: \<^verbatim>\<open>io_utils/bufr_class.py\<close>\<close>

subsection \<open>Strings\<close>

text \<open>
  A text line is a list of 8-bit characters (code points up to U+00FF).
  \<open>isspace\<close> is Python's \<^verbatim>\<open>str.isspace\<close> on that range: TAB, LF, VT, FF, CR,
  FS, GS, RS, US, SPACE, NEL (U+0085) and NBSP (U+00A0).
\<close>

definition isspace :: "char \<Rightarrow> bool" where
  "isspace c = (of_char c \<in> {9, 10, 11, 12, 13, 28, 29, 30, 31, 32, 133, 160 :: nat})"

text \<open>\<^verbatim>\<open>s.strip()\<close>: drop leading, then trailing, whitespace.\<close>

definition strip :: "string \<Rightarrow> string" where
  "strip s = rev (dropWhile isspace (rev (dropWhile isspace s)))"

text \<open>\<^verbatim>\<open>s[lo:hi]\<close> and \<^verbatim>\<open>s[lo:]\<close> for constant bounds \<open>0 \<le> lo \<le> hi\<close>;
  a slice of a short string is short or empty, never an error.\<close>

definition py_slice :: "nat \<Rightarrow> nat \<Rightarrow> 'a list \<Rightarrow> 'a list" where
  "py_slice lo hi s = take (hi - lo) (drop lo s)"

definition py_slice_from :: "nat \<Rightarrow> 'a list \<Rightarrow> 'a list" where
  "py_slice_from lo s = drop lo s"

subsection \<open>\<^verbatim>\<open>Bufr._check_emptyfield\<close> and \<^verbatim>\<open>Bufr.get_octect\<close>\<close>

definition check_emptyfield :: "string \<Rightarrow> string option" where
  "check_emptyfield substring = (if substring = [] then None else Some substring)"

definition get_octect :: "string \<Rightarrow> string option list" where
  "get_octect line =
     (let f = strip (py_slice 0 2 line);
          x = strip (py_slice 2 5 line);
          y = strip (py_slice 5 9 line);
          octect =
            (if f = ''3'' \<and> x = ''21'' \<and> y = ''193''
             then [f, x, y, strip (py_slice_from 9 line), [], [], [], ''namefile'']
             else [f, x, y,
                   strip (py_slice 9 23 line),
                   strip (py_slice 23 27 line),
                   strip (py_slice 27 32 line),
                   strip (py_slice 32 35 line),
                   strip (py_slice_from 35 line)])
      in map check_emptyfield octect)"

subsection \<open>The line decoder as the specification words it\<close>

text \<open>
  \<open>columns a b line\<close> are the characters of \<open>line\<close> at the 0-indexed positions
  \<open>a \<le> i < b\<close> that exist; \<open>trim\<close> removes the longest all-whitespace prefix and
  suffix; \<open>unset_if_empty\<close> turns the empty text into the unset value.
\<close>

definition columns :: "nat \<Rightarrow> nat \<Rightarrow> string \<Rightarrow> string" where
  "columns a b line = map (\<lambda>i. line ! i) [a ..< min b (length line)]"

definition columns_to_end :: "nat \<Rightarrow> string \<Rightarrow> string" where
  "columns_to_end a line = map (\<lambda>i. line ! i) [a ..< length line]"

definition trim :: "string \<Rightarrow> string" where
  "trim s =
     (let lead = length (takeWhile isspace s);
          trail = length (takeWhile isspace (rev s))
      in if lead = length s then [] else map (\<lambda>i. s ! i) [lead ..< length s - trail])"

definition unset_if_empty :: "string \<Rightarrow> string option" where
  "unset_if_empty s = (case s of [] \<Rightarrow> None | _ \<Rightarrow> Some s)"

definition decodeLine_spec :: "string \<Rightarrow> string option list" where
  "decodeLine_spec line =
     (let F = trim (columns 0 2 line);
          X = trim (columns 2 5 line);
          Y = trim (columns 5 9 line)
      in if (F, X, Y) = (''3'', ''21'', ''193'')
         then [unset_if_empty F, unset_if_empty X, unset_if_empty Y,
               unset_if_empty (trim (columns_to_end 9 line)),
               None, None, None, Some ''namefile'']
         else map (\<lambda>s. unset_if_empty (trim s))
                [columns 0 2 line, columns 2 5 line, columns 5 9 line,
                 columns 9 23 line, columns 23 27 line, columns 27 32 line,
                 columns 32 35 line, columns_to_end 35 line])"

text \<open>A decoded field is well trimmed when it is unset, or a non-empty text that neither
  starts nor ends with whitespace.\<close>

definition well_trimmed :: "string option \<Rightarrow> bool" where
  "well_trimmed fld =
     (case fld of None \<Rightarrow> True
      | Some s \<Rightarrow> s \<noteq> [] \<and> \<not> isspace (hd s) \<and> \<not> isspace (last s))"

subsection \<open>The metadata table (\<^verbatim>\<open>Bufr.read_meta\<close>)\<close>

text \<open>
  A row of the \<^verbatim>\<open>pandas.DataFrame\<close> with columns
  \<^verbatim>\<open>["F", "X", "Y", "value", "id5", "id6", "id7", "descriptor"]\<close>; a cell is a
  string or \<^verbatim>\<open>None\<close>. The table is the list of its rows, the positional index
  (\<^verbatim>\<open>iloc\<close>) being the list index.
\<close>

record meta_row =
  F :: "string option"
  X :: "string option"
  Y :: "string option"
  value_col :: "string option"
  id5 :: "string option"
  id6 :: "string option"
  id7 :: "string option"
  descriptor :: "string option"

definition row_of_octect :: "string option list \<Rightarrow> meta_row" where
  "row_of_octect oct =
     \<lparr>F = oct ! 0, X = oct ! 1, Y = oct ! 2, value_col = oct ! 3,
      id5 = oct ! 4, id6 = oct ! 5, id7 = oct ! 6, descriptor = oct ! 7\<rparr>"

definition read_meta :: "string list \<Rightarrow> meta_row list" where
  "read_meta lines = map (\<lambda>line. row_of_octect (get_octect line)) lines"

text \<open>\<^verbatim>\<open>meta.loc[(meta.F == f) & (meta.X == x) & (meta.Y == y)].index.values\<close>:
  the positions of the rows carrying the descriptor triple, in table order.\<close>

definition loc_fxy :: "meta_row list \<Rightarrow> string \<Rightarrow> string \<Rightarrow> string \<Rightarrow> nat list" where
  "loc_fxy meta f x y =
     filter (\<lambda>i. F (meta ! i) = Some f \<and> X (meta ! i) = Some x \<and> Y (meta ! i) = Some y)
       [0 ..< length meta]"

text \<open>\<^verbatim>\<open>meta.iloc[i]\<close> for \<open>i \<ge> 0\<close>, and \<^verbatim>\<open>meta.iloc[[i, j, ...]]\<close>.\<close>

definition iloc :: "meta_row list \<Rightarrow> nat \<Rightarrow> py_error + meta_row" where
  "iloc meta i = (if i < length meta then Inr (meta ! i) else Inl IndexError)"

definition iloc_list :: "meta_row list \<Rightarrow> nat list \<Rightarrow> py_error + meta_row list" where
  "iloc_list meta ixs =
     (if \<forall>i \<in> set ixs. i < length meta then Inr (map (\<lambda>i. meta ! i) ixs) else Inl IndexError)"

subsection \<open>Floating-point values\<close>

text \<open>
  A Python float is an IEEE double: a finite value (held as the rational it denotes), an
  infinity or NaN; the sign of zero is not kept. The reader of a float from text
  (\<^verbatim>\<open>float(s)\<close>) is a parameter \<open>pf\<close> of every operation that calls it;
  \<open>None\<close> is its \<^verbatim>\<open>ValueError\<close>.
\<close>

datatype pyfloat = Fin rat | PInf | NInf | NaN

type_synonym float_reader = "string \<Rightarrow> pyfloat option"

definition py_float :: "float_reader \<Rightarrow> string option \<Rightarrow> py_error + pyfloat" where
  "py_float pf v =
     (case v of
        None \<Rightarrow> Inl TypeError
      | Some s \<Rightarrow> (case pf s of None \<Rightarrow> Inl ValueError | Some x \<Rightarrow> Inr x))"

text \<open>\<^verbatim>\<open>int(x)\<close> truncates towards zero; NaN and the infinities raise.\<close>

definition py_int :: "pyfloat \<Rightarrow> py_error + int" where
  "py_int x =
     (case x of
        Fin q \<Rightarrow> Inr (if 0 \<le> q then \<lfloor>q\<rfloor> else \<lceil>q\<rceil>)
      | NaN \<Rightarrow> Inl ValueError
      | PInf \<Rightarrow> Inl OverflowError
      | NInf \<Rightarrow> Inl OverflowError)"

definition int_of_value :: "float_reader \<Rightarrow> string option \<Rightarrow> py_error + int" where
  "int_of_value pf v = ebind (py_float pf v) py_int"

fun fgt :: "pyfloat \<Rightarrow> pyfloat \<Rightarrow> bool" where
  "fgt NaN b = False"
| "fgt a NaN = False"
| "fgt (Fin a) (Fin b) = (b < a)"
| "fgt (Fin a) NInf = True"
| "fgt (Fin a) PInf = False"
| "fgt PInf PInf = False"
| "fgt PInf b = True"
| "fgt NInf b = False"

text \<open>
  Rounding of a rational to a binary floating-point format with \<open>p\<close> significant bits
  and exponents from \<open>emin\<close> to \<open>emax\<close>: to the nearest value of the format, a tie to
  the one with the even significand, gradual underflow below \<open>2 ^ emin\<close>, and an
  infinity from half a unit in the last place above the greatest finite value.
  \<open>binary64\<close> is the format of a Python float and of \<^verbatim>\<open>numpy.float64\<close>,
  \<open>binary32\<close> that of \<^verbatim>\<open>numpy.float32\<close>.
\<close>

function log2_floor :: "int \<Rightarrow> int" where
  "log2_floor n = (if n < 2 then 0 else 1 + log2_floor (n div 2))"
  by pat_completeness auto
termination
  by (relation "measure nat") auto

declare log2_floor.simps [simp del]

definition pow2 :: "int \<Rightarrow> rat" where
  "pow2 e = (if 0 \<le> e then 2 ^ nat e else 1 / 2 ^ nat (- e))"

text \<open>The exponent \<open>e\<close> of a positive rational \<open>x\<close>: \<open>2 ^ e \<le> x < 2 ^ (e + 1)\<close>.\<close>

definition binary_exponent :: "rat \<Rightarrow> int" where
  "binary_exponent x =
     (case quotient_of x of (n, d) \<Rightarrow>
        let e = log2_floor n - log2_floor d
        in if x < pow2 e then e - 1 else e)"

definition round_half_even :: "rat \<Rightarrow> int" where
  "round_half_even x =
     (let f = \<lfloor>x\<rfloor>; r = x - of_int f
      in if r < 1 / 2 then f else if 1 / 2 < r then f + 1 else if even f then f else f + 1)"

definition round_binary :: "nat \<Rightarrow> int \<Rightarrow> int \<Rightarrow> rat \<Rightarrow> pyfloat" where
  "round_binary p emin emax x =
     (if x = 0 then Fin 0
      else let a = \<bar>x\<bar>;
               e = max (binary_exponent a) emin;
               ulp = pow2 (e - int p + 1);
               m = round_half_even (a / ulp)
           in if emax < e \<or> (e = emax \<and> m = 2 ^ p) then (if 0 < x then PInf else NInf)
              else Fin (if 0 < x then of_int m * ulp else - (of_int m * ulp)))"

definition binary64 :: "rat \<Rightarrow> pyfloat" where
  "binary64 = round_binary 53 (- 1022) 1023"

definition binary32 :: "rat \<Rightarrow> pyfloat" where
  "binary32 = round_binary 24 (- 126) 127"

definition fround64 :: "pyfloat \<Rightarrow> pyfloat" where
  "fround64 x = (case x of Fin q \<Rightarrow> binary64 q | _ \<Rightarrow> x)"

definition fround32 :: "pyfloat \<Rightarrow> pyfloat" where
  "fround32 x = (case x of Fin q \<Rightarrow> binary32 q | _ \<Rightarrow> x)"

text \<open>The exact sum of two values and the exact product of a value and a rational, in
  the extended reals; an operation on doubles is the exact one followed by
  \<open>fround64\<close>.\<close>

fun fadd :: "pyfloat \<Rightarrow> pyfloat \<Rightarrow> pyfloat" where
  "fadd NaN b = NaN"
| "fadd a NaN = NaN"
| "fadd (Fin a) (Fin b) = Fin (a + b)"
| "fadd PInf NInf = NaN"
| "fadd NInf PInf = NaN"
| "fadd PInf b = PInf"
| "fadd NInf b = NInf"
| "fadd (Fin a) b = b"

fun fscale :: "rat \<Rightarrow> pyfloat \<Rightarrow> pyfloat" where
  "fscale k (Fin a) = Fin (k * a)"
| "fscale k NaN = NaN"
| "fscale k PInf = (if k = 0 then NaN else if 0 < k then PInf else NInf)"
| "fscale k NInf = (if k = 0 then NaN else if 0 < k then NInf else PInf)"

definition fadd64 :: "pyfloat \<Rightarrow> pyfloat \<Rightarrow> pyfloat" where
  "fadd64 a b = fround64 (fadd a b)"

definition fscale64 :: "rat \<Rightarrow> pyfloat \<Rightarrow> pyfloat" where
  "fscale64 k a = fround64 (fscale k a)"

text \<open>\<^verbatim>\<open>np.mean(a)\<close> of a one-dimensional array of doubles: NaN on the empty array;
  otherwise the elements are added, each sum rounded, and the total is divided by the
  number of elements. The order of the additions is that of \<^verbatim>\<open>numpy\<close> for one and
  two elements, the slices the method passes; \<^verbatim>\<open>numpy\<close> adds longer arrays in
  blocks.\<close>

definition np_mean :: "pyfloat list \<Rightarrow> pyfloat" where
  "np_mean xs =
     (case xs of
        [] \<Rightarrow> NaN
      | x # rest \<Rightarrow> fscale64 (1 / of_nat (length xs)) (foldl fadd64 x rest))"

text \<open>
  \<^verbatim>\<open>float(s)\<close> on a string of 8-bit characters, the reader of the worked examples:
  surrounding whitespace is dropped; an underscore may stand between two digits; then an
  optional sign and either \<^verbatim>\<open>inf\<close>, \<^verbatim>\<open>infinity\<close> or \<^verbatim>\<open>nan\<close> in any case, or a
  decimal number (digits with an optional point, at least one digit, and an optional
  exponent), read exactly and rounded to a double.
\<close>

definition is_digit :: "char \<Rightarrow> bool" where
  "is_digit c = (CHR ''0'' \<le> c \<and> c \<le> CHR ''9'')"

definition digits_val :: "string \<Rightarrow> int" where
  "digits_val ds = foldl (\<lambda>acc c. 10 * acc + (of_char c - 48)) 0 ds"

definition ascii_lower :: "char \<Rightarrow> char" where
  "ascii_lower c = (if CHR ''A'' \<le> c \<and> c \<le> CHR ''Z'' then char_of (of_char c + (32 :: nat)) else c)"

fun drop_underscores :: "char \<Rightarrow> string \<Rightarrow> string option" where
  "drop_underscores prev [] = (if prev = CHR ''_'' then None else Some [])"
| "drop_underscores prev (c # cs) =
     (if c = CHR ''_''
      then (if is_digit prev then drop_underscores c cs else None)
      else if prev = CHR ''_'' \<and> \<not> is_digit c then None
      else map_option (\<lambda>r. c # r) (drop_underscores c cs))"

definition pow10 :: "int \<Rightarrow> rat" where
  "pow10 e = (if 0 \<le> e then 10 ^ nat e else 1 / 10 ^ nat (- e))"

definition parse_exponent :: "string \<Rightarrow> int option" where
  "parse_exponent s =
     (case s of
        [] \<Rightarrow> Some 0
      | c # r \<Rightarrow>
          (if c = CHR ''e'' \<or> c = CHR ''E''
           then (let neg = (case r of d # ds \<Rightarrow> d = CHR ''-'' | [] \<Rightarrow> False);
                     ds = (case r of d # ds \<Rightarrow> (if d = CHR ''-'' \<or> d = CHR ''+'' then ds else r)
                                  | [] \<Rightarrow> [])
                 in if ds \<noteq> [] \<and> list_all is_digit ds
                    then Some (if neg then - digits_val ds else digits_val ds)
                    else None)
           else None))"

definition parse_unsigned :: "string \<Rightarrow> rat option" where
  "parse_unsigned s =
     (let ip = takeWhile is_digit s;
          r1 = dropWhile is_digit s;
          fp = (case r1 of c # r \<Rightarrow> (if c = CHR ''.'' then takeWhile is_digit r else []) | [] \<Rightarrow> []);
          r2 = (case r1 of c # r \<Rightarrow> (if c = CHR ''.'' then dropWhile is_digit r else r1) | [] \<Rightarrow> [])
      in if ip = [] \<and> fp = [] then None
         else map_option (\<lambda>e. of_int (digits_val (ip @ fp)) * pow10 (e - int (length fp)))
                (parse_exponent r2))"

definition parse_decimal :: float_reader where
  "parse_decimal s =
     (case (if CHR ''_'' \<in> set (strip s) then drop_underscores (CHR 0x00) (strip s)
            else Some (strip s)) of
        None \<Rightarrow> None
      | Some u \<Rightarrow>
          (let neg = (case u of c # r \<Rightarrow> c = CHR ''-'' | [] \<Rightarrow> False);
               body = (case u of c # r \<Rightarrow> (if c = CHR ''-'' \<or> c = CHR ''+'' then r else u)
                               | [] \<Rightarrow> []);
               low = map ascii_lower body
           in if low = ''inf'' \<or> low = ''infinity'' then Some (if neg then NInf else PInf)
              else if low = ''nan'' then Some NaN
              else map_option (\<lambda>q. binary64 (if neg then - q else q)) (parse_unsigned body)))"

subsection \<open>Domain records and the \<^verbatim>\<open>Bufr\<close> instance\<close>

text \<open>\<^verbatim>\<open>datetime.datetime(year, month, day, hour, minute)\<close>: arguments outside the C
  \<^verbatim>\<open>int\<close> range raise \<^verbatim>\<open>OverflowError\<close>, an impossible date or time raises
  \<^verbatim>\<open>ValueError\<close>.\<close>

record datetime =
  dt_year :: int
  dt_month :: int
  dt_day :: int
  dt_hour :: int
  dt_minute :: int

definition is_leap :: "int \<Rightarrow> bool" where
  "is_leap y = (y mod 4 = 0 \<and> (y mod 100 \<noteq> 0 \<or> y mod 400 = 0))"

definition days_in_month :: "int \<Rightarrow> int \<Rightarrow> int" where
  "days_in_month y m =
     (if m = 2 then (if is_leap y then 29 else 28)
      else if m = 4 \<or> m = 6 \<or> m = 9 \<or> m = 11 then 30 else 31)"

definition c_int :: "int \<Rightarrow> bool" where
  "c_int n = (- (2 ^ 31) \<le> n \<and> n < 2 ^ 31)"

definition datetime_new :: "int \<Rightarrow> int \<Rightarrow> int \<Rightarrow> int \<Rightarrow> int \<Rightarrow> py_error + datetime" where
  "datetime_new y m d h mi =
     (if \<not> (c_int y \<and> c_int m \<and> c_int d \<and> c_int h \<and> c_int mi) then Inl OverflowError
      else if 1 \<le> y \<and> y \<le> 9999 \<and> 1 \<le> m \<and> m \<le> 12 \<and> 1 \<le> d \<and> d \<le> days_in_month y m
              \<and> 0 \<le> h \<and> h \<le> 23 \<and> 0 \<le> mi \<and> mi \<le> 59
      then Inr \<lparr>dt_year = y, dt_month = m, dt_day = d, dt_hour = h, dt_minute = mi\<rparr>
      else Inl ValueError)"

record struct_time =
  date_time_validita :: "datetime option"
  acc_time :: "int option"
  acc_time_unit :: "string option"

definition StructTime :: struct_time where
  "StructTime = \<lparr>date_time_validita = None, acc_time = None, acc_time_unit = None\<rparr>"

record struct_source =
  name_source :: "string option"
  name_file :: "string option"
  emission_center :: "string option"

text \<open>The variable classes \<^verbatim>\<open>get_var_levs_from_meta\<close> instantiates, with their
  \<^verbatim>\<open>name\<close> and \<^verbatim>\<open>missing\<close> attributes (\<^verbatim>\<open>io_utils/rad_var_class.py\<close>).\<close>

datatype struct_variable = VarZ | VarPrmm | VarCumPrmm

fun var_name :: "struct_variable \<Rightarrow> string" where
  "var_name VarZ = ''Z''"
| "var_name VarPrmm = ''pr_mm''"
| "var_name VarCumPrmm = ''cum_pr_mm''"

fun var_missing :: "struct_variable \<Rightarrow> pyfloat" where
  "var_missing VarZ = Fin (- 70)"
| "var_missing VarPrmm = Fin (- 1)"
| "var_missing VarCumPrmm = Fin (- 1)"

text \<open>Of the grid, projection and product records only what \<^verbatim>\<open>read_bufr\<close> itself
  reads is kept: the grid's \<^verbatim>\<open>nx\<close> and \<^verbatim>\<open>ny\<close> (absent until added).\<close>

record struct_grid =
  nx :: "int option"
  ny :: "int option"

record struct_projection =
  proj_name :: "string option"

record radar_product =
  product_name :: string

text \<open>
  The attributes of a \<^verbatim>\<open>Bufr\<close> instance. The class body only annotates them, so
  each exists on an instance from its first assignment on: \<open>None\<close> is "not assigned yet"
  (reading it raises \<^verbatim>\<open>AttributeError\<close>). \<open>levels\<close> can be assigned the value
  \<^verbatim>\<open>None\<close>, which is \<open>Some None\<close>.
\<close>

record bufr =
  meta :: "meta_row list option"
  time :: "struct_time option"
  source :: "struct_source option"
  product :: "radar_product option"
  projection :: "struct_projection option"
  grid :: "struct_grid option"
  variabile :: "struct_variable option"
  levels :: "pyfloat list option option"

definition Bufr :: bufr where
  "Bufr = \<lparr>meta = None, time = None, source = None, product = None, projection = None,
           grid = None, variabile = None, levels = None\<rparr>"

definition getattr :: "'a option \<Rightarrow> py_error + 'a" where
  "getattr a = (case a of None \<Rightarrow> Inl AttributeError | Some v \<Rightarrow> Inr v)"

subsection \<open>\<^verbatim>\<open>Bufr.get_datetime_from_meta\<close>\<close>

definition all_unset :: "meta_row \<Rightarrow> bool" where
  "all_unset subdf = (F subdf = None \<and> X subdf = None \<and> Y subdf = None)"

text \<open>First \<^verbatim>\<open>try\<close>: the year. Only \<^verbatim>\<open>IndexError\<close> is caught, and then the
  local \<^verbatim>\<open>index_year\<close> stays unbound (\<open>None\<close>) and \<^verbatim>\<open>year\<close> stays -99.\<close>

definition dt_read_year :: "float_reader \<Rightarrow> meta_row list \<Rightarrow> py_error + (nat option \<times> int)" where
  "dt_read_year pf m =
     (case loc_fxy m ''3'' ''1'' ''11'' of
        [] \<Rightarrow> Inr (None, - 99)
      | index_year # rest \<Rightarrow>
          ebind (int_of_value pf (value_col (m ! index_year))) (\<lambda>year. Inr (Some index_year, year)))"

text \<open>Second \<^verbatim>\<open>try\<close>: month and day from the two rows after the year row. Reading the
  unbound \<^verbatim>\<open>index_year\<close> raises \<^verbatim>\<open>UnboundLocalError\<close>, which is not caught.\<close>

definition dt_read_month_day ::
  "float_reader \<Rightarrow> meta_row list \<Rightarrow> nat option \<Rightarrow> py_error + (int \<times> int)" where
  "dt_read_month_day pf m index_year =
     (case index_year of
        None \<Rightarrow> Inl UnboundLocalError
      | Some iy \<Rightarrow>
          if \<not> iy + 1 < length m then Inr (- 99, - 99)
          else
            ebind (if all_unset (m ! (iy + 1)) then int_of_value pf (value_col (m ! (iy + 1)))
                   else Inr (- 99))
              (\<lambda>month.
                 if \<not> iy + 2 < length m then Inr (month, - 99)
                 else
                   ebind (if all_unset (m ! (iy + 2)) then int_of_value pf (value_col (m ! (iy + 2)))
                          else Inr (- 99))
                     (\<lambda>day. Inr (month, day))))"

text \<open>Third \<^verbatim>\<open>try\<close>: hour, and minutes from the row after the hour row.\<close>

definition dt_read_hour_minutes :: "float_reader \<Rightarrow> meta_row list \<Rightarrow> py_error + (int \<times> int)" where
  "dt_read_hour_minutes pf m =
     (case loc_fxy m ''3'' ''1'' ''12'' of
        [] \<Rightarrow> Inr (- 99, - 99)
      | index_hour # rest \<Rightarrow>
          ebind (int_of_value pf (value_col (m ! index_hour)))
            (\<lambda>hour.
               if \<not> index_hour + 1 < length m then Inr (hour, - 99)
               else if all_unset (m ! (index_hour + 1))
               then ebind (int_of_value pf (value_col (m ! (index_hour + 1))))
                      (\<lambda>minutes. Inr (hour, minutes))
               else Inr (hour, - 99)))"

text \<open>Fourth \<^verbatim>\<open>try\<close>: -99 becomes 0, and a \<^verbatim>\<open>ValueError\<close> of the constructor
  becomes the result \<^verbatim>\<open>None\<close>.\<close>

definition dt_build :: "int \<Rightarrow> int \<Rightarrow> int \<Rightarrow> int \<Rightarrow> int \<Rightarrow> py_error + datetime option" where
  "dt_build year month day hour minutes =
     (let z = (\<lambda>v. if v \<noteq> - 99 then v else 0)
      in case datetime_new (z year) (z month) (z day) (z hour) (z minutes) of
           Inr dt \<Rightarrow> Inr (Some dt)
         | Inl ValueError \<Rightarrow> Inr None
         | Inl e \<Rightarrow> Inl e)"

definition get_datetime_from_meta :: "float_reader \<Rightarrow> bufr \<Rightarrow> py_error + datetime option" where
  "get_datetime_from_meta pf self =
     ebind (getattr (meta self)) (\<lambda>m.
     ebind (dt_read_year pf m) (\<lambda>(index_year, year).
     ebind (dt_read_month_day pf m index_year) (\<lambda>(month, day).
     ebind (dt_read_hour_minutes pf m) (\<lambda>(hour, minutes).
     dt_build year month day hour minutes))))"

subsection \<open>\<^verbatim>\<open>Bufr.get_acc_time_from_meta\<close>\<close>

text \<open>Each of the two inner \<^verbatim>\<open>try\<close> blocks catches \<^verbatim>\<open>IndexError\<close>,
  \<^verbatim>\<open>KeyError\<close> and \<^verbatim>\<open>TypeError\<close> and leaves \<^verbatim>\<open>acc_time\<close> as it was.\<close>

definition acc_try :: "int \<Rightarrow> py_error + int \<Rightarrow> py_error + int" where
  "acc_try acc r =
     (case r of
        Inr d \<Rightarrow> Inr (acc - d)
      | Inl IndexError \<Rightarrow> Inr acc
      | Inl KeyError \<Rightarrow> Inr acc
      | Inl TypeError \<Rightarrow> Inr acc
      | Inl e \<Rightarrow> Inl e)"

definition acc_period ::
  "float_reader \<Rightarrow> meta_row list \<Rightarrow> string \<Rightarrow> (pyfloat \<Rightarrow> pyfloat) \<Rightarrow> py_error + int" where
  "acc_period pf m y scale =
     (case loc_fxy m ''0'' ''4'' y of
        [] \<Rightarrow> Inl IndexError
      | ind_t # rest \<Rightarrow> ebind (py_float pf (value_col (m ! ind_t))) (\<lambda>v. py_int (scale v)))"

definition get_acc_time_from_meta :: "float_reader \<Rightarrow> bufr \<Rightarrow> py_error + int" where
  "get_acc_time_from_meta pf self =
     ebind (getattr (meta self)) (\<lambda>m.
       case loc_fxy m ''0'' ''8'' ''21'' of
         [] \<Rightarrow> Inr 0
       | i # rest \<Rightarrow>
           ebind (py_float pf (value_col (m ! i))) (\<lambda>sig.
             if sig = Fin 3
             then ebind (acc_try 0 (acc_period pf m ''23'' (fscale64 24))) (\<lambda>acc.
                    acc_try acc (acc_period pf m ''24'' (\<lambda>v. v)))
             else Inr 0))"

subsection \<open>\<^verbatim>\<open>Bufr.get_var_levs_from_meta\<close>\<close>

text \<open>Lines 798 to 818: the field-kind marker selects the variable class and the marker
  row; with no marker the method raises.\<close>

definition var_levs_select :: "meta_row list \<Rightarrow> py_error + (struct_variable \<times> nat)" where
  "var_levs_select m =
     (let index_z = loc_fxy m ''3'' ''13'' ''9'';
          index_rr = loc_fxy m ''3'' ''13'' ''10'';
          index_cum = loc_fxy m ''3'' ''13'' ''11'';
          index_cum2 = loc_fxy m ''0'' ''13'' ''11''
      in if length index_z > 0 then Inr (VarZ, index_z ! 0)
         else if length index_rr > 0 then Inr (VarPrmm, index_rr ! 0)
         else if length index_cum > 0 \<or> length index_cum2 > 0
         then Inr (VarCumPrmm, (case index_cum of i # rest \<Rightarrow> i | [] \<Rightarrow> index_cum2 ! 0))
         else Inl (PyException ''Non ho capito cosa contiene il bufr. Esco''))"

text \<open>
  \<^verbatim>\<open>a[1:] = rhs\<close> on a one-dimensional numpy array: \<open>rhs\<close> must have the length of
  the slice, or length one (it is then broadcast over the slice); anything else raises
  \<^verbatim>\<open>ValueError\<close>. \<^verbatim>\<open>a[0] = v\<close> raises \<^verbatim>\<open>IndexError\<close> on the empty array.
\<close>

definition assign_tail :: "'a list \<Rightarrow> 'a list \<Rightarrow> py_error + 'a list" where
  "assign_tail a rhs =
     (let n = length a - 1
      in if length rhs = n then Inr (take 1 a @ rhs)
         else if length rhs = 1 then Inr (take 1 a @ replicate n (rhs ! 0))
         else Inl ValueError)"

definition assign_first :: "'a list \<Rightarrow> 'a \<Rightarrow> py_error + 'a list" where
  "assign_first a v = (case a of [] \<Rightarrow> Inl IndexError | x # xs \<Rightarrow> Inr (v # xs))"

text \<open>\<^verbatim>\<open>levels[levels != "missing"].astype(float)\<close> on an object array: a
  \<^verbatim>\<open>None\<close> cell becomes NaN, a string is read as a float.\<close>

fun astype_float :: "float_reader \<Rightarrow> string option list \<Rightarrow> py_error + pyfloat list" where
  "astype_float pf [] = Inr []"
| "astype_float pf (c # cs) =
     ebind (case c of None \<Rightarrow> Inr NaN | Some s \<Rightarrow> py_float pf (Some s)) (\<lambda>x.
     ebind (astype_float pf cs) (\<lambda>xs. Inr (x # xs)))"

text \<open>Lines 821 to 823: the lower bound at the marker row, with the patch for
  reflectivity tables of the DPC.\<close>

definition var_levs_low_bounds ::
  "float_reader \<Rightarrow> bufr \<Rightarrow> meta_row list \<Rightarrow> struct_variable \<Rightarrow> nat \<Rightarrow> py_error + pyfloat" where
  "var_levs_low_bounds pf self m struct_var index0 =
     ebind (py_float pf (value_col (m ! index0))) (\<lambda>lb0.
     ebind (getattr (source self)) (\<lambda>src.
       Inr (if emission_center src = Some ''DPC'' \<and> var_name struct_var = ''Z'' \<and> lb0 = Fin 0
            then Fin (- 31) else lb0)))"

text \<open>Lines 824 to 829: one row is skipped when a replication descriptor follows the
  marker.\<close>

definition var_levs_index :: "meta_row list \<Rightarrow> nat \<Rightarrow> py_error + nat" where
  "var_levs_index m index0 =
     ebind (iloc m (index0 + 1)) (\<lambda>nxt.
       Inr (if (F nxt, X nxt, Y nxt) = (Some ''1'', Some ''1'', Some ''0'')
            then index0 + 1 else index0))"

text \<open>Line 832: the level count, in the row after.\<close>

definition var_levs_nlev :: "float_reader \<Rightarrow> meta_row list \<Rightarrow> nat \<Rightarrow> py_error + nat" where
  "var_levs_nlev pf m index1 =
     ebind (iloc m (index1 + 1)) (\<lambda>cnt.
     ebind (int_of_value pf (value_col cnt)) (\<lambda>n. Inr (nat (max 0 n))))"

text \<open>Lines 835 to 840: the level array. The cells equal to "missing" are dropped; the
  elements after the first are overwritten with the elements greater than the lower
  bound; the first element is overwritten with the lower bound.\<close>

definition var_levs_array ::
  "float_reader \<Rightarrow> meta_row list \<Rightarrow> nat \<Rightarrow> nat \<Rightarrow> pyfloat \<Rightarrow> py_error + pyfloat list" where
  "var_levs_array pf m index1 nlev low_bounds =
     ebind (iloc_list m (index1 # [index1 + 2 ..< index1 + 2 + nlev])) (\<lambda>rows.
     ebind (astype_float pf (filter (\<lambda>c. c \<noteq> Some ''missing'') (map value_col rows))) (\<lambda>levs0.
     ebind (assign_tail levs0 (filter (\<lambda>l. fgt l low_bounds) levs0)) (\<lambda>levs1.
     assign_first levs1 low_bounds)))"

text \<open>Lines 820 to 840 together: the lower bound and the level array as read.\<close>

definition var_levs_read ::
  "float_reader \<Rightarrow> bufr \<Rightarrow> meta_row list \<Rightarrow> struct_variable \<Rightarrow> nat
     \<Rightarrow> py_error + (pyfloat \<times> pyfloat list)" where
  "var_levs_read pf self m struct_var index0 =
     ebind (var_levs_low_bounds pf self m struct_var index0) (\<lambda>low_bounds.
     ebind (var_levs_index m index0) (\<lambda>index1.
     ebind (var_levs_nlev pf m index1) (\<lambda>nlev.
     ebind (var_levs_array pf m index1 nlev low_bounds) (\<lambda>levs.
     Inr (low_bounds, levs)))))"

text \<open>Lines 842 to 852: the final levels for the fill method; an unrecognised method
  raises.\<close>

definition var_levs_fill :: "string \<Rightarrow> pyfloat list \<Rightarrow> py_error + pyfloat list" where
  "var_levs_fill fill_method levs =
     (if fill_method = ''min'' then assign_tail levs (butlast levs)
      else if fill_method = ''ave''
      then assign_tail levs
             (map (\<lambda>i. np_mean (py_slice i (i + 2) levs)) [0 ..< length levs - 1])
      else if fill_method = ''max'' then Inr levs
      else Inl (PyException ''Parametro fill_method passato in modo scorretto. Esco''))"

definition get_var_levs_from_meta ::
  "float_reader \<Rightarrow> bufr \<Rightarrow> string \<Rightarrow> py_error + (struct_variable \<times> pyfloat list)" where
  "get_var_levs_from_meta pf self fill_method =
     ebind (getattr (meta self)) (\<lambda>m.
     ebind (var_levs_select m) (\<lambda>(struct_var, index0).
     ebind (var_levs_read pf self m struct_var index0) (\<lambda>(low_bounds, levs).
     ebind (var_levs_fill fill_method levs) (\<lambda>final.
     Inr (struct_var, final)))))"

text \<open>The two caller contracts the specification names: a field-kind marker is present,
  and the fill method is recognised.\<close>

definition has_field_kind_marker :: "meta_row list \<Rightarrow> bool" where
  "has_field_kind_marker m =
     (loc_fxy m ''3'' ''13'' ''9'' \<noteq> [] \<or> loc_fxy m ''3'' ''13'' ''10'' \<noteq> []
      \<or> loc_fxy m ''3'' ''13'' ''11'' \<noteq> [] \<or> loc_fxy m ''0'' ''13'' ''11'' \<noteq> [])"

definition recognised_fill_method :: "string \<Rightarrow> bool" where
  "recognised_fill_method fill_method = (fill_method \<in> {''min'', ''ave'', ''max''})"

definition raises :: "py_error + 'a \<Rightarrow> bool" where
  "raises r = (case r of Inl e \<Rightarrow> True | Inr v \<Rightarrow> False)"

subsection \<open>Worked examples\<close>

definition marker_row :: "string \<Rightarrow> string \<Rightarrow> string \<Rightarrow> string \<Rightarrow> meta_row" where
  "marker_row f x y v =
     \<lparr>F = Some f, X = Some x, Y = Some y, value_col = Some v,
      id5 = None, id6 = None, id7 = None, descriptor = None\<rparr>"

definition value_row :: "string \<Rightarrow> meta_row" where
  "value_row v =
     \<lparr>F = None, X = None, Y = None, value_col = Some v,
      id5 = None, id6 = None, id7 = None, descriptor = None\<rparr>"

text \<open>A reflectivity table with lower bound 0 and three further levels 1, 2, 3.\<close>

definition levels_0123_table :: "meta_row list" where
  "levels_0123_table =
     [marker_row ''3'' ''13'' ''9'' ''0'', marker_row ''0'' ''31'' ''1'' ''3'',
      value_row ''1'', value_row ''2'', value_row ''3'']"

text \<open>Reflectivity tables with lower bound 0 whose level rows are 1, 0, 3 and
  -1, 5, -2: not every level is above the lower bound.\<close>

definition levels_0103_table :: "meta_row list" where
  "levels_0103_table =
     [marker_row ''3'' ''13'' ''9'' ''0'', marker_row ''0'' ''31'' ''1'' ''3'',
      value_row ''1'', value_row ''0'', value_row ''3'']"

definition levels_below_table :: "meta_row list" where
  "levels_below_table =
     [marker_row ''3'' ''13'' ''9'' ''0'', marker_row ''0'' ''31'' ''1'' ''3'',
      value_row ''-1'', value_row ''5'', value_row ''-2'']"

text \<open>A table that ends at its field-kind marker row.\<close>

definition marker_only_table :: "meta_row list" where
  "marker_only_table = [marker_row ''3'' ''13'' ''9'' ''0'']"

text \<open>A table with a grid row and no date, time or field-kind marker.\<close>

definition grid_only_table :: "meta_row list" where
  "grid_only_table = [marker_row ''0'' ''30'' ''21'' ''256.000'']"

definition bufr_with :: "meta_row list \<Rightarrow> bufr" where
  "bufr_with m =
     Bufr\<lparr>meta := Some m,
          source := Some \<lparr>name_source = Some ''SPC'', name_file = None,
                          emission_center = Some ''Arpae Emilia-Romagna''\<rparr>\<rparr>"

subsection \<open>\<^verbatim>\<open>Bufr.read_bufr\<close>\<close>

text \<open>
  Three extractors that \<^verbatim>\<open>read_bufr\<close> calls on a non-empty table depend on
  file-name conventions and on the external projection library; they are parameters of
  the model, together with the float reader. \<^verbatim>\<open>get_source_product_from_meta\<close>
  catches every exception itself and always returns its pair.
\<close>

record bufr_env =
  float_of :: float_reader
  get_source_product_from_meta :: "bufr \<Rightarrow> struct_source \<times> radar_product"
  get_projection_from_meta :: "bufr \<Rightarrow> py_error + struct_projection"
  get_grid_from_meta :: "bufr \<Rightarrow> py_error + struct_grid"

record macro =
  macro_TIME :: struct_time
  macro_GRID :: struct_grid
  macro_SOURCE :: struct_source
  macro_PRODUCT :: radar_product
  macro_VARIABILE :: struct_variable
  macro_PROJECTION :: struct_projection

text \<open>The \<^verbatim>\<open>try\<close> around the two time extractors catches every exception: the
  assignments made before the failing call stay.\<close>

definition read_bufr_time :: "float_reader \<Rightarrow> bufr \<Rightarrow> struct_time \<Rightarrow> struct_time" where
  "read_bufr_time pf self t =
     (case get_datetime_from_meta pf self of
        Inl e \<Rightarrow> t
      | Inr dt \<Rightarrow>
          (case get_acc_time_from_meta pf self of
             Inl e \<Rightarrow> t\<lparr>date_time_validita := dt\<rparr>
           | Inr acc \<Rightarrow>
               t\<lparr>date_time_validita := dt, acc_time := Some acc, acc_time_unit := Some ''hours''\<rparr>))"

text \<open>
  Lines 905 to 931. \<open>meta_file\<close> is what reading the lines of the metadata file gives
  (an exception when it cannot be read, which is caught and leaves the empty table).
  The result is the instance as the block leaves it and, when an extractor raises,
  the exception that leaves \<^verbatim>\<open>read_bufr\<close>.
\<close>

definition read_bufr_metadata ::
  "bufr_env \<Rightarrow> bufr \<Rightarrow> py_error + string list \<Rightarrow> string \<Rightarrow> bufr \<times> (py_error + unit)" where
  "read_bufr_metadata env self meta_file fill_method =
     (let df_meta = (case meta_file of Inl e \<Rightarrow> [] | Inr lines \<Rightarrow> read_meta lines);
          self1 = self\<lparr>meta := Some df_meta, time := Some StructTime\<rparr>
      in if length df_meta > 0
         then
           (let self2 = self1\<lparr>time := Some (read_bufr_time (float_of env) self1 StructTime)\<rparr>;
                sp = get_source_product_from_meta env self2;
                self3 = self2\<lparr>source := Some (fst sp), product := Some (snd sp)\<rparr>
            in case get_projection_from_meta env self3 of
                 Inl e \<Rightarrow> (self3, Inl e)
               | Inr pr \<Rightarrow>
                   (let self4 = self3\<lparr>projection := Some pr\<rparr>
                    in case get_grid_from_meta env self4 of
                         Inl e \<Rightarrow> (self4, Inl e)
                       | Inr g \<Rightarrow>
                           (let self5 = self4\<lparr>grid := Some g\<rparr>
                            in case get_var_levs_from_meta (float_of env) self5 fill_method of
                                 Inl e \<Rightarrow> (self5, Inl e)
                               | Inr vl \<Rightarrow>
                                   (self5\<lparr>variabile := Some (fst vl),
                                          levels := Some (Some (snd vl))\<rparr>, Inr ()))))
         else (self1\<lparr>levels := Some None\<rparr>, Inr ()))"

text \<open>\<^verbatim>\<open>np.array(lines_rb).reshape((ny, nx))\<close>: the sizes must multiply to the
  number of bytes; one size may be -1 and is then inferred.\<close>

definition reshape2 :: "nat list \<Rightarrow> int \<Rightarrow> int \<Rightarrow> py_error + nat list list" where
  "reshape2 bytes rows cols =
     (let n = int (length bytes);
          rows' = (if rows = - 1 \<and> 0 < cols \<and> n mod cols = 0 then n div cols else rows);
          cols' = (if cols = - 1 \<and> 0 < rows \<and> n mod rows = 0 then n div rows else cols)
      in if 0 \<le> rows' \<and> 0 \<le> cols' \<and> rows' * cols' = n
         then Inr (map (\<lambda>r. py_slice (r * nat cols') (r * nat cols' + nat cols') bytes)
                     [0 ..< nat rows'])
         else Inl ValueError)"

text \<open>
  Lines 934 to 959, entered when \<^verbatim>\<open>self.levels\<close> is not \<^verbatim>\<open>None\<close>. \<open>data_file\<close>
  is what reading the bytes of the data file gives; a failure is caught and leaves the
  local \<^verbatim>\<open>lines_rb\<close> unbound, and a caught failure of the reshape leaves
  \<^verbatim>\<open>cont\<close> unbound (\<open>None\<close>). Each output cell is the level its code indexes, or
  the variable's missing value when no level has that index.
\<close>

definition read_bufr_cont :: "bufr \<Rightarrow> py_error + nat list \<Rightarrow> py_error + nat list list option" where
  "read_bufr_cont self data_file =
     (case data_file of
        Inl e \<Rightarrow> Inl UnboundLocalError
      | Inr lines_rb \<Rightarrow>
          (case grid self of
             None \<Rightarrow> Inr None
           | Some g \<Rightarrow>
               (case (ny g, nx g) of
                  (Some rows, Some cols) \<Rightarrow>
                     (case reshape2 lines_rb rows cols of
                        Inr cont \<Rightarrow> Inr (Some cont)
                      | Inl e \<Rightarrow> Inr None)
                | _ \<Rightarrow> Inr None)))"

definition read_bufr_data ::
  "bufr \<Rightarrow> pyfloat list \<Rightarrow> py_error + nat list \<Rightarrow> py_error + pyfloat list list" where
  "read_bufr_data self levs data_file =
     ebind (read_bufr_cont self data_file) (\<lambda>cont.
     ebind (getattr (grid self)) (\<lambda>g.
     ebind (getattr (ny g)) (\<lambda>rows.
     ebind (getattr (nx g)) (\<lambda>cols.
       if rows < 0 \<or> cols < 0 then Inl ValueError
       else
         ebind (getattr (variabile self)) (\<lambda>v.
           if levs = [] then Inr (replicate (nat rows) (replicate (nat cols) (var_missing v)))
           else (case cont of
                   None \<Rightarrow> Inl UnboundLocalError
                 | Some c \<Rightarrow>
                     Inr (map (map (\<lambda>code. if code < length levs then levs ! code
                                              else var_missing v)) c)))))))"

text \<open>Lines 961 to 969: the dictionary reads six instance attributes in this order;
  then the local \<^verbatim>\<open>out_field\<close> is read (\<open>None\<close>: never assigned).\<close>

definition read_bufr_macro :: "bufr \<Rightarrow> py_error + macro" where
  "read_bufr_macro self =
     ebind (getattr (time self)) (\<lambda>t.
     ebind (getattr (grid self)) (\<lambda>g.
     ebind (getattr (source self)) (\<lambda>s.
     ebind (getattr (product self)) (\<lambda>p.
     ebind (getattr (variabile self)) (\<lambda>v.
     ebind (getattr (projection self)) (\<lambda>pr.
       Inr \<lparr>macro_TIME = t, macro_GRID = g, macro_SOURCE = s, macro_PRODUCT = p,
            macro_VARIABILE = v, macro_PROJECTION = pr\<rparr>))))))"

definition read_bufr ::
  "bufr_env \<Rightarrow> bufr \<Rightarrow> py_error + nat list \<Rightarrow> py_error + string list \<Rightarrow> string
     \<Rightarrow> bufr \<times> (py_error + macro \<times> pyfloat list list)" where
  "read_bufr env self data_file meta_file fill_method =
     (case read_bufr_metadata env self meta_file fill_method of
        (self', Inl e) \<Rightarrow> (self', Inl e)
      | (self', Inr u) \<Rightarrow>
          (self',
           ebind (getattr (levels self')) (\<lambda>lv.
           ebind (case lv of
                    None \<Rightarrow> Inr None
                  | Some levs \<Rightarrow> ebind (read_bufr_data self' levs data_file) (\<lambda>f. Inr (Some f)))
             (\<lambda>out_field.
           ebind (read_bufr_macro self') (\<lambda>m.
             case out_field of
               None \<Rightarrow> Inl UnboundLocalError
             | Some f \<Rightarrow> Inr (m, f))))))"

text \<open>An environment for the worked examples: the decimal reader, and extractors that
  return fixed records.\<close>

definition example_env :: bufr_env where
  "example_env =
     \<lparr>float_of = parse_decimal,
      get_source_product_from_meta =
        (\<lambda>self. (\<lparr>name_source = Some ''SPC'', name_file = None,
                      emission_center = Some ''Arpae Emilia-Romagna''\<rparr>,
                    \<lparr>product_name = ''LBM''\<rparr>)),
      get_projection_from_meta = (\<lambda>self. Inr \<lparr>proj_name = None\<rparr>),
      get_grid_from_meta = (\<lambda>self. Inr \<lparr>nx = Some 2, ny = Some 2\<rparr>)\<rparr>"

section \<open>ODIM polar volumes: \<^verbatim>\<open>odim/odim_utils.py\<close>, \<^verbatim>\<open>odim/odim_pvol.py\<close>,
  \<^verbatim>\<open>odim/odim_operations.py\<close>\<close>

subsection \<open>Attribute values and group objects\<close>

text \<open>
  The values an attribute holds, in memory and in the file: \<^verbatim>\<open>None\<close>, a Python
  \<^verbatim>\<open>str\<close>, a numpy byte string (\<open>PBytes w s\<close>: item size \<open>w\<close>, content \<open>s\<close>; in
  the file a fixed-length string of \<open>w\<close> bytes), a number (exact), and arrays of
  floating-point values of rank one and two.
  In this part a Python \<^verbatim>\<open>str\<close> is held as the bytes of its UTF-8 encoding, so that
  ASCII text is itself, a character beyond ASCII is a byte sequence with bytes from 128,
  and equality, concatenation, the search of an ASCII substring and the order of names
  are those of the strings.
\<close>

datatype pyval =
    PNone
  | PStr string
  | PBytes nat string
  | PNum rat
  | PArr "pyfloat list"
  | PArr2 "pyfloat list list"

type_synonym array2 = "pyfloat list list"

text \<open>
  An instance of \<^verbatim>\<open>OdimGroup\<close> or of a subclass: its \<^verbatim>\<open>hierarchy\<close> (the path of
  the group in the file) and the other entries of its \<^verbatim>\<open>__dict__\<close>, in the order the
  constructor assigns them.
\<close>

record odim_group =
  hierarchy :: string
  obj_dict :: "(string \<times> pyval) list"

definition struct_dict :: "odim_group \<Rightarrow> (string \<times> pyval) list" where
  "struct_dict g = (''hierarchy'', PStr (hierarchy g)) # obj_dict g"

text \<open>\<^verbatim>\<open>StructBase.struct_hasitem\<close>, \<^verbatim>\<open>StructBase.struct_getitem\<close>, attribute
  access \<^verbatim>\<open>obj.name\<close> and \<^verbatim>\<open>obj.__setattr__(name, v)\<close>.\<close>

definition struct_hasitem :: "odim_group \<Rightarrow> string \<Rightarrow> bool" where
  "struct_hasitem g param = (param \<in> set (map fst (struct_dict g)))"

definition struct_getitem :: "odim_group \<Rightarrow> string \<Rightarrow> pyval" where
  "struct_getitem g param = (case map_of (struct_dict g) param of Some v \<Rightarrow> v | None \<Rightarrow> PNone)"

definition obj_attr :: "odim_group \<Rightarrow> string \<Rightarrow> py_error + pyval" where
  "obj_attr g name = (case map_of (struct_dict g) name of Some v \<Rightarrow> Inr v | None \<Rightarrow> Inl AttributeError)"

definition obj_setattr :: "odim_group \<Rightarrow> string \<Rightarrow> pyval \<Rightarrow> odim_group" where
  "obj_setattr g name v =
     (if name = ''hierarchy''
      then g\<lparr>hierarchy := (case v of PStr s \<Rightarrow> s | _ \<Rightarrow> hierarchy g)\<rparr>
      else g\<lparr>obj_dict := AList.update name v (obj_dict g)\<rparr>)"

text \<open>The constructors of the group classes a polar volume uses. An argument left at
  its default is \<^verbatim>\<open>None\<close>, but for \<^verbatim>\<open>gain\<close> (1.0) and \<^verbatim>\<open>offset\<close> (0.0).\<close>

definition OdimWhat :: "string \<Rightarrow> pyval \<Rightarrow> pyval \<Rightarrow> pyval \<Rightarrow> pyval \<Rightarrow> pyval \<Rightarrow> odim_group" where
  "OdimWhat h obj version date tm src =
     \<lparr>hierarchy = h,
      obj_dict = [(''object'', obj), (''version'', version), (''date'', date), (''time'', tm),
                (''source'', src)]\<rparr>"

definition OdimWherePolar :: "string \<Rightarrow> pyval \<Rightarrow> pyval \<Rightarrow> pyval \<Rightarrow> odim_group" where
  "OdimWherePolar h lon lat height =
     \<lparr>hierarchy = h, obj_dict = [(''lon'', lon), (''lat'', lat), (''height'', height)]\<rparr>"

definition OdimHow :: "string \<Rightarrow> odim_group" where
  "OdimHow h =
     \<lparr>hierarchy = h,
      obj_dict = map (\<lambda>k. (k, PNone))
        [''task'', ''startepochs'', ''endepochs'', ''system'', ''software'', ''sw_version'',
         ''zr_a'', ''zr_b'', ''kr_a'', ''kr_b'', ''simulated'']\<rparr>"

definition OdimWhatDset_fields :: "string list" where
  "OdimWhatDset_fields =
     [''product'', ''prodpar'', ''quantity'', ''startdate'', ''starttime'', ''enddate'',
      ''endtime'', ''gain'', ''offset'', ''nodata'', ''undetect'']"

definition OdimWhatDset :: "string \<Rightarrow> odim_group" where
  "OdimWhatDset h =
     \<lparr>hierarchy = h,
      obj_dict = map (\<lambda>k. (k, if k = ''gain'' then PNum 1 else if k = ''offset'' then PNum 0
                              else PNone))
                 OdimWhatDset_fields\<rparr>"

definition OdimWhatDset_data ::
  "string \<Rightarrow> pyval \<Rightarrow> pyval \<Rightarrow> pyval \<Rightarrow> pyval \<Rightarrow> pyval \<Rightarrow> odim_group" where
  "OdimWhatDset_data h quantity gain offset nodata undetect =
     \<lparr>hierarchy = h,
      obj_dict = map (\<lambda>k. (k, if k = ''quantity'' then quantity else if k = ''gain'' then gain
                              else if k = ''offset'' then offset
                              else if k = ''nodata'' then nodata
                              else if k = ''undetect'' then undetect else PNone))
                 OdimWhatDset_fields\<rparr>"

definition OdimWherePolarDset :: "string \<Rightarrow> pyval \<Rightarrow> odim_group" where
  "OdimWherePolarDset h elangle =
     \<lparr>hierarchy = h,
      obj_dict = [(''elangle'', elangle), (''nbins'', PNone), (''rstart'', PNone),
                (''rscale'', PNone), (''nrays'', PNone), (''a1gate'', PNone)]\<rparr>"

definition OdimHowRadarDset :: "string \<Rightarrow> odim_group" where
  "OdimHowRadarDset h =
     \<lparr>hierarchy = h,
      obj_dict = map (\<lambda>k. (k, PNone))
        [''beamwidth'', ''wavelength'', ''rpm'', ''pulsewidth'', ''RXbandwidth'', ''lowprf'',
         ''highprf'', ''TXloss'', ''RXloss'', ''radomeloss'', ''antgain'', ''beamwH'',
         ''beamwV'', ''gasattn'', ''radconstH'', ''radconstV'', ''nomTXpower'', ''TXpower'',
         ''NI'', ''Vsamples'']\<rparr>"

definition OdimHowPolarDset :: "string \<Rightarrow> odim_group" where
  "OdimHowPolarDset h =
     \<lparr>hierarchy = h,
      obj_dict = map (\<lambda>k. (k, PNone))
        [''azmethod'', ''binmethod'', ''elangles'', ''startazA'', ''stopazA'', ''startazT'',
         ''stopazT'']\<rparr>"

subsection \<open>\<^verbatim>\<open>OdimHierarchyPvol\<close> and \<^verbatim>\<open>setistance\<close>\<close>

text \<open>
  \<open>pvol_args\<close> are the eleven arguments of \<^verbatim>\<open>setistance\<close>, which it stores as they
  come; \<open>pvol\<close> adds the two derived lists. \<^verbatim>\<open>setistance\<close> computes \<open>elangles\<close>
  and never assigns \<open>varsnames\<close> (the line is commented out), so \<open>varsnames\<close> is
  \<open>None\<close> until \<^verbatim>\<open>read_odim\<close> assigns it. The datasets of one elevation are the
  list of its two-dimensional arrays.
\<close>

record pvol_args =
  root_what :: odim_group
  root_where :: odim_group
  root_how :: odim_group
  n_group_dataset :: int
  n_datasets :: int
  group_datasets_what :: "odim_group list"
  group_datasets_where :: "odim_group list"
  group_datasets_how_radar :: "odim_group list"
  group_datasets_how_polar :: "odim_group list"
  datasets :: "array2 list list"
  group_datasets_data_what :: "odim_group list list"

record pvol = pvol_args +
  elangles :: "pyval list"
  varsnames :: "pyval list option"

text \<open>\<^verbatim>\<open>xs[i]\<close> for \<open>i \<ge> 0\<close>.\<close>

definition py_index :: "'a list \<Rightarrow> nat \<Rightarrow> py_error + 'a" where
  "py_index xs i = (if i < length xs then Inr (xs ! i) else Inl IndexError)"

text \<open>A loop whose body may raise: the first exception ends it.\<close>

fun emap :: "('a \<Rightarrow> py_error + 'b) \<Rightarrow> 'a list \<Rightarrow> py_error + 'b list" where
  "emap f [] = Inr []"
| "emap f (x # xs) = ebind (f x) (\<lambda>y. ebind (emap f xs) (\<lambda>ys. Inr (y # ys)))"

fun efold :: "('a \<Rightarrow> 's \<Rightarrow> py_error + 's) \<Rightarrow> 'a list \<Rightarrow> 's \<Rightarrow> py_error + 's" where
  "efold f [] s = Inr s"
| "efold f (x # xs) s = ebind (f x s) (efold f xs)"

text \<open>
  \<open>old_varsnames\<close> is the \<open>varsnames\<close> attribute the instance has when the method is
  called. The two \<^verbatim>\<open>assert\<close>s are checked (Python run without \<^verbatim>\<open>-O\<close>).
\<close>

definition setistance :: "pyval list option \<Rightarrow> pvol_args \<Rightarrow> py_error + pvol" where
  "setistance old_varsnames args =
     (if int (length (datasets args)) \<noteq> n_group_dataset args then Inl AssertionError
      else if int (length (group_datasets_data_what args)) \<noteq> n_group_dataset args
      then Inl AssertionError
      else
        ebind (emap (\<lambda>i. ebind (py_index (group_datasets_where args) i) (\<lambda>g. obj_attr g ''elangle''))
                 [0 ..< nat (n_group_dataset args)])
          (\<lambda>els. Inr (pvol_args.extend args (pvol.fields els old_varsnames))))"

subsection \<open>\<^verbatim>\<open>get_group_by_elangle\<close> and \<^verbatim>\<open>get_data_by_elangle\<close>\<close>

text \<open>
  \<^verbatim>\<open>max(xs)\<close> on a list of elevation angles (declared
  \<^verbatim>\<open>List[Optional[float]]\<close>): \<^verbatim>\<open>ValueError\<close> on the empty list; the element of a
  one-element list; otherwise the greatest number, and \<^verbatim>\<open>TypeError\<close> when an element
  is not a number.
\<close>

definition num_of :: "pyval \<Rightarrow> rat option" where
  "num_of v = (case v of PNum q \<Rightarrow> Some q | _ \<Rightarrow> None)"

definition py_max :: "pyval list \<Rightarrow> py_error + pyval" where
  "py_max xs =
     (case xs of
        [] \<Rightarrow> Inl ValueError
      | [x] \<Rightarrow> Inr x
      | x # rest \<Rightarrow>
          (if list_all (\<lambda>v. num_of v \<noteq> None) xs
           then Inr (PNum (fold max (map (\<lambda>v. the (num_of v)) rest) (the (num_of x))))
           else Inl TypeError))"

text \<open>\<^verbatim>\<open>xs.index(v)\<close>: the first position of \<open>v\<close>, or \<^verbatim>\<open>ValueError\<close>.\<close>

fun list_index :: "'a list \<Rightarrow> 'a \<Rightarrow> py_error + nat" where
  "list_index [] v = Inl ValueError"
| "list_index (x # xs) v = (if x = v then Inr 0 else ebind (list_index xs v) (\<lambda>i. Inr (Suc i)))"

definition get_group_by_elangle ::
  "pvol \<Rightarrow> rat \<Rightarrow> (pvol \<Rightarrow> 'a list) \<Rightarrow> py_error + 'a" where
  "get_group_by_elangle self elangle namegroup =
     ebind (list_index (elangles self) (PNum elangle)) (\<lambda>i. py_index (namegroup self) i)"

text \<open>The candidate quantity names for an elevation angle: \<^verbatim>\<open>varsnames\<close> without
  (the first) "Z_VD" when the angle is the greatest of \<^verbatim>\<open>elangles\<close> and "Z_VD" is
  among the names.\<close>

definition varsnames_elangle :: "pvol \<Rightarrow> rat \<Rightarrow> py_error + pyval list" where
  "varsnames_elangle self elangle =
     ebind (getattr (varsnames self)) (\<lambda>vs.
     ebind (py_max (elangles self)) (\<lambda>mx.
       Inr (if PNum elangle = mx \<and> PStr ''Z_VD'' \<in> set vs then remove1 (PStr ''Z_VD'') vs
            else vs)))"

text \<open>\<^verbatim>\<open>raw * gain + offset\<close> with the two coefficients numbers (the class declares
  them \<^verbatim>\<open>float\<close>); another kind of value is a \<^verbatim>\<open>TypeError\<close>. The product and
  the sum are the exact ones: their rounding depends on the element type of the array
  and of the coefficients, which the model does not record.\<close>

definition affine :: "rat \<Rightarrow> rat \<Rightarrow> pyfloat \<Rightarrow> pyfloat" where
  "affine g ofs x = fadd (fscale g x) (Fin ofs)"

definition decode_raw :: "array2 \<Rightarrow> pyval \<Rightarrow> pyval \<Rightarrow> py_error + array2" where
  "decode_raw raw gain offset =
     (case (num_of gain, num_of offset) of
        (Some g, Some ofs) \<Rightarrow> Inr (map (map (affine g ofs)) raw)
      | _ \<Rightarrow> Inl TypeError)"

definition get_data_by_elangle :: "pvol \<Rightarrow> rat \<Rightarrow> string \<Rightarrow> py_error + array2" where
  "get_data_by_elangle self elangle quantity =
     ebind (varsnames_elangle self elangle) (\<lambda>names.
     ebind (list_index names (PStr quantity)) (\<lambda>indexq.
     ebind (list_index (elangles self) (PNum elangle)) (\<lambda>i.
     ebind (py_index (datasets self) i) (\<lambda>stack.
     ebind (py_index stack indexq) (\<lambda>raw.
     ebind (py_index (group_datasets_data_what self) i) (\<lambda>whats.
     ebind (py_index whats indexq) (\<lambda>w.
     ebind (obj_attr w ''offset'') (\<lambda>offset.
     ebind (py_index (group_datasets_data_what self) i) (\<lambda>whats2.
     ebind (py_index whats2 indexq) (\<lambda>w2.
     ebind (obj_attr w2 ''gain'') (\<lambda>gain.
       decode_raw raw gain offset)))))))))))"

subsection \<open>The hierarchical store\<close>

text \<open>
  An HDF5 file as \<^verbatim>\<open>h5py\<close> shows it: every object has a path from the root, a
  group carries attributes, a dataset carries a two-dimensional array. The file is the
  list of its objects in the order of their creation, keyed by the components of their
  paths, the root group at \<open>[]\<close>. A group also records whether it tracks the order in
  which its members were created (\<open>H5Group t a\<close>: \<open>t\<close> the flag, \<open>a\<close> the
  attributes); \<^verbatim>\<open>h5py.File(name, "w")\<close>, \<^verbatim>\<open>create_group\<close> and
  \<^verbatim>\<open>require_group\<close> create groups that do not. The compression of datasets is not
  modelled.
\<close>

datatype h5node = H5Group bool "(string \<times> pyval) list" | H5Dataset array2

type_synonym h5file = "(string list \<times> h5node) list"

definition h5_new :: h5file where
  "h5_new = [([], H5Group False [])]"

text \<open>The components of a path: \<^verbatim>\<open>"dataset1/data1/what"\<close> has three.\<close>

fun split_path_from :: "string \<Rightarrow> string \<Rightarrow> string list" where
  "split_path_from cur [] = (if cur = [] then [] else [cur])"
| "split_path_from cur (c # cs) =
     (if c = CHR ''/''
      then (if cur = [] then split_path_from [] cs else cur # split_path_from [] cs)
      else split_path_from (cur @ [c]) cs)"

definition split_path :: "string \<Rightarrow> string list" where
  "split_path s = split_path_from [] s"

definition proper_prefixes :: "'a list \<Rightarrow> 'a list list" where
  "proper_prefixes p = map (\<lambda>n. take n p) [1 ..< length p]"

definition is_dataset :: "h5node option \<Rightarrow> bool" where
  "is_dataset n = (case n of Some (H5Dataset a) \<Rightarrow> True | _ \<Rightarrow> False)"

text \<open>
  \<^verbatim>\<open>create_group\<close> and \<^verbatim>\<open>create_dataset\<close>: the name must be new
  (\<^verbatim>\<open>ValueError\<close> otherwise, also below a dataset); missing intermediate groups are
  created on the way.
\<close>

definition h5_create :: "h5file \<Rightarrow> string list \<Rightarrow> h5node \<Rightarrow> py_error + h5file" where
  "h5_create f p node =
     (if p = [] \<or> map_of f p \<noteq> None then Inl ValueError
      else if list_ex (\<lambda>q. is_dataset (map_of f q)) (proper_prefixes p) then Inl ValueError
      else Inr (f @ map (\<lambda>q. (q, H5Group False []))
                      (filter (\<lambda>q. map_of f q = None) (proper_prefixes p))
                  @ [(p, node)]))"

text \<open>\<^verbatim>\<open>require_group(name)\<close>: \<^verbatim>\<open>ValueError\<close> for the empty name; the group
  when it exists, \<^verbatim>\<open>TypeError\<close> when the name is a dataset's, and
  \<^verbatim>\<open>create_group\<close> otherwise.\<close>

definition h5_require_group :: "h5file \<Rightarrow> string \<Rightarrow> py_error + h5file" where
  "h5_require_group f name =
     (if name = [] then Inl ValueError
      else (case map_of f (split_path name) of
              Some (H5Group t a) \<Rightarrow> Inr f
            | Some (H5Dataset a) \<Rightarrow> Inl TypeError
            | None \<Rightarrow> h5_create f (split_path name) (H5Group False [])))"

text \<open>\<^verbatim>\<open>g.attrs[name] = v\<close> for the group \<open>g\<close> at path \<open>p\<close>.\<close>

definition h5_set_attr :: "h5file \<Rightarrow> string list \<Rightarrow> string \<Rightarrow> pyval \<Rightarrow> h5file" where
  "h5_set_attr f p name v =
     (case map_of f p of
        Some (H5Group t a) \<Rightarrow> AList.update p (H5Group t (AList.update name v a)) f
      | _ \<Rightarrow> f)"

text \<open>\<^verbatim>\<open>f[path]\<close> (\<^verbatim>\<open>KeyError\<close> when there is no such object),
  \<^verbatim>\<open>node.attrs[name]\<close>, \<^verbatim>\<open>name in node.attrs.keys()\<close>, \<^verbatim>\<open>dataset[:]\<close>
  (\<^verbatim>\<open>TypeError\<close> on a group) and \<^verbatim>\<open>group.keys()\<close>: the names of the direct
  children, in the order of their creation when the group tracks it and in the order of
  their names otherwise (\<^verbatim>\<open>AttributeError\<close> on a dataset).\<close>

definition h5_getitem :: "h5file \<Rightarrow> string \<Rightarrow> py_error + h5node" where
  "h5_getitem f path = (case map_of f (split_path path) of None \<Rightarrow> Inl KeyError | Some n \<Rightarrow> Inr n)"

definition node_attrs :: "h5node \<Rightarrow> (string \<times> pyval) list" where
  "node_attrs n = (case n of H5Group t a \<Rightarrow> a | H5Dataset d \<Rightarrow> [])"

definition h5_attr :: "h5node \<Rightarrow> string \<Rightarrow> py_error + pyval" where
  "h5_attr n name = (case map_of (node_attrs n) name of None \<Rightarrow> Inl KeyError | Some v \<Rightarrow> Inr v)"

definition h5_read :: "h5node \<Rightarrow> py_error + array2" where
  "h5_read n = (case n of H5Dataset d \<Rightarrow> Inr d | H5Group t a \<Rightarrow> Inl TypeError)"

definition tracks_order :: "h5node option \<Rightarrow> bool" where
  "tracks_order n = (case n of Some (H5Group t a) \<Rightarrow> t | _ \<Rightarrow> False)"

definition h5_children :: "h5file \<Rightarrow> string list \<Rightarrow> string list" where
  "h5_children f p =
     (let names = map last (filter (\<lambda>q. length q = Suc (length p) \<and> butlast q = p) (map fst f))
      in if tracks_order (map_of f p) then names else sort names)"

definition h5_keys :: "h5file \<Rightarrow> string \<Rightarrow> py_error + string list" where
  "h5_keys f path =
     (case map_of f (split_path path) of
        None \<Rightarrow> Inl KeyError
      | Some (H5Dataset d) \<Rightarrow> Inl AttributeError
      | Some (H5Group t a) \<Rightarrow> Inr (h5_children f (split_path path)))"

subsection \<open>Writing attributes: \<^verbatim>\<open>OdimGroup.odim_create\<close>, \<^verbatim>\<open>OdimGroup.odim_setattrs\<close>,
  \<^verbatim>\<open>formatstr\<close>\<close>

text \<open>
  \<^verbatim>\<open>np.bytes_(s)\<close> encodes a \<^verbatim>\<open>str\<close> as ASCII
  (\<^verbatim>\<open>UnicodeEncodeError\<close> for a character beyond); the byte string has as many
  bytes as \<open>s\<close> has characters, and \<^verbatim>\<open>h5py\<close> stores it as a fixed-length string of
  that size (of size one for the empty string).
  \<^verbatim>\<open>formatstr(s)\<close> is \<^verbatim>\<open>np.array(s.encode('latin-1'), f'S{len(s) + 1}')\<close>: a
  character up to U+00FF is one byte (\<^verbatim>\<open>UnicodeEncodeError\<close> for a character
  beyond), and the item size is the number of characters plus one.
\<close>

fun latin1_encode :: "nat list \<Rightarrow> nat list option" where
  "latin1_encode [] = Some []"
| "latin1_encode [b] = (if b < 128 then Some [b] else None)"
| "latin1_encode (b # c # r) =
     (if b < 128 then map_option (\<lambda>e. b # e) (latin1_encode (c # r))
      else if (b = 194 \<or> b = 195) \<and> 128 \<le> c \<and> c \<le> 191
      then map_option (\<lambda>e. (if b = 194 then c else c + 64) # e) (latin1_encode r)
      else None)"

definition np_bytes :: "string \<Rightarrow> py_error + pyval" where
  "np_bytes s =
     (if list_all (\<lambda>c. of_char c < (128 :: nat)) s then Inr (PBytes (max 1 (length s)) s)
      else Inl UnicodeEncodeError)"

definition formatstr :: "string \<Rightarrow> py_error + pyval" where
  "formatstr mystring =
     (case latin1_encode (map of_char mystring) of
        None \<Rightarrow> Inl UnicodeEncodeError
      | Some bs \<Rightarrow> (let lenstr1 = length bs + 1 in Inr (PBytes lenstr1 (map char_of bs))))"

definition odim_create :: "odim_group \<Rightarrow> h5file \<Rightarrow> py_error + h5file" where
  "odim_create self hf = h5_create hf (split_path (hierarchy self)) (H5Group False [])"

text \<open>The body of the loop of \<^verbatim>\<open>odim_setattrs\<close>; \<open>g\<close> is the path of the group the
  local \<^verbatim>\<open>g\<close> is bound to, \<open>None\<close> when it is unbound.\<close>

definition odim_setattr ::
  "odim_group \<Rightarrow> string list option \<Rightarrow> string \<Rightarrow> h5file \<Rightarrow> py_error + h5file" where
  "odim_setattr self g attr hf =
     (if struct_hasitem self attr
      then (let attr_val = struct_getitem self attr
            in if attr_val \<noteq> PNone
               then (case g of
                       None \<Rightarrow> Inl UnboundLocalError
                     | Some p \<Rightarrow>
                         (case attr_val of
                            PStr s \<Rightarrow> ebind (np_bytes s) (\<lambda>b. Inr (h5_set_attr hf p attr b))
                          | v \<Rightarrow> Inr (h5_set_attr hf p attr v)))
               else Inr hf)
      else Inr hf)"

text \<open>\<^verbatim>\<open>odim_setattrs\<close>: when \<^verbatim>\<open>require_group\<close> raises \<^verbatim>\<open>ValueError\<close> the handler
  creates the group and leaves \<^verbatim>\<open>g\<close> unbound.\<close>

definition odim_setattrs :: "odim_group \<Rightarrow> string list \<Rightarrow> h5file \<Rightarrow> py_error + h5file" where
  "odim_setattrs self attrslist hf =
     (case h5_require_group hf (hierarchy self) of
        Inr hf1 \<Rightarrow> efold (odim_setattr self (Some (split_path (hierarchy self)))) attrslist hf1
      | Inl ValueError \<Rightarrow>
          ebind (odim_create self hf) (\<lambda>hf1. efold (odim_setattr self None) attrslist hf1)
      | Inl e \<Rightarrow> Inl e)"

text \<open>\<^verbatim>\<open>OdimDset(data, hierarchy).odim_create(hf)\<close>: the dataset is created with
  the element type \<^verbatim>\<open>float32\<close>, every value of the array rounded to it.\<close>

definition odim_create_dset :: "array2 \<Rightarrow> string \<Rightarrow> h5file \<Rightarrow> py_error + h5file" where
  "odim_create_dset data h hf =
     h5_create hf (split_path h) (H5Dataset (map (map fround32) data))"
subsection \<open>\<^verbatim>\<open>OdimHierarchyPvol.export_odim\<close>\<close>

text \<open>The decimal numeral of a number, as an f-string prints it.\<close>

definition digit_char :: "nat \<Rightarrow> char" where
  "digit_char d = char_of (48 + d)"

function str_nat :: "nat \<Rightarrow> string" where
  "str_nat n = (if n < 10 then [digit_char n] else str_nat (n div 10) @ [digit_char (n mod 10)])"
  by pat_completeness auto
termination
  by (relation "measure id") auto

declare str_nat.simps [simp del]

text \<open>\<^verbatim>\<open>enumerate(np.arange(1, n, 1))\<close>: the pairs \<open>(0, 1), \<dots>, (n - 2, n - 1)\<close>.\<close>

definition enumerate_arange :: "int \<Rightarrow> (nat \<times> nat) list" where
  "enumerate_arange n = map (\<lambda>i. (i, i + 1)) [0 ..< nat (n - 1)]"

text \<open>The body of the inner loop (lines 489 to 495).\<close>

definition export_data :: "pvol \<Rightarrow> nat \<Rightarrow> nat \<Rightarrow> nat \<times> nat \<Rightarrow> h5file \<Rightarrow> py_error + h5file" where
  "export_data self i_group num_group idx hf =
     (let i_dset = fst idx; num_dset = snd idx in
      ebind (py_index (datasets self) i_group) (\<lambda>stack.
        if i_dset < length stack
        then
          ebind (odim_create_dset (stack ! i_dset)
                   (''dataset'' @ str_nat num_group @ ''/data'' @ str_nat num_dset @ ''/data'') hf)
            (\<lambda>hf1.
               ebind (py_index (group_datasets_data_what self) i_group) (\<lambda>whats.
                 if i_dset < length whats
                 then
                   ebind (odim_create (whats ! i_dset) hf1) (\<lambda>hf2.
                     odim_setattrs (whats ! i_dset)
                       [''quantity'', ''gain'', ''nodata'', ''offset'', ''undetect''] hf2)
                 else Inr hf1))
        else Inr hf))"

text \<open>Lines 453 to 486: the what, where and how groups of one elevation.\<close>

definition export_elevation_groups :: "pvol \<Rightarrow> nat \<Rightarrow> h5file \<Rightarrow> py_error + h5file" where
  "export_elevation_groups self i_group hf =
     ebind (py_index (group_datasets_what self) i_group) (\<lambda>g_dset_what.
     ebind (odim_create g_dset_what hf) (\<lambda>hf1.
     ebind (odim_setattrs g_dset_what
              [''product'', ''startdate'', ''starttime'', ''enddate'', ''endtime''] hf1) (\<lambda>hf2.
     ebind (py_index (group_datasets_where self) i_group) (\<lambda>g_dset_where.
     ebind (odim_create g_dset_where hf2) (\<lambda>hf3.
     ebind (odim_setattrs g_dset_where
              [''elangle'', ''nbins'', ''rstart'', ''rscale'', ''nrays'', ''a1gate''] hf3) (\<lambda>hf4.
     ebind (py_index (group_datasets_how_polar self) i_group) (\<lambda>g_dset_how.
     ebind (odim_create g_dset_how hf4) (\<lambda>hf5.
     ebind (odim_setattrs g_dset_how
              [''elangles'', ''startazA'', ''stopazA'', ''startazT'', ''stopazT''] hf5) (\<lambda>hf6.
     ebind (py_index (group_datasets_how_radar self) i_group) (\<lambda>g_dset_how_radar.
       odim_setattrs g_dset_how_radar
         [''beamwidth'', ''wavelength'', ''rpm'', ''pulsewidth'', ''RXbandwidth'',
          ''lowprf'', ''highprf'', ''TXloss'', ''RXloss'', ''radomeloss'', ''antgain'',
          ''beamwH'', ''beamwV'', ''gasattn'', ''nomTXpower'', ''NI'', ''Vsamples''] hf6
     ))))))))))"

text \<open>The body of the outer loop (lines 453 to 495): the groups of the elevation, then
  the inner loop.\<close>

definition export_group :: "pvol \<Rightarrow> nat \<times> nat \<Rightarrow> h5file \<Rightarrow> py_error + h5file" where
  "export_group self idx hf =
     (let i_group = fst idx; num_group = snd idx in
      ebind (export_elevation_groups self i_group hf) (\<lambda>hf7.
        efold (export_data self i_group num_group) (enumerate_arange (n_datasets self)) hf7))"

text \<open>Lines 441 to 449: the three root groups, written to a new file.\<close>

definition export_root :: "pvol \<Rightarrow> py_error + h5file" where
  "export_root self =
     ebind (odim_create (root_what self) h5_new) (\<lambda>hf1.
     ebind (odim_setattrs (root_what self)
              [''object'', ''version'', ''date'', ''time'', ''source''] hf1) (\<lambda>hf2.
     ebind (odim_create (root_where self) hf2) (\<lambda>hf3.
     ebind (odim_setattrs (root_where self) [''lon'', ''lat'', ''height''] hf3) (\<lambda>hf4.
     ebind (odim_create (root_how self) hf4) (\<lambda>hf5.
       odim_setattrs (root_how self)
         [''task'', ''startepochs'', ''system'', ''software'', ''sw_version'', ''simulated'']
         hf5)))))"

definition export_odim :: "pvol \<Rightarrow> py_error + h5file" where
  "export_odim self =
     ebind (export_root self) (\<lambda>hf.
       efold (export_group self) (enumerate_arange (n_group_dataset self)) hf)"

subsection \<open>\<^verbatim>\<open>OdimHierarchyPvol.read_odim\<close>\<close>

text \<open>\<^verbatim>\<open>sub in s\<close> on strings.\<close>

fun has_prefix :: "'a list \<Rightarrow> 'a list \<Rightarrow> bool" where
  "has_prefix [] ys = True"
| "has_prefix (x # xs) [] = False"
| "has_prefix (x # xs) (y # ys) = (x = y \<and> has_prefix xs ys)"

fun str_contains :: "string \<Rightarrow> string \<Rightarrow> bool" where
  "str_contains sub [] = (sub = [])"
| "str_contains sub (c # cs) = (has_prefix sub (c # cs) \<or> str_contains sub cs)"

text \<open>Whether a sequence of bytes is the UTF-8 encoding of a text: \<open>k\<close> bytes of the
  current character are still to come, the next of them between \<open>lo\<close> and \<open>hi\<close>
  (overlong forms, surrogates and values beyond U+10FFFF are not encodings).\<close>

fun utf8_run :: "nat \<Rightarrow> nat \<Rightarrow> nat \<Rightarrow> nat list \<Rightarrow> bool" where
  "utf8_run k lo hi [] = (k = 0)"
| "utf8_run k lo hi (b # bs) =
     (if k = 0
      then (if b < 128 then utf8_run 0 128 191 bs
            else if 194 \<le> b \<and> b \<le> 223 then utf8_run 1 128 191 bs
            else if b = 224 then utf8_run 2 160 191 bs
            else if (225 \<le> b \<and> b \<le> 236) \<or> b = 238 \<or> b = 239 then utf8_run 2 128 191 bs
            else if b = 237 then utf8_run 2 128 159 bs
            else if b = 240 then utf8_run 3 144 191 bs
            else if 241 \<le> b \<and> b \<le> 243 then utf8_run 3 128 191 bs
            else if b = 244 then utf8_run 3 128 143 bs
            else False)
      else lo \<le> b \<and> b \<le> hi \<and> utf8_run (k - 1) 128 191 bs)"

definition utf8_valid :: "string \<Rightarrow> bool" where
  "utf8_valid s = utf8_run 0 128 191 (map of_char s)"

text \<open>\<^verbatim>\<open>v.decode()\<close>: only a byte string has the method; the bytes are read as
  UTF-8, and bytes that are no encoding raise \<^verbatim>\<open>UnicodeDecodeError\<close>.\<close>

definition decode :: "pyval \<Rightarrow> py_error + pyval" where
  "decode v =
     (case v of
        PBytes w s \<Rightarrow> (if utf8_valid s then Inr (PStr s) else Inl UnicodeDecodeError)
      | _ \<Rightarrow> Inl AttributeError)"

definition is_bytes :: "pyval \<Rightarrow> bool" where
  "is_bytes v = (case v of PBytes w s \<Rightarrow> True | _ \<Rightarrow> False)"

definition decode_if_bytes :: "pyval \<Rightarrow> py_error + pyval" where
  "decode_if_bytes v = (if is_bytes v then decode v else Inr v)"

text \<open>\<^verbatim>\<open>get_attrs_from_odimgroup\<close>: every listed attribute the file group has is
  copied to the object, a byte string decoded.\<close>

definition get_attr_from_odimgroup :: "h5node \<Rightarrow> string \<Rightarrow> odim_group \<Rightarrow> py_error + odim_group" where
  "get_attr_from_odimgroup hgroup att out_cont =
     (case map_of (node_attrs hgroup) att of
        None \<Rightarrow> Inr out_cont
      | Some val_att \<Rightarrow> ebind (decode_if_bytes val_att) (\<lambda>v. Inr (obj_setattr out_cont att v)))"

definition get_attrs_from_odimgroup ::
  "string list \<Rightarrow> h5node \<Rightarrow> odim_group \<Rightarrow> py_error + odim_group" where
  "get_attrs_from_odimgroup attrs_list hgroup out_cont =
     efold (get_attr_from_odimgroup hgroup) attrs_list out_cont"

text \<open>Lines 522 to 535: the root groups.\<close>

definition read_attr_decoded :: "h5file \<Rightarrow> string \<Rightarrow> string \<Rightarrow> py_error + pyval" where
  "read_attr_decoded hr path name =
     ebind (h5_getitem hr path) (\<lambda>n. ebind (h5_attr n name) decode)"

definition read_attr :: "h5file \<Rightarrow> string \<Rightarrow> string \<Rightarrow> py_error + pyval" where
  "read_attr hr path name = ebind (h5_getitem hr path) (\<lambda>n. h5_attr n name)"

definition read_root_what :: "h5file \<Rightarrow> py_error + odim_group" where
  "read_root_what hr =
     ebind (read_attr_decoded hr ''what'' ''object'') (\<lambda>obj.
     ebind (read_attr_decoded hr ''what'' ''version'') (\<lambda>version.
     ebind (read_attr_decoded hr ''what'' ''date'') (\<lambda>date.
     ebind (read_attr_decoded hr ''what'' ''time'') (\<lambda>tm.
     ebind (read_attr_decoded hr ''what'' ''source'') (\<lambda>src.
       Inr (OdimWhat ''what'' obj version date tm src))))))"

definition read_root_where :: "h5file \<Rightarrow> py_error + odim_group" where
  "read_root_where hr =
     ebind (read_attr hr ''where'' ''lon'') (\<lambda>lon.
     ebind (read_attr hr ''where'' ''lat'') (\<lambda>lat.
     ebind (read_attr hr ''where'' ''height'') (\<lambda>height.
       Inr (OdimWherePolar ''where'' lon lat height))))"

definition read_root_how :: "h5file \<Rightarrow> py_error + odim_group" where
  "read_root_how hr =
     ebind (h5_getitem hr ''how'') (\<lambda>n.
       get_attrs_from_odimgroup
         [''task'', ''startepochs'', ''system'', ''software'', ''sw_version'', ''simulated'']
         n (OdimHow ''how''))"

text \<open>Lines 573 to 580: an attribute of the polar "how" view is read from the group's
  attributes or, failing that, from a child dataset of that name.\<close>

definition read_how_polar_attr ::
  "h5file \<Rightarrow> string \<Rightarrow> string \<Rightarrow> odim_group \<Rightarrow> py_error + odim_group" where
  "read_how_polar_attr hr gdname att dg_how_polar =
     ebind (h5_getitem hr (gdname @ ''/how'')) (\<lambda>how.
       case map_of (node_attrs how) att of
         Some v \<Rightarrow> Inr (obj_setattr dg_how_polar att v)
       | None \<Rightarrow>
           ebind (h5_keys hr (gdname @ ''/how'')) (\<lambda>ks.
             if att \<in> set ks
             then ebind (h5_getitem hr (gdname @ ''/how/'' @ att)) (\<lambda>c.
                  ebind (h5_read c) (\<lambda>a. Inr (obj_setattr dg_how_polar att (PArr2 a))))
             else Inr dg_how_polar))"

text \<open>Lines 591 to 606: one quantity of one elevation. The state is the list of
  arrays, the list of what-groups and the quantity names seen so far.\<close>

definition read_data ::
  "h5file \<Rightarrow> string \<Rightarrow> string \<Rightarrow> array2 list \<times> odim_group list \<times> pyval list
     \<Rightarrow> py_error + array2 list \<times> odim_group list \<times> pyval list" where
  "read_data hr gdname d st =
     (case st of (gd_datadset_list, gd_data_what_list, allquantities) \<Rightarrow>
      ebind (h5_getitem hr (gdname @ ''/'' @ d @ ''/data'')) (\<lambda>dn.
      ebind (h5_read dn) (\<lambda>arr.
      ebind (h5_getitem hr (gdname @ ''/'' @ d @ ''/what'')) (\<lambda>whatd.
      ebind (h5_attr whatd ''quantity'') (\<lambda>q0.
      ebind (decode_if_bytes q0) (\<lambda>quantity.
      ebind (h5_attr whatd ''gain'') (\<lambda>gain.
      ebind (h5_attr whatd ''offset'') (\<lambda>offset.
      ebind (h5_attr whatd ''nodata'') (\<lambda>nodata.
      ebind (h5_attr whatd ''undetect'') (\<lambda>undetect.
        Inr (gd_datadset_list @ [arr],
             gd_data_what_list
               @ [OdimWhatDset_data (gdname @ ''/'' @ d @ ''/what'') quantity gain offset
                    nodata undetect],
             (if quantity \<in> set allquantities then allquantities
              else allquantities @ [quantity]))))))))))))"

text \<open>\<^verbatim>\<open>np.vstack([[d] for d in ds])\<close>: at least one array, all of one shape.\<close>

definition np_vstack :: "array2 list \<Rightarrow> py_error + array2 list" where
  "np_vstack ds =
     (case ds of
        [] \<Rightarrow> Inl ValueError
      | d # rest \<Rightarrow>
          (if list_all (\<lambda>e. map length e = map length d) rest then Inr ds else Inl ValueError))"

text \<open>The accumulators of the loop over the elevation groups.\<close>

record read_state =
  gd_what_list :: "odim_group list"
  gd_where_list :: "odim_group list"
  gd_how_polar_list :: "odim_group list"
  gd_how_radar_list :: "odim_group list"
  gd_datadset_list_total :: "array2 list list"
  gd_data_what_list_total :: "odim_group list list"
  nmax_datasets :: nat
  allquantities :: "pyval list"

definition read_state_init :: read_state where
  "read_state_init =
     \<lparr>gd_what_list = [], gd_where_list = [], gd_how_polar_list = [], gd_how_radar_list = [],
      gd_datadset_list_total = [], gd_data_what_list_total = [], nmax_datasets = 0,
      allquantities = []\<rparr>"

text \<open>Lines 543 to 609: one elevation group.\<close>

definition read_group :: "h5file \<Rightarrow> string \<Rightarrow> read_state \<Rightarrow> py_error + read_state" where
  "read_group hr gdname st =
     ebind (h5_getitem hr (gdname @ ''/what'')) (\<lambda>what_n.
     ebind (get_attrs_from_odimgroup
              [''product'', ''startdate'', ''starttime'', ''enddate'', ''endtime'']
              what_n (OdimWhatDset (gdname @ ''/what''))) (\<lambda>dg_what.
     ebind (h5_getitem hr (gdname @ ''/where'')) (\<lambda>where_n.
     ebind (get_attrs_from_odimgroup
              [''elangle'', ''nbins'', ''rstart'', ''rscale'', ''nrays'', ''a1gate'']
              where_n (OdimWherePolarDset (gdname @ ''/where'') PNone)) (\<lambda>dg_where.
     ebind (h5_getitem hr (gdname @ ''/how'')) (\<lambda>how_n.
     ebind (get_attrs_from_odimgroup
              [''beamwidth'', ''wavelength'', ''rpm'', ''pulsewidth'', ''RXbandwidth'',
               ''lowprf'', ''highprf'', ''TXloss'', ''RXloss'', ''radomeloss'', ''antgain'',
               ''beamwH'', ''beamwV'', ''gasattn'', ''nomTXpower'', ''NI'', ''Vsamples'']
              how_n (OdimHowRadarDset (gdname @ ''/how''))) (\<lambda>dg_how_radar.
     ebind (efold (read_how_polar_attr hr gdname)
              [''elangles'', ''startazA'', ''stopazA'', ''startazT'', ''stopazT'']
              (OdimHowPolarDset (gdname @ ''/how''))) (\<lambda>dg_how_polar.
     ebind (h5_keys hr gdname) (\<lambda>ks.
     let dataset_names = filter (str_contains ''data'') ks in
     ebind (efold (read_data hr gdname) dataset_names ([], [], allquantities st)) (\<lambda>res.
     case res of (gd_datadset_list, gd_data_what_list, quantities) \<Rightarrow>
     ebind (np_vstack gd_datadset_list) (\<lambda>stack.
       Inr \<lparr>gd_what_list = gd_what_list st @ [dg_what],
            gd_where_list = gd_where_list st @ [dg_where],
            gd_how_polar_list = gd_how_polar_list st @ [dg_how_polar],
            gd_how_radar_list = gd_how_radar_list st @ [dg_how_radar],
            gd_datadset_list_total = gd_datadset_list_total st @ [stack],
            gd_data_what_list_total = gd_data_what_list_total st @ [gd_data_what_list],
            nmax_datasets = max (nmax_datasets st) (length dataset_names),
            allquantities = quantities\<rparr>))))))))))"

text \<open>\<^verbatim>\<open>read_odim\<close>: the root groups, the elevation groups in the order the file
  enumerates them, then \<^verbatim>\<open>setistance\<close> and the assignment of \<^verbatim>\<open>varsnames\<close>.\<close>

definition read_odim :: "h5file \<Rightarrow> py_error + pvol" where
  "read_odim hr =
     ebind (read_root_what hr) (\<lambda>rwhat.
     ebind (read_root_where hr) (\<lambda>rwhere.
     ebind (read_root_how hr) (\<lambda>rhow.
     let group_dataset_names = filter (str_contains ''dataset'') (h5_children hr []) in
     ebind (efold (read_group hr) group_dataset_names read_state_init) (\<lambda>st.
     ebind (setistance None
              \<lparr>root_what = rwhat, root_where = rwhere, root_how = rhow,
               n_group_dataset = int (length group_dataset_names),
               n_datasets = int (nmax_datasets st),
               group_datasets_what = gd_what_list st,
               group_datasets_where = gd_where_list st,
               group_datasets_how_radar = gd_how_radar_list st,
               group_datasets_how_polar = gd_how_polar_list st,
               datasets = gd_datadset_list_total st,
               group_datasets_data_what = gd_data_what_list_total st\<rparr>) (\<lambda>p.
       Inr (p\<lparr>varsnames := Some (allquantities st)\<rparr>))))))"

subsection \<open>Notions used in the statements\<close>

text \<open>The elevation index of a populated volume: as many angles as elevations, the
  i-th angle the \<^verbatim>\<open>elangle\<close> of the i-th where-group, and as many dataset stacks and
  lists of data what-groups as elevations.\<close>

definition elevation_index :: "pvol \<Rightarrow> bool" where
  "elevation_index p =
     (int (length (elangles p)) = n_group_dataset p
      \<and> (\<forall>i < length (elangles p).
            i < length (group_datasets_where p)
            \<and> obj_attr (group_datasets_where p ! i) ''elangle'' = Inr (elangles p ! i))
      \<and> int (length (datasets p)) = n_group_dataset p
      \<and> int (length (group_datasets_data_what p)) = n_group_dataset p)"

text \<open>The accumulators of \<^verbatim>\<open>read_odim\<close> after the elevation groups \<open>names\<close>.\<close>

definition read_state_for :: "string list \<Rightarrow> read_state \<Rightarrow> bool" where
  "read_state_for names st =
     (length (gd_datadset_list_total st) = length names
      \<and> length (gd_data_what_list_total st) = length names
      \<and> map hierarchy (gd_where_list st) = map (\<lambda>k. k @ ''/where'') names)"

text \<open>Every dataset of a file satisfies \<open>Q\<close> (of its path and its array).\<close>

definition only_datasets :: "(string list \<Rightarrow> array2 \<Rightarrow> bool) \<Rightarrow> h5file \<Rightarrow> bool" where
  "only_datasets Q hf = (\<forall>path a. map_of hf path = Some (H5Dataset a) \<longrightarrow> Q path a)"

text \<open>The path \<^verbatim>\<open>export_odim\<close> gives the array of elevation index \<open>i\<close> and quantity
  index \<open>j\<close> (both from 0): \<^verbatim>\<open>dataset<i+1>/data<j+1>/data\<close>.\<close>

definition data_path :: "nat \<Rightarrow> nat \<Rightarrow> string list" where
  "data_path i j =
     split_path (''dataset'' @ str_nat (i + 1) @ ''/data'' @ str_nat (j + 1) @ ''/data'')"

text \<open>The array at \<open>path\<close> is one \<^verbatim>\<open>export_odim\<close> may write: that of an elevation
  index below \<open>N - 1\<close> and a quantity index below \<open>M - 1\<close> that the volume has, its
  values rounded to \<^verbatim>\<open>float32\<close>.\<close>

definition written_array :: "pvol \<Rightarrow> string list \<Rightarrow> array2 \<Rightarrow> bool" where
  "written_array p path a =
     (\<exists>i j. int i < n_group_dataset p - 1 \<and> int j < n_datasets p - 1
            \<and> i < length (datasets p) \<and> j < length (datasets p ! i)
            \<and> path = data_path i j \<and> a = map (map fround32) (datasets p ! i ! j))"

text \<open>The names of the elevation group and of the quantity group of an index.\<close>

definition dataset_name :: "nat \<Rightarrow> string" where
  "dataset_name i = ''dataset'' @ str_nat (i + 1)"

definition data_name :: "nat \<Rightarrow> string" where
  "data_name j = ''data'' @ str_nat (j + 1)"

text \<open>
  The group objects of a volume carry the paths of their positions: the root groups are
  \<^verbatim>\<open>what\<close>, \<^verbatim>\<open>where\<close> and \<^verbatim>\<open>how\<close>, the groups of the elevation of index \<open>i\<close> are
  \<^verbatim>\<open>dataset<i+1>/what\<close>, \<^verbatim>\<open>dataset<i+1>/where\<close> and \<^verbatim>\<open>dataset<i+1>/how\<close>, and the
  what-group of its quantity of index \<open>j\<close> is \<^verbatim>\<open>dataset<i+1>/data<j+1>/what\<close>. Only
  the indices the export visits are constrained.
\<close>

definition canonical_paths :: "pvol \<Rightarrow> bool" where
  "canonical_paths p =
     (split_path (hierarchy (root_what p)) = [''what'']
      \<and> split_path (hierarchy (root_where p)) = [''where'']
      \<and> split_path (hierarchy (root_how p)) = [''how'']
      \<and> (\<forall>i. int i < n_group_dataset p - 1 \<longrightarrow>
            (i < length (group_datasets_what p) \<longrightarrow>
               split_path (hierarchy (group_datasets_what p ! i)) = [dataset_name i, ''what''])
          \<and> (i < length (group_datasets_where p) \<longrightarrow>
               split_path (hierarchy (group_datasets_where p ! i)) = [dataset_name i, ''where''])
          \<and> (i < length (group_datasets_how_polar p) \<longrightarrow>
               split_path (hierarchy (group_datasets_how_polar p ! i)) = [dataset_name i, ''how''])
          \<and> (i < length (group_datasets_how_radar p) \<longrightarrow>
               split_path (hierarchy (group_datasets_how_radar p ! i)) = [dataset_name i, ''how''])
          \<and> (\<forall>j. int j < n_datasets p - 1 \<longrightarrow>
                 i < length (group_datasets_data_what p) \<longrightarrow>
                 j < length (group_datasets_data_what p ! i) \<longrightarrow>
                 split_path (hierarchy (group_datasets_data_what p ! i ! j))
                   = [dataset_name i, data_name j, ''what''])))"

text \<open>The paths a file written from such a volume may hold: the root, the three root
  groups, and below an elevation group of index under \<open>N - 1\<close> its three groups and the
  quantity groups of index under \<open>M - 1\<close> (with anything below those).\<close>

definition written_path :: "pvol \<Rightarrow> string list \<Rightarrow> bool" where
  "written_path p q =
     (case q of
        [] \<Rightarrow> True
      | a # r \<Rightarrow>
          (a \<in> {''what'', ''where'', ''how''} \<and> r = [])
          \<or> (\<exists>i. int i < n_group_dataset p - 1 \<and> a = dataset_name i
                \<and> (case r of
                      [] \<Rightarrow> True
                    | b # r' \<Rightarrow>
                        (b \<in> {''what'', ''where'', ''how''} \<and> r' = [])
                        \<or> (\<exists>j. int j < n_datasets p - 1 \<and> b = data_name j
                              \<and> (r' = [] \<or> r' = [''data''] \<or> r' = [''what''])))))"

definition only_paths :: "(string list \<Rightarrow> bool) \<Rightarrow> h5file \<Rightarrow> bool" where
  "only_paths P hf = (\<forall>q \<in> set (map fst hf). P q)"

text \<open>A volume without its last elevation and without the last quantity index: the
  per-elevation lists cut to \<open>N - 1\<close> entries, the per-quantity lists to \<open>M - 1\<close>; the
  two counts stay.\<close>

definition without_last :: "pvol \<Rightarrow> pvol" where
  "without_last p =
     (let n = nat (n_group_dataset p - 1); m = nat (n_datasets p - 1)
      in p\<lparr>group_datasets_what := take n (group_datasets_what p),
            group_datasets_where := take n (group_datasets_where p),
            group_datasets_how_radar := take n (group_datasets_how_radar p),
            group_datasets_how_polar := take n (group_datasets_how_polar p),
            datasets := map (take m) (take n (datasets p)),
            group_datasets_data_what := map (take m) (take n (group_datasets_data_what p))\<rparr>)"

text \<open>Writing a volume and reading the file back.\<close>

definition write_then_read :: "pvol \<Rightarrow> py_error + pvol" where
  "write_then_read p = ebind (export_odim p) read_odim"

subsection \<open>Worked examples of polar volumes\<close>

definition arr :: "rat list list \<Rightarrow> array2" where
  "arr rows = map (map Fin) rows"

definition data_what :: "string \<Rightarrow> string \<Rightarrow> rat \<Rightarrow> rat \<Rightarrow> odim_group" where
  "data_what h q g ofs = OdimWhatDset_data h (PStr q) (PNum g) (PNum ofs) (PNum 255) (PNum 0)"

definition example_root :: "pvol_args" where
  "example_root =
     \<lparr>root_what = OdimWhat ''what'' (PStr ''PVOL'') (PStr ''H5rad 2.1'') (PStr ''20200922'')
                    (PStr ''103500'') (PStr ''RAD:IY46''),
      root_where = OdimWherePolar ''where'' (PNum 11) (PNum 44) (PNum 31),
      root_how = OdimHow ''how'',
      n_group_dataset = 0, n_datasets = 0,
      group_datasets_what = [], group_datasets_where = [], group_datasets_how_radar = [],
      group_datasets_how_polar = [], datasets = [], group_datasets_data_what = []\<rparr>"

text \<open>Two elevations, 0.5 and 1.5 degrees: the lower one holds DBZH and Z_VD, the
  upper one DBZH only.\<close>

definition two_sweeps_args :: pvol_args where
  "two_sweeps_args =
     example_root
       \<lparr>n_group_dataset := 2, n_datasets := 2,
        group_datasets_what := [OdimWhatDset ''dataset1/what'', OdimWhatDset ''dataset2/what''],
        group_datasets_where :=
          [OdimWherePolarDset ''dataset1/where'' (PNum (1 / 2)),
           OdimWherePolarDset ''dataset2/where'' (PNum (3 / 2))],
        group_datasets_how_radar := [OdimHowRadarDset ''dataset1/how'', OdimHowRadarDset ''dataset2/how''],
        group_datasets_how_polar := [OdimHowPolarDset ''dataset1/how'', OdimHowPolarDset ''dataset2/how''],
        datasets := [[arr [[10, 20]], arr [[1, 2]]], [arr [[30, 40]]]],
        group_datasets_data_what :=
          [[data_what ''dataset1/data1/what'' ''DBZH'' (1 / 2) (- 32),
            data_what ''dataset1/data2/what'' ''Z_VD'' 2 1],
           [data_what ''dataset2/data1/what'' ''DBZH'' (1 / 2) (- 32)]]\<rparr>"

definition two_sweeps :: pvol where
  "two_sweeps =
     pvol_args.extend two_sweeps_args
       (pvol.fields [PNum (1 / 2), PNum (3 / 2)] (Some [PStr ''DBZH'', PStr ''Z_VD'']))"

text \<open>Three elevations, 0.5, 1.0 and 1.5 degrees: only the middle one holds Z_VD.\<close>

definition three_sweeps_args :: pvol_args where
  "three_sweeps_args =
     example_root
       \<lparr>n_group_dataset := 3, n_datasets := 2,
        group_datasets_what :=
          [OdimWhatDset ''dataset1/what'', OdimWhatDset ''dataset2/what'',
           OdimWhatDset ''dataset3/what''],
        group_datasets_where :=
          [OdimWherePolarDset ''dataset1/where'' (PNum (1 / 2)),
           OdimWherePolarDset ''dataset2/where'' (PNum 1),
           OdimWherePolarDset ''dataset3/where'' (PNum (3 / 2))],
        group_datasets_how_radar :=
          [OdimHowRadarDset ''dataset1/how'', OdimHowRadarDset ''dataset2/how'',
           OdimHowRadarDset ''dataset3/how''],
        group_datasets_how_polar :=
          [OdimHowPolarDset ''dataset1/how'', OdimHowPolarDset ''dataset2/how'',
           OdimHowPolarDset ''dataset3/how''],
        datasets := [[arr [[10, 20]]], [arr [[30, 40]], arr [[1, 2]]], [arr [[50, 60]]]],
        group_datasets_data_what :=
          [[data_what ''dataset1/data1/what'' ''DBZH'' (1 / 2) (- 32)],
           [data_what ''dataset2/data1/what'' ''DBZH'' (1 / 2) (- 32),
            data_what ''dataset2/data2/what'' ''Z_VD'' 2 1],
           [data_what ''dataset3/data1/what'' ''DBZH'' (1 / 2) (- 32)]]\<rparr>"

definition three_sweeps :: pvol where
  "three_sweeps =
     pvol_args.extend three_sweeps_args
       (pvol.fields [PNum (1 / 2), PNum 1, PNum (3 / 2)] (Some [PStr ''DBZH'', PStr ''Z_VD'']))"

text \<open>Three elevations, 0.5, 1.0 and 1.5 degrees, and the quantities DBZH, VRAD and
  Z_VD: every elevation but the greatest holds Z_VD, and the middle one does not hold
  VRAD.\<close>

definition mixed_sweeps_args :: pvol_args where
  "mixed_sweeps_args =
     example_root
       \<lparr>n_group_dataset := 3, n_datasets := 3,
        group_datasets_what :=
          [OdimWhatDset ''dataset1/what'', OdimWhatDset ''dataset2/what'',
           OdimWhatDset ''dataset3/what''],
        group_datasets_where :=
          [OdimWherePolarDset ''dataset1/where'' (PNum (1 / 2)),
           OdimWherePolarDset ''dataset2/where'' (PNum 1),
           OdimWherePolarDset ''dataset3/where'' (PNum (3 / 2))],
        group_datasets_how_radar :=
          [OdimHowRadarDset ''dataset1/how'', OdimHowRadarDset ''dataset2/how'',
           OdimHowRadarDset ''dataset3/how''],
        group_datasets_how_polar :=
          [OdimHowPolarDset ''dataset1/how'', OdimHowPolarDset ''dataset2/how'',
           OdimHowPolarDset ''dataset3/how''],
        datasets :=
          [[arr [[10, 20]], arr [[5, 6]], arr [[1, 2]]],
           [arr [[30, 40]], arr [[3, 4]]],
           [arr [[50, 60]], arr [[7, 8]]]],
        group_datasets_data_what :=
          [[data_what ''dataset1/data1/what'' ''DBZH'' (1 / 2) (- 32),
            data_what ''dataset1/data2/what'' ''VRAD'' 1 0,
            data_what ''dataset1/data3/what'' ''Z_VD'' 2 1],
           [data_what ''dataset2/data1/what'' ''DBZH'' (1 / 2) (- 32),
            data_what ''dataset2/data2/what'' ''Z_VD'' 2 1],
           [data_what ''dataset3/data1/what'' ''DBZH'' (1 / 2) (- 32),
            data_what ''dataset3/data2/what'' ''VRAD'' 1 0]]\<rparr>"

definition mixed_sweeps :: pvol where
  "mixed_sweeps =
     pvol_args.extend mixed_sweeps_args
       (pvol.fields [PNum (1 / 2), PNum 1, PNum (3 / 2)]
          (Some [PStr ''DBZH'', PStr ''VRAD'', PStr ''Z_VD'']))"

text \<open>The two-elevation example with the groups of its first elevation at paths of
  other elevations, and the what-group of its first quantity at the path of another
  quantity.\<close>

definition scattered_sweeps_args :: pvol_args where
  "scattered_sweeps_args =
     two_sweeps_args
       \<lparr>group_datasets_what := [OdimWhatDset ''dataset5/what'', OdimWhatDset ''dataset2/what''],
        group_datasets_where :=
          [OdimWherePolarDset ''dataset7/where'' (PNum (1 / 2)),
           OdimWherePolarDset ''dataset2/where'' (PNum (3 / 2))],
        group_datasets_how_radar := [OdimHowRadarDset ''dataset9/how'', OdimHowRadarDset ''dataset2/how''],
        group_datasets_how_polar := [OdimHowPolarDset ''dataset9/how'', OdimHowPolarDset ''dataset2/how''],
        group_datasets_data_what :=
          [[data_what ''dataset1/data8/what'' ''DBZH'' (1 / 2) (- 32),
            data_what ''dataset1/data2/what'' ''Z_VD'' 2 1],
           [data_what ''dataset2/data1/what'' ''DBZH'' (1 / 2) (- 32)]]\<rparr>"

definition scattered_sweeps :: pvol where
  "scattered_sweeps =
     pvol_args.extend scattered_sweeps_args
       (pvol.fields [PNum (1 / 2), PNum (3 / 2)] None)"
section \<open>Properties of the BUFR line decoder\<close>

lemma py_slice_columns: "py_slice lo hi s = columns lo hi s"
proof -
  have "take (hi - lo) (drop lo s) = map (\<lambda>i. s ! i) [lo ..< min hi (length s)]"
  proof (rule nth_equalityI)
    show "length (take (hi - lo) (drop lo s)) = length (map (\<lambda>i. s ! i) [lo ..< min hi (length s)])"
      by (simp add: min_def) arith
  next
    fix i assume "i < length (take (hi - lo) (drop lo s))"
    then have "i < hi - lo" "lo + i < length s" by auto
    then show "take (hi - lo) (drop lo s) ! i = map (\<lambda>i. s ! i) [lo ..< min hi (length s)] ! i"
      by (simp add: min_def)
  qed
  then show ?thesis by (simp add: py_slice_def columns_def)
qed

lemma py_slice_from_columns: "py_slice_from lo s = columns_to_end lo s"
proof -
  have "drop lo s = map (\<lambda>i. s ! i) [lo ..< length s]"
    by (rule nth_equalityI) auto
  then show ?thesis by (simp add: py_slice_from_def columns_to_end_def)
qed

lemma check_emptyfield_unset: "check_emptyfield s = unset_if_empty s"
  by (cases s) (simp_all add: check_emptyfield_def unset_if_empty_def)

lemma rev_dropWhile_rev_take:
  "rev (dropWhile P (rev xs)) = take (length xs - length (takeWhile P (rev xs))) xs"
proof -
  have "rev xs = takeWhile P (rev xs) @ dropWhile P (rev xs)" by simp
  then have "xs = rev (dropWhile P (rev xs)) @ rev (takeWhile P (rev xs))"
    by (metis rev_append rev_rev_ident)
  then show ?thesis
    by (metis append_eq_conv_conj length_rev length_append add_diff_cancel_right')
qed

lemma takeWhile_rev_dropWhile:
  "dropWhile P s \<noteq> [] \<Longrightarrow> takeWhile P (rev (dropWhile P s)) = takeWhile P (rev s)"
proof -
  assume ne: "dropWhile P s \<noteq> []"
  have "rev s = rev (dropWhile P s) @ rev (takeWhile P s)"
    by (metis rev_append takeWhile_dropWhile_id)
  moreover have "\<exists>x\<in>set (rev (dropWhile P s)). \<not> P x"
    using ne by (metis hd_dropWhile hd_in_set set_rev)
  ultimately show ?thesis by (metis takeWhile_append1)
qed

lemma strip_trim: "strip s = trim s"
proof (cases "dropWhile isspace s = []")
  case True
  then have "length (takeWhile isspace s) = length s"
    by (metis append_Nil2 takeWhile_dropWhile_id)
  moreover have "strip s = []" unfolding strip_def True by simp
  ultimately show ?thesis by (simp add: trim_def)
next
  case False
  let ?d = "dropWhile isspace s"
  let ?lead = "length (takeWhile isspace s)"
  let ?trail = "length (takeWhile isspace (rev s))"
  have lead: "?lead \<noteq> length s"
    using False by (metis append_Nil2 takeWhile_dropWhile_id length_append add_cancel_right_right length_0_conv)
  have d: "?d = drop ?lead s" by (simp add: dropWhile_eq_drop)
  have "strip s = take (length ?d - length (takeWhile isspace (rev ?d))) ?d"
    unfolding strip_def by (rule rev_dropWhile_rev_take)
  also have "\<dots> = take (length s - ?lead - ?trail) (drop ?lead s)"
    using takeWhile_rev_dropWhile[OF False] d by simp
  also have "\<dots> = py_slice ?lead (length s - ?trail) s"
    by (simp add: py_slice_def add.commute)
  also have "\<dots> = map (\<lambda>i. s ! i) [?lead ..< length s - ?trail]"
    by (simp add: py_slice_columns columns_def)
  finally show ?thesis using lead by (simp add: trim_def)
qed

lemma strip_no_surrounding_space:
  "strip s \<noteq> [] \<Longrightarrow> \<not> isspace (hd (strip s)) \<and> \<not> isspace (last (strip s))"
proof -
  assume ne: "strip s \<noteq> []"
  let ?d = "dropWhile isspace s"
  let ?r = "dropWhile isspace (rev ?d)"
  have r: "?r \<noteq> []" using ne by (simp add: strip_def)
  then have h: "\<not> isspace (hd ?r)" by (rule hd_dropWhile)
  have l: "last (strip s) = hd ?r" using r by (simp add: strip_def last_rev)
  have dne: "?d \<noteq> []" using r by (metis dropWhile.simps(1) rev_is_Nil_conv)
  then have hd: "\<not> isspace (hd ?d)" by (rule hd_dropWhile)
  have "strip s = take (length ?d - length (takeWhile isspace (rev ?d))) ?d"
    unfolding strip_def by (rule rev_dropWhile_rev_take)
  with ne have "hd (strip s) = hd ?d"
    by (metis hd_take take_eq_Nil gr0I)
  with hd h l show ?thesis by simp
qed

lemma well_trimmed_strip: "well_trimmed (check_emptyfield (strip t))"
  using strip_no_surrounding_space[of t] by (simp add: well_trimmed_def check_emptyfield_def)

lemma well_trimmed_nil: "well_trimmed (check_emptyfield [])"
  by (simp add: well_trimmed_def check_emptyfield_def)

lemma well_trimmed_namefile: "well_trimmed (check_emptyfield ''namefile'')"
  by (simp add: well_trimmed_def check_emptyfield_def isspace_def)

lemma get_octect_well_trimmed: "list_all well_trimmed (get_octect line)"
  apply (simp add: get_octect_def Let_def well_trimmed_strip well_trimmed_nil well_trimmed_namefile)
  apply (simp add: well_trimmed_def check_emptyfield_def isspace_def)
  done

text \<open>
  Claim C5. \<^verbatim>\<open>get_octect\<close> is the fixed-column split the specification describes:
  it agrees, on every line, with \<open>decodeLine_spec\<close> (F from columns [0,2), X from [2,5),
  Y from [5,9); then value [9,23), id5 [23,27), id6 [27,32), id7 [32,35), descriptor [35,end),
  each trimmed and an empty result unset); it always yields 8 fields; no field is the empty
  string; a set field neither starts nor ends with whitespace; and when the trimmed triple
  is ("3","21","193") the value is columns [9,end), id5/id6/id7 are unset and the descriptor
  is "namefile". Being a function of the line alone, decoding a line twice gives the same
  record.
\<close>

theorem get_octect_fixed_columns:
  "get_octect line = decodeLine_spec line
   \<and> length (get_octect line) = 8
   \<and> (\<forall>fld \<in> set (get_octect line). fld \<noteq> Some [])
   \<and> (\<forall>s. Some s \<in> set (get_octect line) \<longrightarrow> \<not> isspace (hd s) \<and> \<not> isspace (last s))
   \<and> (take 3 (get_octect line) = [Some ''3'', Some ''21'', Some ''193''] \<longrightarrow>
        drop 3 (get_octect line) =
          [unset_if_empty (trim (columns_to_end 9 line)), None, None, None, Some ''namefile''])"
proof -
  have eq: "get_octect line = decodeLine_spec line"
    by (simp add: get_octect_def decodeLine_spec_def Let_def py_slice_columns
        py_slice_from_columns strip_trim check_emptyfield_unset unset_if_empty_def)
  have len: "length (get_octect line) = 8"
    by (simp add: get_octect_def Let_def)
  have wt: "\<forall>fld \<in> set (get_octect line). well_trimmed fld"
    using get_octect_well_trimmed by (simp add: list_all_iff)
  have ne: "\<forall>fld \<in> set (get_octect line). fld \<noteq> Some []"
    using wt by (auto simp: well_trimmed_def)
  have sp: "\<forall>s. Some s \<in> set (get_octect line) \<longrightarrow> \<not> isspace (hd s) \<and> \<not> isspace (last s)"
    using wt by (auto simp: well_trimmed_def)
  have ex: "take 3 (get_octect line) = [Some ''3'', Some ''21'', Some ''193''] \<longrightarrow>
        drop 3 (get_octect line) =
          [unset_if_empty (trim (columns_to_end 9 line)), None, None, None, Some ''namefile'']"
  proof (cases "strip (py_slice 0 2 line) = ''3'' \<and> strip (py_slice 2 5 line) = ''21''
                  \<and> strip (py_slice 5 9 line) = ''193''")
    case True
    then show ?thesis
      by (simp add: get_octect_def Let_def check_emptyfield_def check_emptyfield_unset [symmetric]
          strip_trim [symmetric] py_slice_from_columns [symmetric])
  next
    case False
    then show ?thesis
      by (auto simp: get_octect_def Let_def check_emptyfield_def split: if_splits)
  qed
  from eq len ne sp ex show ?thesis by blast
qed

theorem get_octect_fixed_columns_witness:
  "decodeLine_spec '' 3 21 193 out.BUFR'' =
       [Some ''3'', Some ''21'', Some ''193'', Some ''out.BUFR'', None, None, None, Some ''namefile'']
   \<and> length (get_octect '' 3 21 193 out.BUFR'') = 8
   \<and> Some ''out.BUFR'' \<in> set (get_octect '' 3 21 193 out.BUFR'')
   \<and> \<not> isspace (hd ''out.BUFR'') \<and> \<not> isspace (last ''out.BUFR'')"
proof -
  have e: "get_octect '' 3 21 193 out.BUFR'' =
       [Some ''3'', Some ''21'', Some ''193'', Some ''out.BUFR'', None, None, None, Some ''namefile'']"
    by (simp add: get_octect_def Let_def strip_def py_slice_def py_slice_from_def isspace_def
        check_emptyfield_def)
  then have m: "Some ''out.BUFR'' \<in> set (get_octect '' 3 21 193 out.BUFR'')"
    by simp
  from get_octect_fixed_columns [of "'' 3 21 193 out.BUFR''"] e m show ?thesis
    by metis
qed

section \<open>Properties of the BUFR table extractors\<close>

lemma ebind_Inl [simp]: "ebind (Inl e) f = Inl e"
  by (simp add: ebind_def)

lemma ebind_Inr [simp]: "ebind (Inr x) f = f x"
  by (simp add: ebind_def)

lemma ebind_InrD: "ebind m f = Inr y \<Longrightarrow> \<exists>x. m = Inr x \<and> f x = Inr y"
  by (cases m) simp_all

lemma raises_simps [simp]: "raises (Inl e) = True" "raises (Inr v) = False"
  by (simp_all add: raises_def)

lemma raises_iff: "raises r = (\<exists>e. r = Inl e)"
  by (cases r) simp_all


subsection \<open>Time extraction\<close>

lemma get_datetime_without_year_marker:
  "meta self = Some m \<Longrightarrow> loc_fxy m ''3'' ''1'' ''11'' = [] \<Longrightarrow>
   get_datetime_from_meta pf self = Inl UnboundLocalError"
  by (simp add: get_datetime_from_meta_def dt_read_year_def dt_read_month_day_def getattr_def)

text \<open>
  Claim C7 says that \<^verbatim>\<open>get_datetime_from_meta\<close> never lets an exception out for a
  table whose markers are absent. On the code it does: on a table with no
  (F=3, X=1, Y=11) row the first \<^verbatim>\<open>try\<close> leaves \<^verbatim>\<open>index_year\<close> unbound, and
  the second \<^verbatim>\<open>try\<close> reads it and catches only \<^verbatim>\<open>IndexError\<close>. Evaluated on
  the one-row table \<open>grid_only_table\<close>, the method raises \<^verbatim>\<open>UnboundLocalError\<close>
  instead of returning \<^verbatim>\<open>None\<close>.
\<close>

theorem get_datetime_unbound_index_year:
  "get_datetime_from_meta parse_decimal (bufr_with grid_only_table) = Inl UnboundLocalError"
  by (simp add: get_datetime_from_meta_def dt_read_year_def dt_read_month_day_def getattr_def
      loc_fxy_def bufr_with_def Bufr_def grid_only_table_def marker_row_def)

subsection \<open>Level reconstruction\<close>

lemma assign_tail_same: "length rhs = length a - 1 \<Longrightarrow> assign_tail a rhs = Inr (take 1 a @ rhs)"
  by (simp add: assign_tail_def Let_def)

lemma assign_first_Inr: "assign_first a v = Inr b \<Longrightarrow> b \<noteq> [] \<and> b ! 0 = v \<and> length b = length a"
  by (cases a) (auto simp: assign_first_def)

lemma var_levs_array_first:
  "var_levs_array pf m i1 n lb = Inr levs \<Longrightarrow> levs \<noteq> [] \<and> levs ! 0 = lb"
  unfolding var_levs_array_def by (auto dest!: ebind_InrD assign_first_Inr)

lemma var_levs_read_first:
  "var_levs_read pf self m sv i0 = Inr (lb, levs) \<Longrightarrow> levs \<noteq> [] \<and> levs ! 0 = lb"
  unfolding var_levs_read_def by (auto dest!: ebind_InrD var_levs_array_first)

lemma fill_max: "var_levs_fill ''max'' levs = Inr levs"
  by (simp add: var_levs_fill_def)

lemma fill_min: "levs \<noteq> [] \<Longrightarrow> var_levs_fill ''min'' levs = Inr (levs ! 0 # butlast levs)"
  by (cases levs) (simp_all add: var_levs_fill_def assign_tail_same)

lemma fill_ave:
  "levs \<noteq> [] \<Longrightarrow> var_levs_fill ''ave'' levs =
     Inr (levs ! 0 # map (\<lambda>i. np_mean (py_slice i (i + 2) levs)) [0 ..< length levs - 1])"
  by (cases levs) (simp_all add: var_levs_fill_def assign_tail_same)

lemma fill_other:
  "\<not> recognised_fill_method fm \<Longrightarrow>
   var_levs_fill fm levs = Inl (PyException ''Parametro fill_method passato in modo scorretto. Esco'')"
  by (simp add: var_levs_fill_def recognised_fill_method_def)

lemma fill_recognised:
  "recognised_fill_method fm \<Longrightarrow> levs \<noteq> [] \<Longrightarrow> \<not> raises (var_levs_fill fm levs)"
  unfolding recognised_fill_method_def using fill_max fill_min fill_ave by auto

lemma py_slice_pair: "i + 1 < length levs \<Longrightarrow> py_slice i (i + 2) levs = [levs ! i, levs ! (i + 1)]"
proof -
  assume a: "i + 1 < length levs"
  then have "drop i levs = levs ! i # drop (Suc i) levs" by (simp add: Cons_nth_drop_Suc)
  moreover from a have "drop (Suc i) levs = levs ! (i + 1) # drop (Suc (Suc i)) levs"
    by (simp add: Cons_nth_drop_Suc)
  ultimately show ?thesis by (simp add: py_slice_def)
qed

lemma np_mean_pair: "np_mean [a, b] = fscale64 (1 / 2) (fadd64 a b)"
  by (simp add: np_mean_def)

lemma get_var_levs_unfold:
  assumes "meta self = Some m" "var_levs_select m = Inr (sv, i0)"
    "var_levs_read pf self m sv i0 = Inr (lb, levs)"
  shows "get_var_levs_from_meta pf self fm =
           ebind (var_levs_fill fm levs) (\<lambda>final. Inr (sv, final))"
  using assms by (simp add: get_var_levs_from_meta_def getattr_def)

lemma iloc_list_Inr:
  "\<forall>i \<in> set ixs. i < length m \<Longrightarrow> iloc_list m ixs = Inr (map (\<lambda>i. m ! i) ixs)"
  by (simp add: iloc_list_def)

lemma filter_split_first:
  assumes "\<not> P x" and "\<forall>y \<in> set ys. P y"
  shows "filter P (x # ys) = ys"
  using assms by simp

lemma var_levs_array_above:
  assumes rows: "i1 + 1 + nlev < length m"
    and cells: "astype_float pf (filter (\<lambda>c. c \<noteq> Some ''missing'')
                  (map (\<lambda>i. value_col (m ! i)) (i1 # [i1 + 2 ..< i1 + 2 + nlev])))
                = Inr (first # read)"
    and first: "\<not> fgt first lb"
    and above: "\<forall>l \<in> set read. fgt l lb"
  shows "var_levs_array pf m i1 nlev lb = Inr (lb # read)"
proof -
  have "\<forall>i \<in> set (i1 # [i1 + 2 ..< i1 + 2 + nlev]). i < length m"
    using rows by auto
  then have r: "iloc_list m (i1 # [i1 + 2 ..< i1 + 2 + nlev])
      = Inr (map (\<lambda>i. m ! i) (i1 # [i1 + 2 ..< i1 + 2 + nlev]))"
    by (rule iloc_list_Inr)
  have c: "map value_col (map (\<lambda>i. m ! i) (i1 # [i1 + 2 ..< i1 + 2 + nlev]))
      = map (\<lambda>i. value_col (m ! i)) (i1 # [i1 + 2 ..< i1 + 2 + nlev])"
    by simp
  have f: "filter (\<lambda>l. fgt l lb) (first # read) = read"
    using first above by (rule filter_split_first)
  have t: "assign_tail (first # read) read = Inr (first # read)"
    by (simp add: assign_tail_def)
  show ?thesis
    unfolding var_levs_array_def r ebind_Inr c cells f t
    by (simp add: assign_first_def)
qed

lemma fill_min_explicit: "var_levs_fill ''min'' (lb # read) = Inr (lb # butlast (lb # read))"
  using fill_min [of "lb # read"] by simp

lemma zip_pairs:
  "map (\<lambda>i. f [(x # xs) ! i, (x # xs) ! (i + 1)]) [0 ..< length xs]
     = map (\<lambda>(a, b). f [a, b]) (zip (x # xs) xs)"
proof (induction xs arbitrary: x)
  case Nil
  then show ?case by simp
next
  case (Cons y ys)
  have "[0 ..< length (y # ys)] = 0 # map Suc [0 ..< length ys]"
    by (simp add: upt_conv_Cons map_Suc_upt del: upt_Suc)
  then have "map (\<lambda>i. f [(x # y # ys) ! i, (x # y # ys) ! (i + 1)]) [0 ..< length (y # ys)]
      = f [x, y] # map (\<lambda>i. f [(y # ys) ! i, (y # ys) ! (i + 1)]) [0 ..< length ys]"
    by (simp add: comp_def)
  with Cons.IH [of y] show ?case by simp
qed

lemma fill_ave_explicit:
  "var_levs_fill ''ave'' (lb # read)
     = Inr (lb # map (\<lambda>(a, b). fscale64 (1 / 2) (fadd64 a b)) (zip (lb # read) read))"
proof -
  have "map (\<lambda>i. np_mean (py_slice i (i + 2) (lb # read))) [0 ..< length read]
      = map (\<lambda>i. np_mean [(lb # read) ! i, (lb # read) ! (i + 1)]) [0 ..< length read]"
  proof (rule map_cong [OF refl])
    fix i assume "i \<in> set [0 ..< length read]"
    then have "i + 1 < length (lb # read)" by simp
    from py_slice_pair [OF this]
    show "np_mean (py_slice i (i + 2) (lb # read)) = np_mean [(lb # read) ! i, (lb # read) ! (i + 1)]"
      by simp
  qed
  also have "\<dots> = map (\<lambda>(a, b). np_mean [a, b]) (zip (lb # read) read)"
    by (rule zip_pairs)
  finally show ?thesis
    using fill_ave [of "lb # read"] by (simp add: np_mean_pair)
qed

text \<open>The mean of two doubles is their midpoint whenever the sum and its half are
  doubles.\<close>

lemma mean_of_pair_exact:
  assumes "binary64 (a + b) = Fin (a + b)" and "binary64 ((a + b) / 2) = Fin ((a + b) / 2)"
  shows "np_mean [Fin a, Fin b] = Fin ((a + b) / 2)"
  using assms by (simp add: np_mean_pair fadd64_def fscale64_def fround64_def)

text \<open>
  Claim C4, as amended. Let the table hold a field-kind marker at row \<open>i0\<close>, let \<open>lb\<close>
  be the lower bound (the value of the marker row, or -31 under the patch for
  reflectivity tables of the DPC), \<open>i1\<close> the marker row or the replication row after
  it, \<open>n\<close> the level count read from row \<open>i1 + 1\<close>, and let the level rows exist. Let
  \<open>first # read\<close> be the values of row \<open>i1\<close> and of the \<open>n\<close> level rows without
  the "missing" cells, where \<open>first\<close> is not above the lower bound and every level
  in \<open>read\<close> is above it. Then the level array is \<open>lb # read\<close>, and
  "max" returns it as read;
  "min" returns the lower bound followed by the array without its last element
  (\<open>final[i+1] = levels[i]\<close>);
  "ave" returns the lower bound followed by the mean of every adjacent pair of the
  array, computed in doubles (the sum rounded, then its half rounded).
  In all three the first element is the lower bound.
\<close>

theorem level_reconstruction:
  assumes "meta self = Some m" and "source self = Some src"
    and "var_levs_select m = Inr (sv, i0)"
    and "py_float pf (value_col (m ! i0)) = Inr lb0"
    and "lb = (if emission_center src = Some ''DPC'' \<and> var_name sv = ''Z'' \<and> lb0 = Fin 0
               then Fin (- 31) else lb0)"
    and "i1 = (if (F (m ! (i0 + 1)), X (m ! (i0 + 1)), Y (m ! (i0 + 1)))
                    = (Some ''1'', Some ''1'', Some ''0'')
               then i0 + 1 else i0)"
    and "int_of_value pf (value_col (m ! (i1 + 1))) = Inr n"
    and "i1 + 1 + nat n < length m"
    and "astype_float pf (filter (\<lambda>c. c \<noteq> Some ''missing'')
           (map (\<lambda>i. value_col (m ! i)) (i1 # [i1 + 2 ..< i1 + 2 + nat n])))
         = Inr (first # read)"
    and "\<not> fgt first lb" and "\<forall>l \<in> set read. fgt l lb"
  shows "get_var_levs_from_meta pf self ''max'' = Inr (sv, lb # read)
    \<and> get_var_levs_from_meta pf self ''min'' = Inr (sv, lb # butlast (lb # read))
    \<and> get_var_levs_from_meta pf self ''ave''
        = Inr (sv, lb # map (\<lambda>(a, b). fscale64 (1 / 2) (fadd64 a b)) (zip (lb # read) read))"
proof -
  have i0: "i0 + 1 < length m" and i1: "i1 + 1 < length m"
    using assms(6, 8) by (simp_all split: if_splits)
  have low: "var_levs_low_bounds pf self m sv i0 = Inr lb"
    using assms(2, 4, 5) by (simp add: var_levs_low_bounds_def getattr_def)
  have idx: "var_levs_index m i0 = Inr i1"
    using i0 assms(6) by (simp add: var_levs_index_def iloc_def)
  have nlev: "var_levs_nlev pf m i1 = Inr (nat n)"
    using i1 assms(7) by (simp add: var_levs_nlev_def iloc_def)
  have "var_levs_array pf m i1 (nat n) lb = Inr (lb # read)"
    using assms(8-11) by (rule var_levs_array_above)
  with low idx nlev have rd: "var_levs_read pf self m sv i0 = Inr (lb, lb # read)"
    by (simp add: var_levs_read_def)
  note u = get_var_levs_unfold [OF assms(1) assms(3) rd]
  show ?thesis
    by (simp add: u fill_max fill_min_explicit fill_ave_explicit)
qed

lemmas example_defs = levels_0123_table_def marker_only_table_def grid_only_table_def
  bufr_with_def Bufr_def marker_row_def value_row_def

lemmas eval_defs = getattr_def loc_fxy_def iloc_def iloc_list_def Let_def
  assign_tail_def assign_first_def py_slice_def upt_conv_Cons

text \<open>The example of the specification: read levels 1, 2, 3 with lower bound 0 give the
  level array [0, 1, 2, 3], and [0, 0, 1, 2] for "min", [0, 1, 2, 3] for "max" and
  [0, 1/2, 3/2, 5/2] for "ave".\<close>

theorem level_reconstruction_witness:
  "var_levs_select levels_0123_table = Inr (VarZ, 0)
   \<and> py_float parse_decimal (value_col (levels_0123_table ! 0)) = Inr (Fin 0)
   \<and> int_of_value parse_decimal (value_col (levels_0123_table ! 1)) = Inr 3
   \<and> map (\<lambda>i. value_col (levels_0123_table ! i)) [0, 2, 3, 4]
        = [Some ''0'', Some ''1'', Some ''2'', Some ''3'']
   \<and> get_var_levs_from_meta parse_decimal (bufr_with levels_0123_table) ''max''
        = Inr (VarZ, [Fin 0, Fin 1, Fin 2, Fin 3])
   \<and> get_var_levs_from_meta parse_decimal (bufr_with levels_0123_table) ''min''
        = Inr (VarZ, [Fin 0, Fin 0, Fin 1, Fin 2])
   \<and> get_var_levs_from_meta parse_decimal (bufr_with levels_0123_table) ''ave''
        = Inr (VarZ, [Fin 0, Fin (1 / 2), Fin (3 / 2), Fin (5 / 2)])"
proof -
  have m: "meta (bufr_with levels_0123_table) = Some levels_0123_table"
    and src: "source (bufr_with levels_0123_table)
        = Some \<lparr>name_source = Some ''SPC'', name_file = None,
                 emission_center = Some ''Arpae Emilia-Romagna''\<rparr>"
    by (simp_all add: bufr_with_def Bufr_def)
  have sel: "var_levs_select levels_0123_table = Inr (VarZ, 0)"
    by code_simp
  have lb0: "py_float parse_decimal (value_col (levels_0123_table ! 0)) = Inr (Fin 0)"
    by code_simp
  have lb: "Fin 0 = (if emission_center \<lparr>name_source = Some ''SPC'', name_file = None,
                 emission_center = Some ''Arpae Emilia-Romagna''\<rparr> = Some ''DPC''
               \<and> var_name VarZ = ''Z'' \<and> Fin 0 = Fin 0 then Fin (- 31) else Fin 0)"
    by simp
  have i1: "0 = (if (F (levels_0123_table ! (0 + 1)), X (levels_0123_table ! (0 + 1)),
                     Y (levels_0123_table ! (0 + 1))) = (Some ''1'', Some ''1'', Some ''0'')
                 then 0 + 1 else (0 :: nat))"
    by code_simp
  have n: "int_of_value parse_decimal (value_col (levels_0123_table ! (0 + 1))) = Inr 3"
    by code_simp
  have rows: "0 + 1 + nat 3 < length levels_0123_table"
    by code_simp
  have vals: "map (\<lambda>i. value_col (levels_0123_table ! i)) [0, 2, 3, 4]
        = [Some ''0'', Some ''1'', Some ''2'', Some ''3'']"
    by code_simp
  have ix: "0 # [0 + 2 ..< 0 + 2 + nat 3] = [0, 2, 3, 4]"
    by (simp add: upt_conv_Cons)
  have "astype_float parse_decimal (filter (\<lambda>c. c \<noteq> Some ''missing'')
           [Some ''0'', Some ''1'', Some ''2'', Some ''3'']) = Inr [Fin 0, Fin 1, Fin 2, Fin 3]"
    by code_simp
  then have cells: "astype_float parse_decimal (filter (\<lambda>c. c \<noteq> Some ''missing'')
           (map (\<lambda>i. value_col (levels_0123_table ! i)) (0 # [0 + 2 ..< 0 + 2 + nat 3])))
         = Inr (Fin 0 # [Fin 1, Fin 2, Fin 3])"
    by (simp only: ix vals)
  have first: "\<not> fgt (Fin 0) (Fin 0)" and above: "\<forall>l \<in> set [Fin 1, Fin 2, Fin 3]. fgt l (Fin 0)"
    by simp_all
  have h1: "fscale64 (1 / 2) (fadd64 (Fin 0) (Fin 1)) = Fin (1 / 2)"
    and h2: "fscale64 (1 / 2) (fadd64 (Fin 1) (Fin 2)) = Fin (3 / 2)"
    and h3: "fscale64 (1 / 2) (fadd64 (Fin 2) (Fin 3)) = Fin (5 / 2)"
    by code_simp+
  from level_reconstruction [OF m src sel lb0 lb i1 n rows cells first above]
       sel lb0 n vals
  show ?thesis by (simp add: h1 h2 h3)
qed

text \<open>
  Claim C4 as stated (for every level list read from the table) fails. With lower bound
  0 and the level rows 1, 0, 3 the method raises \<^verbatim>\<open>ValueError\<close> for "max": the
  levels above the lower bound are two, and do not fit the three slots. With the level
  rows -1, 5, -2 "max" returns [0, 5, 5, 5], not the values as read: the one level above
  the lower bound fills every slot.
\<close>

theorem level_reconstruction_not_for_every_list:
  "map (\<lambda>i. value_col (levels_0103_table ! i)) [0, 2, 3, 4]
     = [Some ''0'', Some ''1'', Some ''0'', Some ''3'']
   \<and> get_var_levs_from_meta parse_decimal (bufr_with levels_0103_table) ''max'' = Inl ValueError
   \<and> map (\<lambda>i. value_col (levels_below_table ! i)) [0, 2, 3, 4]
     = [Some ''0'', Some ''-1'', Some ''5'', Some ''-2'']
   \<and> get_var_levs_from_meta parse_decimal (bufr_with levels_below_table) ''max''
        = Inr (VarZ, [Fin 0, Fin 5, Fin 5, Fin 5])"
  by code_simp

text \<open>The mean of the doubles nearest to 0.1 and 0.2 is the double
  0.15000000000000002.\<close>

lemma np_mean_of_doubles:
  "parse_decimal ''0.1'' = Some (Fin (3602879701896397 / 36028797018963968))
   \<and> parse_decimal ''0.2'' = Some (Fin (3602879701896397 / 18014398509481984))
   \<and> np_mean [Fin (3602879701896397 / 36028797018963968), Fin (3602879701896397 / 18014398509481984)]
        = Fin (1351079888211149 / 9007199254740992)"
  by code_simp

subsection \<open>When \<^verbatim>\<open>get_var_levs_from_meta\<close> raises\<close>

lemma select_no_marker:
  "\<not> has_field_kind_marker m \<Longrightarrow>
   var_levs_select m = Inl (PyException ''Non ho capito cosa contiene il bufr. Esco'')"
  by (simp add: has_field_kind_marker_def var_levs_select_def)

lemma select_marker:
  "has_field_kind_marker m \<Longrightarrow> \<exists>sv i0. var_levs_select m = Inr (sv, i0)"
  by (auto simp: has_field_kind_marker_def var_levs_select_def Let_def)

lemma get_var_levs_after_select:
  assumes "meta self = Some m" "var_levs_select m = Inr (sv, i0)"
  shows "raises (get_var_levs_from_meta pf self fm) =
           (raises (var_levs_read pf self m sv i0) \<or> \<not> recognised_fill_method fm)"
proof (cases "var_levs_read pf self m sv i0")
  case (Inl e)
  with assms show ?thesis by (simp add: get_var_levs_from_meta_def getattr_def)
next
  case (Inr r)
  obtain lb levs where r: "r = (lb, levs)" by (cases r)
  with Inr have rd: "var_levs_read pf self m sv i0 = Inr (lb, levs)" by simp
  then have ne: "levs \<noteq> []" using var_levs_read_first by blast
  note u = get_var_levs_unfold [OF assms rd]
  show ?thesis
  proof (cases "recognised_fill_method fm")
    case True
    with fill_recognised [OF True ne] obtain fin where "var_levs_fill fm levs = Inr fin"
      by (cases "var_levs_fill fm levs") simp_all
    with True rd show ?thesis by (simp add: u)
  next
    case False
    with rd show ?thesis by (simp add: u fill_other)
  qed
qed

text \<open>
  Claim C8, as amended. On a table with none of the field-kind markers
  \<^verbatim>\<open>get_var_levs_from_meta\<close> raises its own exception; with a fill method other than
  "min", "ave", "max" it raises; neither case returns a default. These are not the only
  ways it raises: it raises exactly when no marker is present, or the fill method is
  not recognised, or reading the lower bound, the level count or the level rows after
  the marker raises.
\<close>

theorem get_var_levs_raises:
  assumes "meta self = Some m"
  shows "(\<not> has_field_kind_marker m \<longrightarrow>
            get_var_levs_from_meta pf self fm
              = Inl (PyException ''Non ho capito cosa contiene il bufr. Esco''))
    \<and> (\<not> recognised_fill_method fm \<longrightarrow> raises (get_var_levs_from_meta pf self fm))
    \<and> (raises (get_var_levs_from_meta pf self fm) \<longleftrightarrow>
           \<not> has_field_kind_marker m \<or> \<not> recognised_fill_method fm
           \<or> (\<exists>sv i0. var_levs_select m = Inr (sv, i0)
                 \<and> raises (var_levs_read pf self m sv i0)))"
proof (cases "has_field_kind_marker m")
  case False
  with assms select_no_marker [OF False] show ?thesis
    by (simp add: get_var_levs_from_meta_def getattr_def)
next
  case True
  from select_marker [OF True] obtain sv i0 where s: "var_levs_select m = Inr (sv, i0)"
    by blast
  from get_var_levs_after_select [OF assms s, of pf fm] True s show ?thesis
    by auto
qed

text \<open>The theorem at a table without marker, and at an unrecognised fill method.\<close>

theorem get_var_levs_raises_witness:
  "meta (bufr_with grid_only_table) = Some grid_only_table
   \<and> \<not> has_field_kind_marker grid_only_table
   \<and> get_var_levs_from_meta parse_decimal (bufr_with grid_only_table) ''min''
        = Inl (PyException ''Non ho capito cosa contiene il bufr. Esco'')
   \<and> meta (bufr_with levels_0123_table) = Some levels_0123_table
   \<and> \<not> recognised_fill_method ''avg''
   \<and> raises (get_var_levs_from_meta parse_decimal (bufr_with levels_0123_table) ''avg'')"
proof -
  have m1: "meta (bufr_with grid_only_table) = Some grid_only_table"
    and m2: "meta (bufr_with levels_0123_table) = Some levels_0123_table"
    by (simp_all add: bufr_with_def Bufr_def)
  have n1: "\<not> has_field_kind_marker grid_only_table"
    by (simp add: has_field_kind_marker_def example_defs eval_defs)
  have n2: "\<not> recognised_fill_method ''avg''"
    by (simp add: recognised_fill_method_def)
  from get_var_levs_raises [OF m1, where pf = parse_decimal and fm = "''min''"] n1
       get_var_levs_raises [OF m2, where pf = parse_decimal and fm = "''avg''"] n2 m1 m2
  show ?thesis by blast
qed

text \<open>
  Claim C8 as stated ("raises if and only if" one of the two contracts is violated) fails:
  on a table that ends at its marker row, with the recognised method "min", the
  method raises \<^verbatim>\<open>IndexError\<close> (the row after the marker does not exist).
\<close>

theorem get_var_levs_raises_on_truncated_table:
  "has_field_kind_marker marker_only_table
   \<and> recognised_fill_method ''min''
   \<and> get_var_levs_from_meta parse_decimal (bufr_with marker_only_table) ''min'' = Inl IndexError"
  by code_simp

subsection \<open>\<^verbatim>\<open>read_bufr\<close> on an empty table\<close>

lemma read_bufr_metadata_empty:
  assumes "meta_file = Inl e \<or> meta_file = Inr []"
  shows "read_bufr_metadata env self meta_file fm =
           (self\<lparr>meta := Some [], time := Some StructTime, levels := Some None\<rparr>, Inr ())"
  using assms by (auto simp: read_bufr_metadata_def read_meta_def)

text \<open>
  Claim C10. When the metadata file cannot be read or has no lines, \<^verbatim>\<open>read_bufr\<close>
  leaves the instance with the empty table, a fresh time record and
  \<^verbatim>\<open>levels = None\<close>, touches nothing else, never looks at the data file, and raises:
  \<^verbatim>\<open>AttributeError\<close> when one of grid, source, product, variabile, projection was
  never assigned on the instance (as on a fresh one), and otherwise
  \<^verbatim>\<open>UnboundLocalError\<close> for the local \<^verbatim>\<open>out_field\<close>. It never returns the pair.
\<close>

theorem read_bufr_empty_table:
  assumes "meta_file = Inl e \<or> meta_file = Inr []"
  shows "fst (read_bufr env self data_file meta_file fm)
           = self\<lparr>meta := Some [], time := Some StructTime, levels := Some None\<rparr>
    \<and> snd (read_bufr env self data_file meta_file fm)
           = (if grid self = None \<or> source self = None \<or> product self = None
                 \<or> variabile self = None \<or> projection self = None
              then Inl AttributeError else Inl UnboundLocalError)
    \<and> read_bufr env self other_data_file meta_file fm
           = read_bufr env self data_file meta_file fm"
  by (auto simp: read_bufr_def read_bufr_metadata_empty [OF assms] read_bufr_macro_def getattr_def
      split: option.splits)

text \<open>The theorem on a fresh instance, for an empty and for an unreadable file.\<close>

theorem read_bufr_empty_table_witness:
  "read_bufr example_env Bufr (Inr [0, 1, 1, 0]) (Inr []) ''min''
     = (Bufr\<lparr>meta := Some [], time := Some StructTime, levels := Some None\<rparr>, Inl AttributeError)
   \<and> read_bufr example_env Bufr (Inr [0, 1, 1, 0]) (Inl (PyException ''No such file'')) ''min''
     = (Bufr\<lparr>meta := Some [], time := Some StructTime, levels := Some None\<rparr>, Inl AttributeError)"
proof -
  have g: "grid Bufr = None" by (simp add: Bufr_def)
  have a: "(Inr [] :: py_error + string list) = Inl (PyException ''x'') \<or> (Inr [] :: py_error + string list) = Inr []"
    by simp
  have b: "(Inl (PyException ''No such file'') :: py_error + string list) = Inl (PyException ''No such file'')
           \<or> (Inl (PyException ''No such file'') :: py_error + string list) = Inr []"
    by simp
  from read_bufr_empty_table [OF a, where env = example_env and self = Bufr
         and data_file = "Inr [0, 1, 1, 0]" and fm = "''min''"]
       read_bufr_empty_table [OF b, where env = example_env and self = Bufr
         and data_file = "Inr [0, 1, 1, 0]" and fm = "''min''"] g
  show ?thesis by (simp add: prod_eq_iff)
qed

section \<open>Properties of the polar-volume hierarchy\<close>

lemma py_index_Inr: "py_index xs i = Inr x \<Longrightarrow> i < length xs \<and> x = xs ! i"
  by (auto simp: py_index_def split: if_splits)

subsection \<open>The elevation index\<close>

lemma emap_Inr:
  "emap f xs = Inr ys \<Longrightarrow> length ys = length xs \<and> (\<forall>i < length xs. f (xs ! i) = Inr (ys ! i))"
proof (induction xs arbitrary: ys)
  case Nil
  then show ?case by simp
next
  case (Cons x xs)
  from Cons.prems obtain y ys' where y: "f x = Inr y" and r: "emap f xs = Inr ys'"
    and e: "ys = y # ys'"
    by (auto dest!: ebind_InrD)
  from Cons.IH [OF r] y e show ?case
    by (auto simp: nth_Cons split: nat.splits)
qed

lemma efold_invariant:
  assumes "efold f xs s = Inr t" and "P s"
    and "\<And>x a b. x \<in> set xs \<Longrightarrow> P a \<Longrightarrow> f x a = Inr b \<Longrightarrow> P b"
  shows "P t"
  using assms
proof (induction xs arbitrary: s)
  case Nil
  then show ?case by simp
next
  case (Cons x xs)
  from Cons.prems(1) obtain b where b: "f x s = Inr b" and r: "efold f xs b = Inr t"
    by (auto dest!: ebind_InrD)
  from Cons.prems(3) [of x s b] Cons.prems(2) b have pb: "P b" by simp
  have "\<And>y a c. y \<in> set xs \<Longrightarrow> P a \<Longrightarrow> f y a = Inr c \<Longrightarrow> P c"
    using Cons.prems(3) by (meson list.set_intros(2))
  with Cons.IH [OF r pb] show ?case by blast
qed


lemma setistance_Inr:
  assumes "setistance ov args = Inr p"
  shows "elevation_index p" and "pvol_args.truncate p = args" and "varsnames p = ov"
proof -
  from assms have l1: "int (length (datasets args)) = n_group_dataset args"
    and l2: "int (length (group_datasets_data_what args)) = n_group_dataset args"
    by (auto simp: setistance_def split: if_splits)
  with assms obtain els where
    els: "emap (\<lambda>i. ebind (py_index (group_datasets_where args) i) (\<lambda>g. obj_attr g ''elangle''))
            [0 ..< nat (n_group_dataset args)] = Inr els"
    and p: "p = pvol_args.extend args (pvol.fields els ov)"
    by (auto simp: setistance_def dest!: ebind_InrD)
  from p show "pvol_args.truncate p = args" "varsnames p = ov"
    by (simp_all add: pvol_args.defs pvol.defs)
  from emap_Inr [OF els] have len: "length els = nat (n_group_dataset args)"
    and nth: "\<forall>i < nat (n_group_dataset args).
        ebind (py_index (group_datasets_where args) i) (\<lambda>g. obj_attr g ''elangle'') = Inr (els ! i)"
    by simp_all
  have n0: "0 \<le> n_group_dataset args" using l1 by linarith
  have "\<forall>i < length els. i < length (group_datasets_where args)
            \<and> obj_attr (group_datasets_where args ! i) ''elangle'' = Inr (els ! i)"
  proof (intro allI impI)
    fix i assume "i < length els"
    with len nth have "ebind (py_index (group_datasets_where args) i) (\<lambda>g. obj_attr g ''elangle'') = Inr (els ! i)"
      by simp
    then show "i < length (group_datasets_where args)
            \<and> obj_attr (group_datasets_where args ! i) ''elangle'' = Inr (els ! i)"
      by (auto dest!: ebind_InrD py_index_Inr)
  qed
  with len n0 l1 l2 p show "elevation_index p"
    by (simp add: elevation_index_def pvol_args.defs pvol.defs)
qed


lemma hierarchy_obj_setattr:
  "name \<noteq> ''hierarchy'' \<Longrightarrow> hierarchy (obj_setattr g name v) = hierarchy g"
  by (simp add: obj_setattr_def)

lemma hierarchy_get_attrs:
  assumes "get_attrs_from_odimgroup attrs_list n g = Inr g'" and "''hierarchy'' \<notin> set attrs_list"
  shows "hierarchy g' = hierarchy g"
proof -
  have step: "\<And>x a b. x \<in> set attrs_list \<Longrightarrow> hierarchy a = hierarchy g \<Longrightarrow>
          get_attr_from_odimgroup n x a = Inr b \<Longrightarrow> hierarchy b = hierarchy g"
  proof -
    fix x a b
    assume x: "x \<in> set attrs_list" and a: "hierarchy a = hierarchy g"
      and b: "get_attr_from_odimgroup n x a = Inr b"
    from x assms(2) have "x \<noteq> ''hierarchy''" by auto
    with a b show "hierarchy b = hierarchy g"
      by (auto simp: get_attr_from_odimgroup_def hierarchy_obj_setattr split: option.splits
          dest!: ebind_InrD)
  qed
  from assms(1) have "efold (get_attr_from_odimgroup n) attrs_list g = Inr g'"
    by (simp add: get_attrs_from_odimgroup_def)
  from efold_invariant [where P = "\<lambda>a. hierarchy a = hierarchy g", OF this _ step]
  show ?thesis by simp
qed

lemma read_group_step:
  assumes "read_group hr k st = Inr st'" and "read_state_for names st"
  shows "read_state_for (names @ [k]) st'"
proof -
  from assms(1) obtain where_n dg_where stack dws q dg_what dg_hp dg_hr n where
    w: "get_attrs_from_odimgroup
              [''elangle'', ''nbins'', ''rstart'', ''rscale'', ''nrays'', ''a1gate'']
              where_n (OdimWherePolarDset (k @ ''/where'') PNone) = Inr dg_where"
    and st': "st' = \<lparr>gd_what_list = gd_what_list st @ [dg_what],
            gd_where_list = gd_where_list st @ [dg_where],
            gd_how_polar_list = gd_how_polar_list st @ [dg_hp],
            gd_how_radar_list = gd_how_radar_list st @ [dg_hr],
            gd_datadset_list_total = gd_datadset_list_total st @ [stack],
            gd_data_what_list_total = gd_data_what_list_total st @ [dws],
            nmax_datasets = n,
            allquantities = q\<rparr>"
    unfolding read_group_def Let_def
    by (auto dest!: ebind_InrD split: prod.splits)
  from hierarchy_get_attrs [OF w] have "hierarchy dg_where = k @ ''/where''"
    by (simp add: OdimWherePolarDset_def)
  with assms(2) st' show ?thesis by (simp add: read_state_for_def)
qed

lemma read_groups_state:
  assumes "efold (read_group hr) ks st = Inr st'" and "read_state_for names st"
  shows "read_state_for (names @ ks) st'"
  using assms
proof (induction ks arbitrary: st names)
  case Nil
  then show ?case by simp
next
  case (Cons k ks)
  from Cons.prems(1) obtain b where b: "read_group hr k st = Inr b"
    and r: "efold (read_group hr) ks b = Inr st'"
    by (auto dest!: ebind_InrD)
  from Cons.IH [OF r read_group_step [OF b Cons.prems(2)]] show ?case by simp
qed

lemma read_odim_Inr:
  assumes "read_odim hr = Inr p"
  shows "elevation_index p"
    and "map hierarchy (group_datasets_where p)
           = map (\<lambda>k. k @ ''/where'') (filter (str_contains ''dataset'') (h5_children hr []))"
    and "n_group_dataset p = int (length (filter (str_contains ''dataset'') (h5_children hr [])))"
proof -
  let ?names = "filter (str_contains ''dataset'') (h5_children hr [])"
  from assms obtain st a p0 where
    st: "efold (read_group hr) ?names read_state_init = Inr st"
    and s: "setistance None a = Inr p0"
    and a: "group_datasets_where a = gd_where_list st" "n_group_dataset a = int (length ?names)"
    and p: "p = p0\<lparr>varsnames := Some (allquantities st)\<rparr>"
    unfolding read_odim_def Let_def
    by (auto dest!: ebind_InrD)
  have "read_state_for [] read_state_init"
    by (simp add: read_state_for_def read_state_init_def)
  from read_groups_state [OF st this] have rs: "read_state_for ?names st" by simp
  from setistance_Inr(1) [OF s] p show "elevation_index p"
    by (simp add: elevation_index_def)
  from setistance_Inr(2) [OF s] have "group_datasets_where p0 = group_datasets_where a"
    "n_group_dataset p0 = n_group_dataset a"
    by (auto simp: pvol_args.defs)
  with a rs p show "map hierarchy (group_datasets_where p)
           = map (\<lambda>k. k @ ''/where'') ?names"
    and "n_group_dataset p = int (length ?names)"
    by (simp_all add: read_state_for_def)
qed

text \<open>
  Claim C9. After a successful \<^verbatim>\<open>setistance\<close> or \<^verbatim>\<open>read_odim\<close> the list of elevation
  angles has \<^verbatim>\<open>n_group_dataset\<close> entries, its i-th entry is the \<^verbatim>\<open>elangle\<close> of
  \<^verbatim>\<open>group_datasets_where[i]\<close> (no sorting), and the per-elevation dataset list and
  data-what list have \<^verbatim>\<open>n_group_dataset\<close> entries each. After \<^verbatim>\<open>read_odim\<close> the
  where-groups, and so the angles, follow the order in which the file enumerates its
  elevation groups.
\<close>

theorem elevation_index_invariant:
  assumes "setistance old_varsnames args = Inr p \<or> read_odim hr = Inr p"
  shows "int (length (elangles p)) = n_group_dataset p
    \<and> (\<forall>i < length (elangles p).
          i < length (group_datasets_where p)
          \<and> obj_attr (group_datasets_where p ! i) ''elangle'' = Inr (elangles p ! i))
    \<and> int (length (datasets p)) = n_group_dataset p
    \<and> int (length (group_datasets_data_what p)) = n_group_dataset p
    \<and> (read_odim hr = Inr p \<longrightarrow>
          map hierarchy (group_datasets_where p)
            = map (\<lambda>k. k @ ''/where'') (filter (str_contains ''dataset'') (h5_children hr [])))"
proof -
  from assms have "elevation_index p"
    using setistance_Inr(1) read_odim_Inr(1) by blast
  then show ?thesis
    using read_odim_Inr(2) by (simp add: elevation_index_def)
qed


text \<open>The theorem at the two-elevation example, populated by \<^verbatim>\<open>setistance\<close>.\<close>

theorem elevation_index_invariant_witness:
  "setistance (Some [PStr ''DBZH'', PStr ''Z_VD'']) two_sweeps_args = Inr two_sweeps
   \<and> int (length (elangles two_sweeps)) = n_group_dataset two_sweeps
   \<and> elangles two_sweeps = [PNum (1 / 2), PNum (3 / 2)]
   \<and> obj_attr (group_datasets_where two_sweeps ! 1) ''elangle'' = Inr (elangles two_sweeps ! 1)
   \<and> int (length (datasets two_sweeps)) = 2
   \<and> int (length (group_datasets_data_what two_sweeps)) = 2"
proof -
  have h: "setistance (Some [PStr ''DBZH'', PStr ''Z_VD'']) two_sweeps_args = Inr two_sweeps"
    by code_simp
  have e: "elangles two_sweeps = [PNum (1 / 2), PNum (3 / 2)]"
    by code_simp
  have n: "n_group_dataset two_sweeps = 2"
    by code_simp
  from elevation_index_invariant [OF disjI1 [OF h], of h5_new] e n h show ?thesis
    by simp
qed

subsection \<open>Lookup by elevation angle and quantity\<close>

lemma py_index_lt: "i < length xs \<Longrightarrow> py_index xs i = Inr (xs ! i)"
  by (simp add: py_index_def)

lemma list_index_notin: "v \<notin> set xs \<Longrightarrow> list_index xs v = Inl ValueError"
  by (induction xs) auto

lemma list_index_Inr:
  "list_index xs v = Inr i \<Longrightarrow> i < length xs \<and> xs ! i = v \<and> (\<forall>j < i. xs ! j \<noteq> v)"
proof (induction xs arbitrary: i)
  case Nil
  then show ?case by simp
next
  case (Cons x xs)
  show ?case
  proof (cases "x = v")
    case True
    with Cons.prems show ?thesis by simp
  next
    case False
    with Cons.prems obtain k where k: "list_index xs v = Inr k" and i: "i = Suc k"
      by (auto dest!: ebind_InrD)
    from Cons.IH [OF k] False i show ?thesis
      by (auto simp: nth_Cons less_Suc_eq_0_disj split: nat.splits)
  qed
qed

lemma varsnames_elangle_eq:
  assumes "varsnames self = Some vs" and "py_max (elangles self) = Inr mx"
  shows "varsnames_elangle self a =
           Inr (if PNum a = mx \<and> PStr ''Z_VD'' \<in> set vs then remove1 (PStr ''Z_VD'') vs else vs)"
  using assms by (simp add: varsnames_elangle_def getattr_def)

lemma decode_raw_num:
  "decode_raw raw (PNum g) (PNum ofs) = Inr (map (map (affine g ofs)) raw)"
  by (simp add: decode_raw_def num_of_def)

lemma decode_raw_Inr:
  "decode_raw raw gain offset = Inr d \<Longrightarrow>
   \<exists>g ofs. gain = PNum g \<and> offset = PNum ofs \<and> d = map (map (affine g ofs)) raw"
  by (auto simp: decode_raw_def num_of_def split: option.splits pyval.splits)

lemma get_data_Inr:
  assumes "get_data_by_elangle self a q = Inr d"
  shows "\<exists>names i j g ofs.
           varsnames_elangle self a = Inr names
         \<and> list_index names (PStr q) = Inr j
         \<and> list_index (elangles self) (PNum a) = Inr i
         \<and> i < length (datasets self) \<and> j < length (datasets self ! i)
         \<and> i < length (group_datasets_data_what self)
         \<and> j < length (group_datasets_data_what self ! i)
         \<and> obj_attr (group_datasets_data_what self ! i ! j) ''gain'' = Inr (PNum g)
         \<and> obj_attr (group_datasets_data_what self ! i ! j) ''offset'' = Inr (PNum ofs)
         \<and> d = map (map (affine g ofs)) (datasets self ! i ! j)"
  using assms unfolding get_data_by_elangle_def
  by (auto dest!: ebind_InrD py_index_Inr decode_raw_Inr)

lemma get_data_success:
  assumes "varsnames_elangle self a = Inr names"
    and "list_index names (PStr q) = Inr j"
    and "list_index (elangles self) (PNum a) = Inr i"
    and "i < length (datasets self)" and "j < length (datasets self ! i)"
    and "i < length (group_datasets_data_what self)"
    and "j < length (group_datasets_data_what self ! i)"
    and "obj_attr (group_datasets_data_what self ! i ! j) ''gain'' = Inr (PNum g)"
    and "obj_attr (group_datasets_data_what self ! i ! j) ''offset'' = Inr (PNum ofs)"
  shows "get_data_by_elangle self a q = Inr (map (map (affine g ofs)) (datasets self ! i ! j))"
  using assms by (simp add: get_data_by_elangle_def py_index_lt decode_raw_num)

text \<open>
  Claim C3, as amended. For a populated volume whose quantity names are distinct and
  contain "Z_VD", and whose elevation angles have the greatest element \<open>mx\<close>:
  the candidate names for an angle are the names without "Z_VD" exactly when the angle
  is \<open>mx\<close>; the lookup of "Z_VD" at \<open>mx\<close> fails with the \<^verbatim>\<open>ValueError\<close> of
  \<^verbatim>\<open>list.index\<close>; the lookup of "Z_VD" at another angle succeeds when that angle is
  an elevation of the volume and the elevation holds an array and a what-group with
  numeric gain and offset at the position of "Z_VD" among the names; and every
  successful lookup returns \<open>raw * gain + offset\<close> for the array and the what-group at
  the elevation's index and the quantity's position among the candidates (the product
  and the sum exact).
\<close>

theorem get_data_by_elangle_z_vd:
  assumes "varsnames self = Some vs" and "PStr ''Z_VD'' \<in> set vs" and "distinct vs"
    and "py_max (elangles self) = Inr mx"
  shows "varsnames_elangle self a
           = Inr (if PNum a = mx then remove1 (PStr ''Z_VD'') vs else vs)
    \<and> (PNum a = mx \<longrightarrow> get_data_by_elangle self a ''Z_VD'' = Inl ValueError)
    \<and> (PNum a \<noteq> mx \<longrightarrow>
         list_index (elangles self) (PNum a) = Inr i \<longrightarrow>
         list_index vs (PStr ''Z_VD'') = Inr j \<longrightarrow>
         i < length (datasets self) \<longrightarrow> j < length (datasets self ! i) \<longrightarrow>
         i < length (group_datasets_data_what self) \<longrightarrow>
         j < length (group_datasets_data_what self ! i) \<longrightarrow>
         obj_attr (group_datasets_data_what self ! i ! j) ''gain'' = Inr (PNum g) \<longrightarrow>
         obj_attr (group_datasets_data_what self ! i ! j) ''offset'' = Inr (PNum ofs) \<longrightarrow>
         get_data_by_elangle self a ''Z_VD''
           = Inr (map (map (affine g ofs)) (datasets self ! i ! j)))
    \<and> (get_data_by_elangle self a q = Inr d \<longrightarrow>
         (\<exists>names i' j' g' ofs'.
             varsnames_elangle self a = Inr names
           \<and> list_index names (PStr q) = Inr j'
           \<and> list_index (elangles self) (PNum a) = Inr i'
           \<and> obj_attr (group_datasets_data_what self ! i' ! j') ''gain'' = Inr (PNum g')
           \<and> obj_attr (group_datasets_data_what self ! i' ! j') ''offset'' = Inr (PNum ofs')
           \<and> d = map (map (affine g' ofs')) (datasets self ! i' ! j')))"
proof -
  note ve = varsnames_elangle_eq [OF assms(1,4), of a]
  have c1: "varsnames_elangle self a
           = Inr (if PNum a = mx then remove1 (PStr ''Z_VD'') vs else vs)"
    using ve assms(2) by simp
  have c2: "PNum a = mx \<longrightarrow> get_data_by_elangle self a ''Z_VD'' = Inl ValueError"
  proof
    assume "PNum a = mx"
    with c1 have v: "varsnames_elangle self a = Inr (remove1 (PStr ''Z_VD'') vs)" by simp
    from assms(3) have "PStr ''Z_VD'' \<notin> set (remove1 (PStr ''Z_VD'') vs)" by simp
    from list_index_notin [OF this] v show "get_data_by_elangle self a ''Z_VD'' = Inl ValueError"
      by (simp add: get_data_by_elangle_def)
  qed
  have c3: "PNum a \<noteq> mx \<longrightarrow>
         list_index (elangles self) (PNum a) = Inr i \<longrightarrow>
         list_index vs (PStr ''Z_VD'') = Inr j \<longrightarrow>
         i < length (datasets self) \<longrightarrow> j < length (datasets self ! i) \<longrightarrow>
         i < length (group_datasets_data_what self) \<longrightarrow>
         j < length (group_datasets_data_what self ! i) \<longrightarrow>
         obj_attr (group_datasets_data_what self ! i ! j) ''gain'' = Inr (PNum g) \<longrightarrow>
         obj_attr (group_datasets_data_what self ! i ! j) ''offset'' = Inr (PNum ofs) \<longrightarrow>
         get_data_by_elangle self a ''Z_VD''
           = Inr (map (map (affine g ofs)) (datasets self ! i ! j))"
    using c1 get_data_success [of self a vs "''Z_VD''" j i g ofs] by simp
  have c4: "get_data_by_elangle self a q = Inr d \<longrightarrow>
         (\<exists>names i' j' g' ofs'.
             varsnames_elangle self a = Inr names
           \<and> list_index names (PStr q) = Inr j'
           \<and> list_index (elangles self) (PNum a) = Inr i'
           \<and> obj_attr (group_datasets_data_what self ! i' ! j') ''gain'' = Inr (PNum g')
           \<and> obj_attr (group_datasets_data_what self ! i' ! j') ''offset'' = Inr (PNum ofs')
           \<and> d = map (map (affine g' ofs')) (datasets self ! i' ! j'))"
    using get_data_Inr [of self a q d] by blast
  from c1 c2 c3 c4 show ?thesis by blast
qed


text \<open>The theorem at the two-elevation example: "Z_VD" is refused at 1.5 degrees and
  decoded at 0.5 degrees.\<close>

theorem get_data_by_elangle_z_vd_witness:
  "varsnames two_sweeps = Some [PStr ''DBZH'', PStr ''Z_VD'']
   \<and> py_max (elangles two_sweeps) = Inr (PNum (3 / 2))
   \<and> get_data_by_elangle two_sweeps (3 / 2) ''Z_VD'' = Inl ValueError
   \<and> get_data_by_elangle two_sweeps (1 / 2) ''Z_VD'' = Inr [[Fin 3, Fin 5]]"
proof -
  have v: "varsnames two_sweeps = Some [PStr ''DBZH'', PStr ''Z_VD'']"
    by code_simp
  have z: "PStr ''Z_VD'' \<in> set [PStr ''DBZH'', PStr ''Z_VD'']" and d: "distinct [PStr ''DBZH'', PStr ''Z_VD'']"
    by simp_all
  have m: "py_max (elangles two_sweeps) = Inr (PNum (3 / 2))"
    by code_simp
  note t = get_data_by_elangle_z_vd [OF v z d m]
  from t [of "3 / 2"] have top: "get_data_by_elangle two_sweeps (3 / 2) ''Z_VD'' = Inl ValueError"
    by simp
  have i: "list_index (elangles two_sweeps) (PNum (1 / 2)) = Inr 0"
    and j: "list_index [PStr ''DBZH'', PStr ''Z_VD''] (PStr ''Z_VD'') = Inr 1"
    and b: "0 < length (datasets two_sweeps)" "1 < length (datasets two_sweeps ! 0)"
       "0 < length (group_datasets_data_what two_sweeps)"
       "1 < length (group_datasets_data_what two_sweeps ! 0)"
    and g: "obj_attr (group_datasets_data_what two_sweeps ! 0 ! 1) ''gain'' = Inr (PNum 2)"
    and ofs: "obj_attr (group_datasets_data_what two_sweeps ! 0 ! 1) ''offset'' = Inr (PNum 1)"
    and raw: "map (map (affine 2 1)) (datasets two_sweeps ! 0 ! 1) = [[Fin 3, Fin 5]]"
    by code_simp+
  have ne: "PNum (1 / 2) \<noteq> PNum (3 / 2 :: rat)" by simp
  from t [of "1 / 2" 0 1 2 1] ne i j b g ofs
  have "get_data_by_elangle two_sweeps (1 / 2) ''Z_VD''
          = Inr (map (map (affine 2 1)) (datasets two_sweeps ! 0 ! 1))"
    by blast
  with raw have low: "get_data_by_elangle two_sweeps (1 / 2) ''Z_VD'' = Inr [[Fin 3, Fin 5]]"
    by simp
  from v m top low show ?thesis by simp
qed

text \<open>
  Claim C3 as stated (the lookup of "Z_VD" succeeds at every angle other than the
  greatest) fails, also when "Z_VD" is present at every elevation except the greatest.
  In the example \<open>mixed_sweeps\<close> the names are DBZH, VRAD, Z_VD; the elevations 0.5
  and 1.0 hold "Z_VD", the elevation 1.5 does not, and the elevation 1.0 does not hold
  VRAD. The lookup of "Z_VD" at 1.0 raises \<^verbatim>\<open>IndexError\<close>: the position of "Z_VD"
  among the names is 2, and the elevation holds two arrays. (The lookup of "VRAD" at 1.0
  returns the array of "Z_VD".)
\<close>

theorem get_data_by_elangle_other_angle_fails:
  "setistance (Some [PStr ''DBZH'', PStr ''VRAD'', PStr ''Z_VD'']) mixed_sweeps_args
     = Inr mixed_sweeps
   \<and> varsnames mixed_sweeps = Some [PStr ''DBZH'', PStr ''VRAD'', PStr ''Z_VD'']
   \<and> elangles mixed_sweeps = [PNum (1 / 2), PNum 1, PNum (3 / 2)]
   \<and> py_max (elangles mixed_sweeps) = Inr (PNum (3 / 2))
   \<and> map (map (\<lambda>w. struct_getitem w ''quantity'')) (group_datasets_data_what mixed_sweeps)
       = [[PStr ''DBZH'', PStr ''VRAD'', PStr ''Z_VD''], [PStr ''DBZH'', PStr ''Z_VD''],
          [PStr ''DBZH'', PStr ''VRAD'']]
   \<and> get_data_by_elangle mixed_sweeps (1 / 2) ''Z_VD'' = Inr [[Fin 3, Fin 5]]
   \<and> get_data_by_elangle mixed_sweeps 1 ''Z_VD'' = Inl IndexError
   \<and> get_data_by_elangle mixed_sweeps 1 ''VRAD'' = Inr [[Fin 7, Fin 9]]"
  by code_simp
subsection \<open>What the export writes\<close>

lemma only_datasets_new: "only_datasets Q h5_new"
  by (simp add: only_datasets_def h5_new_def)

lemma map_of_groups:
  "map_of (map (\<lambda>q. (q, H5Group False [])) qs) path = Some (H5Dataset a) \<Longrightarrow> False"
  by (induction qs) (auto split: if_splits)

lemma only_datasets_create_group:
  assumes "h5_create f p (H5Group t as) = Inr f'" and "only_datasets Q f"
  shows "only_datasets Q f'"
  using assms
  by (auto simp: h5_create_def only_datasets_def map_of_append split: if_splits
      dest: map_of_groups)

lemma only_datasets_create_dataset:
  assumes "h5_create f p (H5Dataset d) = Inr f'" and "only_datasets Q f" and "Q p d"
  shows "only_datasets Q f'"
  using assms
  by (auto simp: h5_create_def only_datasets_def map_of_append split: if_splits
      dest: map_of_groups)

lemma only_datasets_set_attr:
  "only_datasets Q f \<Longrightarrow> only_datasets Q (h5_set_attr f p name v)"
  by (auto simp: h5_set_attr_def only_datasets_def update_conv' split: option.splits h5node.splits if_splits)

lemma only_datasets_require_group:
  assumes "h5_require_group f name = Inr f'" and "only_datasets Q f"
  shows "only_datasets Q f'"
  using assms only_datasets_create_group
  by (auto simp: h5_require_group_def split: option.splits h5node.splits if_splits)


lemma only_datasets_odim_create:
  "odim_create g hf = Inr hf' \<Longrightarrow> only_datasets Q hf \<Longrightarrow> only_datasets Q hf'"
  unfolding odim_create_def by (rule only_datasets_create_group)

lemma odim_setattr_Inr:
  assumes "odim_setattr self g attr hf = Inr hf'"
  shows "hf' = hf \<or> (\<exists>p v. hf' = h5_set_attr hf p attr v)"
proof (cases "struct_hasitem self attr \<and> struct_getitem self attr \<noteq> PNone")
  case False
  with assms show ?thesis by (auto simp: odim_setattr_def Let_def split: if_splits)
next
  case True
  with assms obtain p where g: "g = Some p"
    by (cases g) (auto simp: odim_setattr_def Let_def)
  show ?thesis
  proof (cases "struct_getitem self attr")
    case (PStr s)
    with assms True g show ?thesis
      by (auto simp: odim_setattr_def Let_def dest!: ebind_InrD)
  qed (use assms True g in \<open>auto simp: odim_setattr_def Let_def\<close>)
qed

lemma only_datasets_odim_setattr:
  assumes "odim_setattr self g attr hf = Inr hf'" and "only_datasets Q hf"
  shows "only_datasets Q hf'"
  using odim_setattr_Inr [OF assms(1)] assms(2) only_datasets_set_attr by auto

lemma only_datasets_setattr_loop:
  assumes "efold (odim_setattr self g) attrslist hf = Inr hf'" and "only_datasets Q hf"
  shows "only_datasets Q hf'"
proof (rule efold_invariant [where P = "only_datasets Q", OF assms(1) assms(2)])
  fix x a b
  assume "only_datasets Q a" and "odim_setattr self g x a = Inr b"
  then show "only_datasets Q b" using only_datasets_odim_setattr by blast
qed

lemma only_datasets_odim_setattrs:
  assumes "odim_setattrs self attrslist hf = Inr hf'" and "only_datasets Q hf"
  shows "only_datasets Q hf'"
proof (cases "h5_require_group hf (hierarchy self)")
  case (Inr hf1)
  with assms(1) have "efold (odim_setattr self (Some (split_path (hierarchy self)))) attrslist hf1 = Inr hf'"
    by (simp add: odim_setattrs_def)
  from only_datasets_setattr_loop [OF this only_datasets_require_group [OF Inr assms(2)]]
  show ?thesis .
next
  case (Inl e)
  with assms(1) obtain hf1 where c: "odim_create self hf = Inr hf1"
    and l: "efold (odim_setattr self None) attrslist hf1 = Inr hf'"
    by (cases e) (auto simp: odim_setattrs_def dest!: ebind_InrD)
  from only_datasets_setattr_loop [OF l only_datasets_odim_create [OF c assms(2)]]
  show ?thesis .
qed

lemma only_datasets_create_setattrs:
  assumes "odim_create g hf = Inr hf1" and "odim_setattrs g attrslist hf1 = Inr hf2"
    and "only_datasets Q hf"
  shows "only_datasets Q hf2"
  using only_datasets_odim_setattrs [OF assms(2) only_datasets_odim_create [OF assms(1,3)]] .


lemma only_datasets_export_root:
  assumes "export_root p = Inr hf"
  shows "only_datasets Q hf"
proof -
  from assms obtain h1 h2 h3 h4 h5 where
    a: "odim_create (root_what p) h5_new = Inr h1"
       "odim_setattrs (root_what p) [''object'', ''version'', ''date'', ''time'', ''source''] h1 = Inr h2"
    and b: "odim_create (root_where p) h2 = Inr h3"
       "odim_setattrs (root_where p) [''lon'', ''lat'', ''height''] h3 = Inr h4"
    and c: "odim_create (root_how p) h4 = Inr h5"
       "odim_setattrs (root_how p)
         [''task'', ''startepochs'', ''system'', ''software'', ''sw_version'', ''simulated'']
         h5 = Inr hf"
    unfolding export_root_def by (auto dest!: ebind_InrD)
  note o2 = only_datasets_create_setattrs [OF a only_datasets_new [of Q]]
  note o4 = only_datasets_create_setattrs [OF b o2]
  show ?thesis by (rule only_datasets_create_setattrs [OF c o4])
qed

lemma enumerate_arange_mem:
  "idx \<in> set (enumerate_arange n) \<Longrightarrow> int (fst idx) < n - 1 \<and> snd idx = fst idx + 1"
  by (auto simp: enumerate_arange_def)


lemma export_data_unfold:
  "export_data p i_group num_group idx hf =
     ebind (py_index (datasets p) i_group) (\<lambda>stack.
        if fst idx < length stack
        then
          ebind (odim_create_dset (stack ! fst idx)
                   (''dataset'' @ str_nat num_group @ ''/data'' @ str_nat (snd idx) @ ''/data'') hf)
            (\<lambda>hf1.
               ebind (py_index (group_datasets_data_what p) i_group) (\<lambda>whats.
                 if fst idx < length whats
                 then
                   ebind (odim_create (whats ! fst idx) hf1) (\<lambda>hf2.
                     odim_setattrs (whats ! fst idx)
                       [''quantity'', ''gain'', ''nodata'', ''offset'', ''undetect''] hf2)
                 else Inr hf1))
        else Inr hf)"
  by (simp add: export_data_def Let_def)

lemma only_datasets_export_data:
  assumes "export_data p i_group num_group idx hf = Inr hf'"
    and "only_datasets (written_array p) hf"
    and "int i_group < n_group_dataset p - 1" and "num_group = i_group + 1"
    and "idx \<in> set (enumerate_arange (n_datasets p))"
  shows "only_datasets (written_array p) hf'"
proof -
  from enumerate_arange_mem [OF assms(5)] have j: "int (fst idx) < n_datasets p - 1"
    and nd: "snd idx = fst idx + 1" by simp_all
  from assms(1) [unfolded export_data_unfold] obtain stack where
    st: "py_index (datasets p) i_group = Inr stack"
    and r0: "(if fst idx < length stack
        then
          ebind (odim_create_dset (stack ! fst idx)
                   (''dataset'' @ str_nat num_group @ ''/data'' @ str_nat (snd idx) @ ''/data'') hf)
            (\<lambda>hf1.
               ebind (py_index (group_datasets_data_what p) i_group) (\<lambda>whats.
                 if fst idx < length whats
                 then
                   ebind (odim_create (whats ! fst idx) hf1) (\<lambda>hf2.
                     odim_setattrs (whats ! fst idx)
                       [''quantity'', ''gain'', ''nodata'', ''offset'', ''undetect''] hf2)
                 else Inr hf1))
        else Inr hf) = Inr hf'"
    by (blast dest: ebind_InrD)
  from py_index_Inr [OF st] have ig: "i_group < length (datasets p)"
    and stack: "stack = datasets p ! i_group" by simp_all
  show ?thesis
  proof (cases "fst idx < length stack")
    case False
    with r0 assms(2) show ?thesis by simp
  next
    case True
    with r0 have "ebind (odim_create_dset (stack ! fst idx)
                   (''dataset'' @ str_nat num_group @ ''/data'' @ str_nat (snd idx) @ ''/data'') hf)
            (\<lambda>hf1.
               ebind (py_index (group_datasets_data_what p) i_group) (\<lambda>whats.
                 if fst idx < length whats
                 then
                   ebind (odim_create (whats ! fst idx) hf1) (\<lambda>hf2.
                     odim_setattrs (whats ! fst idx)
                       [''quantity'', ''gain'', ''nodata'', ''offset'', ''undetect''] hf2)
                 else Inr hf1)) = Inr hf'"
      by simp
    then obtain hf1 where
      c: "odim_create_dset (stack ! fst idx)
            (''dataset'' @ str_nat num_group @ ''/data'' @ str_nat (snd idx) @ ''/data'') hf = Inr hf1"
      and r: "ebind (py_index (group_datasets_data_what p) i_group) (\<lambda>whats.
                 if fst idx < length whats
                 then ebind (odim_create (whats ! fst idx) hf1) (\<lambda>hf2.
                     odim_setattrs (whats ! fst idx)
                       [''quantity'', ''gain'', ''nodata'', ''offset'', ''undetect''] hf2)
                 else Inr hf1) = Inr hf'"
      by (blast dest: ebind_InrD)
    have w: "written_array p (data_path i_group (fst idx)) (map (map fround32) (stack ! fst idx))"
      unfolding written_array_def using assms(3) j ig True stack by blast
    from c have "h5_create hf (data_path i_group (fst idx))
                   (H5Dataset (map (map fround32) (stack ! fst idx))) = Inr hf1"
      using assms(4) nd by (simp add: odim_create_dset_def data_path_def)
    from only_datasets_create_dataset [OF this assms(2) w]
    have o1: "only_datasets (written_array p) hf1" .
    from r obtain whats where
      r2: "(if fst idx < length whats
            then ebind (odim_create (whats ! fst idx) hf1) (\<lambda>hf2.
                     odim_setattrs (whats ! fst idx)
                       [''quantity'', ''gain'', ''nodata'', ''offset'', ''undetect''] hf2)
            else Inr hf1) = Inr hf'"
      by (blast dest: ebind_InrD)
    show ?thesis
    proof (cases "fst idx < length whats")
      case False
      with r2 o1 show ?thesis by simp
    next
      case True
      with r2 have "ebind (odim_create (whats ! fst idx) hf1) (\<lambda>hf2.
                     odim_setattrs (whats ! fst idx)
                       [''quantity'', ''gain'', ''nodata'', ''offset'', ''undetect''] hf2) = Inr hf'"
        by simp
      then obtain hf2 where c2: "odim_create (whats ! fst idx) hf1 = Inr hf2"
        and s2: "odim_setattrs (whats ! fst idx)
                   [''quantity'', ''gain'', ''nodata'', ''offset'', ''undetect''] hf2 = Inr hf'"
        by (blast dest: ebind_InrD)
      from only_datasets_create_setattrs [OF c2 s2 o1] show ?thesis .
    qed
  qed
qed


lemma export_group_Inr:
  assumes "export_group p idx hf = Inr hf'"
  obtains w h1 h2 wh h3 h4 hp h5 h6 hr h7 where
    "py_index (group_datasets_what p) (fst idx) = Inr w"
    "odim_create w hf = Inr h1"
    "odim_setattrs w [''product'', ''startdate'', ''starttime'', ''enddate'', ''endtime''] h1 = Inr h2"
    "py_index (group_datasets_where p) (fst idx) = Inr wh"
    "odim_create wh h2 = Inr h3"
    "odim_setattrs wh [''elangle'', ''nbins'', ''rstart'', ''rscale'', ''nrays'', ''a1gate''] h3 = Inr h4"
    "py_index (group_datasets_how_polar p) (fst idx) = Inr hp"
    "odim_create hp h4 = Inr h5"
    "odim_setattrs hp [''elangles'', ''startazA'', ''stopazA'', ''startazT'', ''stopazT''] h5 = Inr h6"
    "py_index (group_datasets_how_radar p) (fst idx) = Inr hr"
    "odim_setattrs hr
               [''beamwidth'', ''wavelength'', ''rpm'', ''pulsewidth'', ''RXbandwidth'',
                ''lowprf'', ''highprf'', ''TXloss'', ''RXloss'', ''radomeloss'', ''antgain'',
                ''beamwH'', ''beamwV'', ''gasattn'', ''nomTXpower'', ''NI'', ''Vsamples''] h6 = Inr h7"
    "efold (export_data p (fst idx) (snd idx)) (enumerate_arange (n_datasets p)) h7 = Inr hf'"
  using assms unfolding export_group_def export_elevation_groups_def Let_def
  by (auto dest!: ebind_InrD)

lemma only_datasets_export_group:
  assumes "export_group p idx hf = Inr hf'"
    and "only_datasets (written_array p) hf"
    and "idx \<in> set (enumerate_arange (n_group_dataset p))"
  shows "only_datasets (written_array p) hf'"
proof -
  from enumerate_arange_mem [OF assms(3)] have i: "int (fst idx) < n_group_dataset p - 1"
    and n: "snd idx = fst idx + 1" by simp_all
  from assms(1) obtain w h1 h2 wh h3 h4 hp h5 h6 hr h7 where
    a: "odim_create w hf = Inr h1"
       "odim_setattrs w [''product'', ''startdate'', ''starttime'', ''enddate'', ''endtime''] h1 = Inr h2"
    and b: "odim_create wh h2 = Inr h3"
       "odim_setattrs wh [''elangle'', ''nbins'', ''rstart'', ''rscale'', ''nrays'', ''a1gate''] h3 = Inr h4"
    and c: "odim_create hp h4 = Inr h5"
       "odim_setattrs hp [''elangles'', ''startazA'', ''stopazA'', ''startazT'', ''stopazT''] h5 = Inr h6"
    and d: "odim_setattrs hr
               [''beamwidth'', ''wavelength'', ''rpm'', ''pulsewidth'', ''RXbandwidth'',
                ''lowprf'', ''highprf'', ''TXloss'', ''RXloss'', ''radomeloss'', ''antgain'',
                ''beamwH'', ''beamwV'', ''gasattn'', ''nomTXpower'', ''NI'', ''Vsamples''] h6 = Inr h7"
    and l: "efold (export_data p (fst idx) (snd idx)) (enumerate_arange (n_datasets p)) h7 = Inr hf'"
    by (rule export_group_Inr)
  note o2 = only_datasets_create_setattrs [OF a assms(2)]
  note o4 = only_datasets_create_setattrs [OF b o2]
  note o6 = only_datasets_create_setattrs [OF c o4]
  note o7 = only_datasets_odim_setattrs [OF d o6]
  show ?thesis
  proof (rule efold_invariant [where P = "only_datasets (written_array p)", OF l o7])
    fix x a b
    assume "x \<in> set (enumerate_arange (n_datasets p))"
      and "only_datasets (written_array p) a"
      and "export_data p (fst idx) (snd idx) x a = Inr b"
    then show "only_datasets (written_array p) b"
      using only_datasets_export_data [OF _ _ i n] by blast
  qed
qed

lemma export_odim_only_datasets:
  assumes "export_odim p = Inr hf"
  shows "only_datasets (written_array p) hf"
proof -
  from assms obtain hf0 where r: "export_root p = Inr hf0"
    and l: "efold (export_group p) (enumerate_arange (n_group_dataset p)) hf0 = Inr hf"
    by (auto simp: export_odim_def dest!: ebind_InrD)
  show ?thesis
  proof (rule efold_invariant [where P = "only_datasets (written_array p)", OF l
        only_datasets_export_root [OF r]])
    fix x a b
    assume "x \<in> set (enumerate_arange (n_group_dataset p))"
      and "only_datasets (written_array p) a"
      and "export_group p x a = Inr b"
    then show "only_datasets (written_array p) b"
      using only_datasets_export_group by blast
  qed
qed

lemma efold_cong:
  "(\<And>x s. x \<in> set xs \<Longrightarrow> f x s = g x s) \<Longrightarrow> efold f xs s = efold g xs s"
proof (induction xs arbitrary: s)
  case Nil
  then show ?case by simp
next
  case (Cons x xs)
  have "f x s = g x s" using Cons.prems by simp
  moreover have "efold f xs t = efold g xs t" for t
    using Cons.IH Cons.prems by simp
  ultimately show ?case by (cases "g x s") simp_all
qed

lemma without_last_simps:
  "root_what (without_last p) = root_what p"
  "root_where (without_last p) = root_where p"
  "root_how (without_last p) = root_how p"
  "n_group_dataset (without_last p) = n_group_dataset p"
  "n_datasets (without_last p) = n_datasets p"
  "group_datasets_what (without_last p) = take (nat (n_group_dataset p - 1)) (group_datasets_what p)"
  "group_datasets_where (without_last p) = take (nat (n_group_dataset p - 1)) (group_datasets_where p)"
  "group_datasets_how_radar (without_last p) = take (nat (n_group_dataset p - 1)) (group_datasets_how_radar p)"
  "group_datasets_how_polar (without_last p) = take (nat (n_group_dataset p - 1)) (group_datasets_how_polar p)"
  "datasets (without_last p)
     = map (take (nat (n_datasets p - 1))) (take (nat (n_group_dataset p - 1)) (datasets p))"
  "group_datasets_data_what (without_last p)
     = map (take (nat (n_datasets p - 1))) (take (nat (n_group_dataset p - 1)) (group_datasets_data_what p))"
  by (simp_all add: without_last_def Let_def)

lemma py_index_take: "i < n \<Longrightarrow> py_index (take n xs) i = py_index xs i"
  by (simp add: py_index_def)

lemma py_index_map_take:
  "i < n \<Longrightarrow> py_index (map (take m) (take n xs)) i
     = (if i < length xs then Inr (take m (xs ! i)) else Inl IndexError)"
  by (simp add: py_index_def)

lemma export_data_without_last:
  assumes "int i_group < n_group_dataset p - 1"
    and "idx \<in> set (enumerate_arange (n_datasets p))"
  shows "export_data (without_last p) i_group num_group idx hf = export_data p i_group num_group idx hf"
proof -
  from enumerate_arange_mem [OF assms(2)] have j: "fst idx < nat (n_datasets p - 1)"
    by (simp add: zless_nat_eq_int_zless)
  from assms(1) have i: "i_group < nat (n_group_dataset p - 1)"
    by (simp add: zless_nat_eq_int_zless)
  show ?thesis
    unfolding export_data_unfold without_last_simps py_index_map_take [OF i]
    using j by (simp add: py_index_def del: str_nat.simps cong: if_cong)
qed

lemma export_group_without_last:
  assumes "idx \<in> set (enumerate_arange (n_group_dataset p))"
  shows "export_group (without_last p) idx hf = export_group p idx hf"
proof -
  from enumerate_arange_mem [OF assms] have i: "int (fst idx) < n_group_dataset p - 1" by simp
  then have i': "fst idx < nat (n_group_dataset p - 1)"
    by (simp add: zless_nat_eq_int_zless)
  have "efold (export_data (without_last p) (fst idx) (snd idx)) (enumerate_arange (n_datasets p))
      = efold (export_data p (fst idx) (snd idx)) (enumerate_arange (n_datasets p))"
    by (rule ext, rule efold_cong) (rule export_data_without_last [OF i])
  then show ?thesis
    unfolding export_group_def export_elevation_groups_def Let_def without_last_simps
      py_index_take [OF i']
    by simp
qed

lemma export_odim_without_last: "export_odim (without_last p) = export_odim p"
proof -
  have r: "export_root (without_last p) = export_root p"
    by (simp add: export_root_def without_last_simps)
  have "efold (export_group (without_last p)) (enumerate_arange (n_group_dataset p))
      = efold (export_group p) (enumerate_arange (n_group_dataset p))"
    by (rule ext, rule efold_cong) (rule export_group_without_last)
  with r show ?thesis
    by (simp add: export_odim_def without_last_simps)
qed

lemma enumerate_arange_numbers:
  "map fst (enumerate_arange n) = [0 ..< nat (n - 1)]"
  "map snd (enumerate_arange n) = [1 ..< nat n]"
proof -
  show "map fst (enumerate_arange n) = [0 ..< nat (n - 1)]"
    by (simp add: enumerate_arange_def comp_def)
  have "map snd (enumerate_arange n) = map Suc [0 ..< nat (n - 1)]"
    by (simp add: enumerate_arange_def comp_def)
  also have "\<dots> = [Suc 0 ..< Suc (nat (n - 1))]"
    by (simp only: map_Suc_upt)
  also have "\<dots> = [1 ..< nat n]"
    by (cases "1 \<le> n") (simp_all add: Suc_nat_eq_nat_zadd1)
  finally show "map snd (enumerate_arange n) = [1 ..< nat n]" .
qed

subsection \<open>Paths\<close>

lemma split_path_from_no_slash:
  "CHR ''/'' \<notin> set s \<Longrightarrow> split_path_from cur s = (if cur @ s = [] then [] else [cur @ s])"
  by (induction s arbitrary: cur) auto

lemma split_path_from_slash:
  "CHR ''/'' \<notin> set a \<Longrightarrow>
   split_path_from cur (a @ CHR ''/'' # b)
     = (if cur @ a = [] then split_path_from [] b else (cur @ a) # split_path_from [] b)"
  by (induction a arbitrary: cur) auto

lemma split_path_cons:
  "a \<noteq> [] \<Longrightarrow> CHR ''/'' \<notin> set a \<Longrightarrow> split_path (a @ CHR ''/'' # b) = a # split_path b"
  by (simp add: split_path_def split_path_from_slash)

lemma split_path_single:
  "a \<noteq> [] \<Longrightarrow> CHR ''/'' \<notin> set a \<Longrightarrow> split_path a = [a]"
  by (simp add: split_path_def split_path_from_no_slash)

lemma digit_char_not_slash: "d < 10 \<Longrightarrow> digit_char d \<noteq> CHR ''/''"
proof
  assume d: "d < 10" and e: "digit_char d = CHR ''/''"
  from e have "(of_char (digit_char d) :: nat) = of_char CHR ''/''" by simp
  with d show False by (simp add: digit_char_def)
qed

lemma str_nat_no_slash: "CHR ''/'' \<notin> set (str_nat n)"
proof (induction n rule: str_nat.induct)
  case (1 n)
  show ?case
  proof (cases "n < 10")
    case True
    then have "str_nat n = [digit_char n]" by (subst str_nat.simps) simp
    with digit_char_not_slash [OF True] show ?thesis by auto
  next
    case False
    then have "str_nat n = str_nat (n div 10) @ [digit_char (n mod 10)]"
      by (subst str_nat.simps) simp
    moreover have "digit_char (n mod 10) \<noteq> CHR ''/''"
      by (rule digit_char_not_slash) simp
    ultimately show ?thesis using 1 [OF False] by auto
  qed
qed

lemma str_nat_nonempty: "str_nat n \<noteq> []"
  by (subst str_nat.simps) simp

lemma dataset_name_clean: "dataset_name i \<noteq> []" "CHR ''/'' \<notin> set (dataset_name i)"
  by (simp_all add: dataset_name_def str_nat_no_slash)

lemma data_name_clean: "data_name j \<noteq> []" "CHR ''/'' \<notin> set (data_name j)"
  by (simp_all add: data_name_def str_nat_no_slash)

lemma data_path_eq: "data_path i j = [dataset_name i, data_name j, ''data'']"
proof -
  have "''dataset'' @ str_nat (i + 1) @ ''/data'' @ str_nat (j + 1) @ ''/data''
      = dataset_name i @ CHR ''/'' # (data_name j @ CHR ''/'' # ''data'')"
    by (simp add: dataset_name_def data_name_def)
  moreover have "split_path (dataset_name i @ CHR ''/'' # (data_name j @ CHR ''/'' # ''data''))
      = dataset_name i # split_path (data_name j @ CHR ''/'' # ''data'')"
    by (rule split_path_cons) (rule dataset_name_clean)+
  moreover have "split_path (data_name j @ CHR ''/'' # ''data'') = data_name j # split_path ''data''"
    by (rule split_path_cons) (rule data_name_clean)+
  moreover have "split_path ''data'' = [''data'']"
    by (rule split_path_single) simp_all
  ultimately show ?thesis
    by (simp only: data_path_def)
qed


subsection \<open>The paths of the written file\<close>

lemma only_paths_new: "only_paths (written_path p) h5_new"
  by (simp add: only_paths_def h5_new_def written_path_def)

lemma written_path_take: "written_path p q \<Longrightarrow> written_path p (take n q)"
proof (cases q)
  case Nil
  then show ?thesis by (simp add: written_path_def)
next
  case (Cons a r)
  assume w: "written_path p q"
  show ?thesis
  proof (cases n)
    case 0
    then show ?thesis by (simp add: written_path_def)
  next
    case (Suc k)
    show ?thesis
    proof (cases r)
      case Nil
      with Cons Suc w show ?thesis by simp
    next
      case (Cons b r')
      note r = this
      show ?thesis
      proof (cases k)
        case 0
        with \<open>q = a # r\<close> r Suc w show ?thesis
          by (auto simp: written_path_def)
      next
        case (Suc k')
        with \<open>q = a # r\<close> r \<open>n = Suc k\<close> w show ?thesis
          by (cases k') (auto simp: written_path_def, blast+)
      qed
    qed
  qed
qed

lemma only_paths_create:
  assumes "h5_create f q node = Inr f'" and "only_paths P f" and "P q"
    and "\<And>n. P (take n q)"
  shows "only_paths P f'"
proof -
  from assms(1) have "f' = f @ map (\<lambda>r. (r, H5Group False []))
                      (filter (\<lambda>r. map_of f r = None) (proper_prefixes q)) @ [(q, node)]"
    by (auto simp: h5_create_def split: if_splits)
  then have "set (map fst f') \<subseteq> set (map fst f) \<union> set (proper_prefixes q) \<union> {q}"
    by (auto simp: comp_def)
  moreover have "\<forall>r \<in> set (proper_prefixes q). P r"
    using assms(4) by (auto simp: proper_prefixes_def)
  ultimately have "\<forall>r \<in> set (map fst f'). r \<in> set (map fst f) \<or> P r"
    using assms(3) by blast
  with assms(2) show ?thesis
    unfolding only_paths_def by blast
qed

lemma keys_set_attr: "set (map fst (h5_set_attr f q name v)) = set (map fst f)"
proof (cases "map_of f q")
  case None
  then show ?thesis by (simp add: h5_set_attr_def)
next
  case (Some n)
  then have "q \<in> fst ` set f" by (force dest: map_of_SomeD)
  with Some show ?thesis
    by (cases n) (auto simp: h5_set_attr_def dom_update)
qed

lemma only_paths_set_attr: "only_paths P f \<Longrightarrow> only_paths P (h5_set_attr f q name v)"
  by (simp add: only_paths_def keys_set_attr del: set_map)

lemma only_paths_odim_create:
  assumes "odim_create g hf = Inr hf'" and "only_paths P hf"
    and "\<And>n. P (take n (split_path (hierarchy g)))"
  shows "only_paths P hf'"
proof -
  from assms(3) [of "length (split_path (hierarchy g))"] have "P (split_path (hierarchy g))"
    by simp
  from only_paths_create [OF assms(1) [unfolded odim_create_def] assms(2) this assms(3)]
  show ?thesis .
qed

lemma only_paths_odim_setattr:
  assumes "odim_setattr self g attr hf = Inr hf'" and "only_paths P hf"
  shows "only_paths P hf'"
  using odim_setattr_Inr [OF assms(1)] assms(2) only_paths_set_attr by auto

lemma only_paths_setattr_loop:
  assumes "efold (odim_setattr self g) attrslist hf = Inr hf'" and "only_paths P hf"
  shows "only_paths P hf'"
proof (rule efold_invariant [where P = "only_paths P", OF assms(1) assms(2)])
  fix x a b
  assume "only_paths P a" and "odim_setattr self g x a = Inr b"
  then show "only_paths P b" using only_paths_odim_setattr by blast
qed

lemma only_paths_odim_setattrs:
  assumes "odim_setattrs self attrslist hf = Inr hf'" and "only_paths P hf"
    and "\<And>n. P (take n (split_path (hierarchy self)))"
  shows "only_paths P hf'"
proof (cases "h5_require_group hf (hierarchy self)")
  case (Inr hf1)
  with assms(1) have l: "efold (odim_setattr self (Some (split_path (hierarchy self)))) attrslist hf1 = Inr hf'"
    by (simp add: odim_setattrs_def)
  have "only_paths P hf1"
  proof (cases "map_of hf (split_path (hierarchy self))")
    case None
    with Inr have "odim_create self hf = Inr hf1"
      by (auto simp: h5_require_group_def odim_create_def split: if_splits)
    from only_paths_odim_create [OF this assms(2, 3)] show ?thesis .
  next
    case (Some n)
    with Inr have "hf1 = hf"
      by (cases n) (auto simp: h5_require_group_def split: if_splits)
    with assms(2) show ?thesis by simp
  qed
  from only_paths_setattr_loop [OF l this] show ?thesis .
next
  case (Inl e)
  with assms(1) obtain hf1 where c: "odim_create self hf = Inr hf1"
    and l: "efold (odim_setattr self None) attrslist hf1 = Inr hf'"
    by (cases e) (auto simp: odim_setattrs_def dest!: ebind_InrD)
  from only_paths_setattr_loop [OF l only_paths_odim_create [OF c assms(2, 3)]]
  show ?thesis .
qed

lemma only_paths_create_setattrs:
  assumes "odim_create g hf = Inr hf1" and "odim_setattrs g attrslist hf1 = Inr hf2"
    and "only_paths (written_path p) hf" and "written_path p (split_path (hierarchy g))"
  shows "only_paths (written_path p) hf2"
proof -
  have t: "\<And>n. written_path p (take n (split_path (hierarchy g)))"
    using assms(4) by (rule written_path_take)
  from only_paths_odim_setattrs [OF assms(2) only_paths_odim_create [OF assms(1, 3) t] t]
  show ?thesis .
qed


lemma written_path_root:
  "written_path p [''what'']" "written_path p [''where'']" "written_path p [''how'']"
  by (simp_all add: written_path_def)

lemma written_path_elevation:
  assumes "int i < n_group_dataset p - 1"
  shows "written_path p [dataset_name i, ''what'']" "written_path p [dataset_name i, ''where'']"
    "written_path p [dataset_name i, ''how'']"
  using assms by (auto simp: written_path_def)

lemma written_path_data:
  assumes "int i < n_group_dataset p - 1" and "int j < n_datasets p - 1"
  shows "written_path p [dataset_name i, data_name j, ''data'']"
    "written_path p [dataset_name i, data_name j, ''what'']"
  using assms by (auto simp: written_path_def)

lemma only_paths_export_root:
  assumes "export_root p = Inr hf" and "canonical_paths p"
  shows "only_paths (written_path p) hf"
proof -
  from assms(1) obtain h1 h2 h3 h4 h5 where
    a: "odim_create (root_what p) h5_new = Inr h1"
       "odim_setattrs (root_what p) [''object'', ''version'', ''date'', ''time'', ''source''] h1 = Inr h2"
    and b: "odim_create (root_where p) h2 = Inr h3"
       "odim_setattrs (root_where p) [''lon'', ''lat'', ''height''] h3 = Inr h4"
    and c: "odim_create (root_how p) h4 = Inr h5"
       "odim_setattrs (root_how p)
         [''task'', ''startepochs'', ''system'', ''software'', ''sw_version'', ''simulated'']
         h5 = Inr hf"
    unfolding export_root_def by (auto dest!: ebind_InrD)
  from assms(2) have w: "written_path p (split_path (hierarchy (root_what p)))"
    "written_path p (split_path (hierarchy (root_where p)))"
    "written_path p (split_path (hierarchy (root_how p)))"
    by (simp_all add: canonical_paths_def written_path_root)
  note o2 = only_paths_create_setattrs [OF a only_paths_new w(1)]
  note o4 = only_paths_create_setattrs [OF b o2 w(2)]
  show ?thesis by (rule only_paths_create_setattrs [OF c o4 w(3)])
qed

lemma export_elevation_groups_Inr:
  assumes "export_elevation_groups p i hf = Inr hf'"
  obtains w h1 h2 wh h3 h4 hp h5 h6 hr where
    "py_index (group_datasets_what p) i = Inr w"
    "odim_create w hf = Inr h1"
    "odim_setattrs w [''product'', ''startdate'', ''starttime'', ''enddate'', ''endtime''] h1 = Inr h2"
    "py_index (group_datasets_where p) i = Inr wh"
    "odim_create wh h2 = Inr h3"
    "odim_setattrs wh [''elangle'', ''nbins'', ''rstart'', ''rscale'', ''nrays'', ''a1gate''] h3 = Inr h4"
    "py_index (group_datasets_how_polar p) i = Inr hp"
    "odim_create hp h4 = Inr h5"
    "odim_setattrs hp [''elangles'', ''startazA'', ''stopazA'', ''startazT'', ''stopazT''] h5 = Inr h6"
    "py_index (group_datasets_how_radar p) i = Inr hr"
    "odim_setattrs hr
               [''beamwidth'', ''wavelength'', ''rpm'', ''pulsewidth'', ''RXbandwidth'',
                ''lowprf'', ''highprf'', ''TXloss'', ''RXloss'', ''radomeloss'', ''antgain'',
                ''beamwH'', ''beamwV'', ''gasattn'', ''nomTXpower'', ''NI'', ''Vsamples''] h6 = Inr hf'"
  using assms unfolding export_elevation_groups_def
  by (auto dest!: ebind_InrD)

lemma only_paths_export_elevation_groups:
  assumes "export_elevation_groups p i hf = Inr hf'" and "only_paths (written_path p) hf"
    and "canonical_paths p" and "int i < n_group_dataset p - 1"
  shows "only_paths (written_path p) hf'"
proof -
  from assms(1) obtain w h1 h2 wh h3 h4 hp h5 h6 hr where
    iw: "py_index (group_datasets_what p) i = Inr w"
    and a: "odim_create w hf = Inr h1"
       "odim_setattrs w [''product'', ''startdate'', ''starttime'', ''enddate'', ''endtime''] h1 = Inr h2"
    and iwh: "py_index (group_datasets_where p) i = Inr wh"
    and b: "odim_create wh h2 = Inr h3"
       "odim_setattrs wh [''elangle'', ''nbins'', ''rstart'', ''rscale'', ''nrays'', ''a1gate''] h3 = Inr h4"
    and ihp: "py_index (group_datasets_how_polar p) i = Inr hp"
    and c: "odim_create hp h4 = Inr h5"
       "odim_setattrs hp [''elangles'', ''startazA'', ''stopazA'', ''startazT'', ''stopazT''] h5 = Inr h6"
    and ihr: "py_index (group_datasets_how_radar p) i = Inr hr"
    and d: "odim_setattrs hr
               [''beamwidth'', ''wavelength'', ''rpm'', ''pulsewidth'', ''RXbandwidth'',
                ''lowprf'', ''highprf'', ''TXloss'', ''RXloss'', ''radomeloss'', ''antgain'',
                ''beamwH'', ''beamwV'', ''gasattn'', ''nomTXpower'', ''NI'', ''Vsamples''] h6 = Inr hf'"
    by (rule export_elevation_groups_Inr)
  from py_index_Inr [OF iw] py_index_Inr [OF iwh] py_index_Inr [OF ihp] py_index_Inr [OF ihr]
    assms(3, 4)
  have s: "split_path (hierarchy w) = [dataset_name i, ''what'']"
    "split_path (hierarchy wh) = [dataset_name i, ''where'']"
    "split_path (hierarchy hp) = [dataset_name i, ''how'']"
    "split_path (hierarchy hr) = [dataset_name i, ''how'']"
    by (simp_all add: canonical_paths_def)
  note wp = written_path_elevation [OF assms(4)]
  note o2 = only_paths_create_setattrs [OF a assms(2), unfolded s, OF wp(1)]
  note o4 = only_paths_create_setattrs [OF b o2, unfolded s, OF wp(2)]
  note o6 = only_paths_create_setattrs [OF c o4, unfolded s, OF wp(3)]
  have "\<And>n. written_path p (take n (split_path (hierarchy hr)))"
    unfolding s using wp(3) by (rule written_path_take)
  from only_paths_odim_setattrs [OF d o6 this] show ?thesis .
qed

lemma only_paths_export_data:
  assumes "export_data p i_group num_group idx hf = Inr hf'"
    and "only_paths (written_path p) hf" and "canonical_paths p"
    and "int i_group < n_group_dataset p - 1" and "num_group = i_group + 1"
    and "idx \<in> set (enumerate_arange (n_datasets p))"
  shows "only_paths (written_path p) hf'"
proof -
  from enumerate_arange_mem [OF assms(6)] have j: "int (fst idx) < n_datasets p - 1"
    and nd: "snd idx = fst idx + 1" by simp_all
  note wp = written_path_data [OF assms(4) j]
  from assms(1) [unfolded export_data_unfold] obtain stack where
    r0: "(if fst idx < length stack
        then
          ebind (odim_create_dset (stack ! fst idx)
                   (''dataset'' @ str_nat num_group @ ''/data'' @ str_nat (snd idx) @ ''/data'') hf)
            (\<lambda>hf1.
               ebind (py_index (group_datasets_data_what p) i_group) (\<lambda>whats.
                 if fst idx < length whats
                 then
                   ebind (odim_create (whats ! fst idx) hf1) (\<lambda>hf2.
                     odim_setattrs (whats ! fst idx)
                       [''quantity'', ''gain'', ''nodata'', ''offset'', ''undetect''] hf2)
                 else Inr hf1))
        else Inr hf) = Inr hf'"
    by (blast dest: ebind_InrD)
  show ?thesis
  proof (cases "fst idx < length stack")
    case False
    with r0 assms(2) show ?thesis by simp
  next
    case True
    with r0 obtain hf1 where
      c: "odim_create_dset (stack ! fst idx)
            (''dataset'' @ str_nat num_group @ ''/data'' @ str_nat (snd idx) @ ''/data'') hf = Inr hf1"
      and r: "ebind (py_index (group_datasets_data_what p) i_group) (\<lambda>whats.
                 if fst idx < length whats
                 then ebind (odim_create (whats ! fst idx) hf1) (\<lambda>hf2.
                     odim_setattrs (whats ! fst idx)
                       [''quantity'', ''gain'', ''nodata'', ''offset'', ''undetect''] hf2)
                 else Inr hf1) = Inr hf'"
      by (auto dest!: ebind_InrD)
    from c have "h5_create hf (data_path i_group (fst idx))
                   (H5Dataset (map (map fround32) (stack ! fst idx))) = Inr hf1"
      using assms(5) nd by (simp add: odim_create_dset_def data_path_def)
    then have cr: "h5_create hf [dataset_name i_group, data_name (fst idx), ''data'']
                   (H5Dataset (map (map fround32) (stack ! fst idx))) = Inr hf1"
      by (simp only: data_path_eq)
    have "\<And>n. written_path p (take n [dataset_name i_group, data_name (fst idx), ''data''])"
      using wp(1) by (rule written_path_take)
    from only_paths_create [OF cr assms(2) wp(1) this]
    have o1: "only_paths (written_path p) hf1" .
    from r obtain whats where iw: "py_index (group_datasets_data_what p) i_group = Inr whats"
      and r2: "(if fst idx < length whats
            then ebind (odim_create (whats ! fst idx) hf1) (\<lambda>hf2.
                     odim_setattrs (whats ! fst idx)
                       [''quantity'', ''gain'', ''nodata'', ''offset'', ''undetect''] hf2)
            else Inr hf1) = Inr hf'"
      by (blast dest: ebind_InrD)
    show ?thesis
    proof (cases "fst idx < length whats")
      case False
      with r2 o1 show ?thesis by simp
    next
      case True
      with r2 obtain hf2 where c2: "odim_create (whats ! fst idx) hf1 = Inr hf2"
        and s2: "odim_setattrs (whats ! fst idx)
                   [''quantity'', ''gain'', ''nodata'', ''offset'', ''undetect''] hf2 = Inr hf'"
        by (auto dest!: ebind_InrD)
      from py_index_Inr [OF iw] True assms(3, 4) j
      have "split_path (hierarchy (whats ! fst idx))
              = [dataset_name i_group, data_name (fst idx), ''what'']"
        by (simp add: canonical_paths_def)
      with wp(2) have "written_path p (split_path (hierarchy (whats ! fst idx)))" by simp
      from only_paths_create_setattrs [OF c2 s2 o1 this] show ?thesis .
    qed
  qed
qed

lemma only_paths_export_group:
  assumes "export_group p idx hf = Inr hf'"
    and "only_paths (written_path p) hf" and "canonical_paths p"
    and "idx \<in> set (enumerate_arange (n_group_dataset p))"
  shows "only_paths (written_path p) hf'"
proof -
  from enumerate_arange_mem [OF assms(4)] have i: "int (fst idx) < n_group_dataset p - 1"
    and n: "snd idx = fst idx + 1" by simp_all
  from assms(1) obtain h7 where g: "export_elevation_groups p (fst idx) hf = Inr h7"
    and l: "efold (export_data p (fst idx) (snd idx)) (enumerate_arange (n_datasets p)) h7 = Inr hf'"
    unfolding export_group_def Let_def by (auto dest!: ebind_InrD)
  note o7 = only_paths_export_elevation_groups [OF g assms(2, 3) i]
  show ?thesis
  proof (rule efold_invariant [where P = "only_paths (written_path p)", OF l o7])
    fix x a b
    assume "x \<in> set (enumerate_arange (n_datasets p))"
      and "only_paths (written_path p) a"
      and "export_data p (fst idx) (snd idx) x a = Inr b"
    then show "only_paths (written_path p) b"
      using only_paths_export_data [OF _ _ assms(3) i n] by blast
  qed
qed

lemma export_odim_only_paths:
  assumes "export_odim p = Inr hf" and "canonical_paths p"
  shows "only_paths (written_path p) hf"
proof -
  from assms(1) obtain hf0 where r: "export_root p = Inr hf0"
    and l: "efold (export_group p) (enumerate_arange (n_group_dataset p)) hf0 = Inr hf"
    by (auto simp: export_odim_def dest!: ebind_InrD)
  show ?thesis
  proof (rule efold_invariant [where P = "only_paths (written_path p)", OF l
        only_paths_export_root [OF r assms(2)]])
    fix x a b
    assume "x \<in> set (enumerate_arange (n_group_dataset p))"
      and "only_paths (written_path p) a"
      and "export_group p x a = Inr b"
    then show "only_paths (written_path p) b"
      using only_paths_export_group [OF _ _ assms(2)] by blast
  qed
qed


lemma set_h5_children: "set (h5_children f q) = {n. q @ [n] \<in> set (map fst f)}"
proof -
  have "set (map last (filter (\<lambda>r. length r = Suc (length q) \<and> butlast r = q) (map fst f)))
      = {n. q @ [n] \<in> set (map fst f)}"
  proof (intro set_eqI iffI)
    fix n
    assume "n \<in> set (map last (filter (\<lambda>r. length r = Suc (length q) \<and> butlast r = q) (map fst f)))"
    then obtain r where r: "r \<in> set (map fst f)" "length r = Suc (length q)" "butlast r = q"
      and n: "n = last r"
      by auto
    from r(2) have "r \<noteq> []" by auto
    then have "butlast r @ [last r] = r" by simp
    with r n show "n \<in> {n. q @ [n] \<in> set (map fst f)}" by simp
  next
    fix n
    assume "n \<in> {n. q @ [n] \<in> set (map fst f)}"
    then have "q @ [n] \<in> set (filter (\<lambda>r. length r = Suc (length q) \<and> butlast r = q) (map fst f))"
      by simp
    then have "last (q @ [n]) \<in> last ` set (filter (\<lambda>r. length r = Suc (length q) \<and> butlast r = q) (map fst f))"
      by (rule imageI)
    then show "n \<in> set (map last (filter (\<lambda>r. length r = Suc (length q) \<and> butlast r = q) (map fst f)))"
      by simp
  qed
  then show ?thesis
    by (simp add: h5_children_def Let_def del: set_map set_filter)
qed

lemma elevation_group_names:
  assumes "only_paths (written_path p) hf"
  shows "set (filter (str_contains ''dataset'') (h5_children hf []))
           \<subseteq> dataset_name ` {i. int i < n_group_dataset p - 1}"
proof
  fix n assume "n \<in> set (filter (str_contains ''dataset'') (h5_children hf []))"
  then have c: "str_contains ''dataset'' n" and "[n] \<in> set (map fst hf)"
    by (simp_all add: set_h5_children del: set_map)
  with assms have "written_path p [n]" by (simp add: only_paths_def del: set_map)
  then have "n \<in> {''what'', ''where'', ''how''} \<or> (\<exists>i. int i < n_group_dataset p - 1 \<and> n = dataset_name i)"
    by (auto simp: written_path_def)
  moreover have "\<not> str_contains ''dataset'' ''what''" "\<not> str_contains ''dataset'' ''where''"
    "\<not> str_contains ''dataset'' ''how''"
    by simp_all
  ultimately show "n \<in> dataset_name ` {i. int i < n_group_dataset p - 1}"
    using c by auto
qed

lemma quantity_group_names:
  assumes "only_paths (written_path p) hf"
  shows "set (filter (str_contains ''data'') (h5_children hf [g]))
           \<subseteq> data_name ` {j. int j < n_datasets p - 1}"
proof
  fix n assume "n \<in> set (filter (str_contains ''data'') (h5_children hf [g]))"
  then have c: "str_contains ''data'' n" and "[g, n] \<in> set (map fst hf)"
    by (simp_all add: set_h5_children del: set_map)
  with assms have "written_path p [g, n]" by (simp add: only_paths_def del: set_map)
  then have "n \<in> {''what'', ''where'', ''how''} \<or> (\<exists>j. int j < n_datasets p - 1 \<and> n = data_name j)"
    by (auto simp: written_path_def)
  moreover have "\<not> str_contains ''data'' ''what''" "\<not> str_contains ''data'' ''where''"
    "\<not> str_contains ''data'' ''how''"
    by simp_all
  ultimately show "n \<in> data_name ` {j. int j < n_datasets p - 1}"
    using c by auto
qed

lemma card_datasets_bound:
  assumes "only_datasets (written_array p) hf"
  shows "card {path. \<exists>a. map_of hf path = Some (H5Dataset a)}
           \<le> nat (n_group_dataset p - 1) * nat (n_datasets p - 1)"
proof -
  let ?n = "nat (n_group_dataset p - 1)" and ?m = "nat (n_datasets p - 1)"
  let ?T = "(\<lambda>(i, j). data_path i j) ` ({..<?n} \<times> {..<?m})"
  have "{path. \<exists>a. map_of hf path = Some (H5Dataset a)} \<subseteq> ?T"
  proof
    fix path assume "path \<in> {path. \<exists>a. map_of hf path = Some (H5Dataset a)}"
    then obtain a where "map_of hf path = Some (H5Dataset a)" by blast
    with assms have "written_array p path a" by (simp add: only_datasets_def)
    then obtain i j where "int i < n_group_dataset p - 1" "int j < n_datasets p - 1"
      "path = data_path i j"
      unfolding written_array_def by blast
    then have "(i, j) \<in> {..<?n} \<times> {..<?m}" "path = (\<lambda>(i, j). data_path i j) (i, j)"
      by (simp_all add: zless_nat_eq_int_zless)
    then show "path \<in> ?T" by (rule_tac image_eqI)
  qed
  moreover have "finite ?T" by simp
  ultimately have "card {path. \<exists>a. map_of hf path = Some (H5Dataset a)} \<le> card ?T"
    by (rule card_mono [rotated])
  also have "\<dots> \<le> card ({..<?n} \<times> {..<?m})"
    by (rule card_image_le) simp
  finally show ?thesis by simp
qed

lemma card_image_below: "card (f ` {i :: nat. int i < n - 1}) \<le> nat (n - 1)"
proof -
  have "{i :: nat. int i < n - 1} = {..< nat (n - 1)}"
    by (auto simp: zless_nat_eq_int_zless)
  moreover have "card (f ` {..< nat (n - 1)}) \<le> card {..< nat (n - 1)}"
    by (rule card_image_le) simp
  ultimately show ?thesis by simp
qed

lemma card_subset_image_below:
  assumes "A \<subseteq> f ` {i :: nat. int i < n - 1}"
  shows "card A \<le> nat (n - 1)"
proof -
  have "{i :: nat. int i < n - 1} = {..< nat (n - 1)}"
    by (auto simp: zless_nat_eq_int_zless)
  then have "finite (f ` {i :: nat. int i < n - 1})" by simp
  from card_mono [OF this assms] card_image_below [of f n] show ?thesis by simp
qed

lemma efold_map: "efold f (map g xs) s = efold (\<lambda>x. f (g x)) xs s"
proof (induction xs arbitrary: s)
  case Nil
  then show ?case by simp
next
  case (Cons x xs)
  then show ?case by (cases "f (g x) s") simp_all
qed

lemma enumerate_arange_numbered:
  "enumerate_arange n = map (\<lambda>num. (num - 1, num)) [1 ..< nat n]"
proof -
  have "[1 ..< nat n] = map Suc [0 ..< nat (n - 1)]"
    using enumerate_arange_numbers(2) [of n] by (simp add: enumerate_arange_def comp_def)
  then show ?thesis
    by (simp add: enumerate_arange_def comp_def)
qed

lemma export_odim_loop:
  "export_odim p = ebind (export_root p)
     (efold (\<lambda>num. export_group p (num - 1, num)) [1 ..< nat (n_group_dataset p)])"
proof -
  have "efold (export_group p) (enumerate_arange (n_group_dataset p))
      = efold (\<lambda>num. export_group p (num - 1, num)) [1 ..< nat (n_group_dataset p)]"
    by (rule ext) (simp only: enumerate_arange_numbered efold_map)
  then show ?thesis by (simp add: export_odim_def)
qed

lemma export_group_loop:
  "export_group p (i, num) h = ebind (export_elevation_groups p i h)
     (efold (\<lambda>nd. export_data p i num (nd - 1, nd)) [1 ..< nat (n_datasets p)])"
proof -
  have "efold (export_data p i num) (enumerate_arange (n_datasets p))
      = efold (\<lambda>nd. export_data p i num (nd - 1, nd)) [1 ..< nat (n_datasets p)]"
    by (rule ext) (simp only: enumerate_arange_numbered efold_map)
  then show ?thesis by (simp add: export_group_def)
qed

text \<open>
  Claim C2, as amended. The loops of \<^verbatim>\<open>export_odim\<close> run over the dataset numbers 1
  to N - 1 and the data numbers 1 to M - 1, where N is \<^verbatim>\<open>n_group_dataset\<close> and M is
  \<^verbatim>\<open>n_datasets\<close>. Every array of the written file is at
  \<^verbatim>\<open>dataset<i+1>/data<j+1>/data\<close> for an elevation index \<open>i < N - 1\<close> and a quantity
  index \<open>j < M - 1\<close> that lie within the actual lengths of the lists (the bounds checks),
  and is the array the volume holds there, rounded to \<^verbatim>\<open>float32\<close>; so the file has
  at most \<open>(N - 1) * (M - 1)\<close> arrays. The last elevation and the last quantity index
  are never written: the export of the volume without them is the same file. The groups
  are created at the paths the group objects carry: when these are the paths of their
  positions, the file has at most N - 1 elevation groups, named
  \<^verbatim>\<open>dataset1\<close> to \<^verbatim>\<open>dataset<N-1>\<close>, and in each group at most M - 1 quantity groups,
  named \<^verbatim>\<open>data1\<close> to \<^verbatim>\<open>data<M-1>\<close>.
\<close>

theorem export_odim_one_short:
  assumes "export_odim p = Inr hf"
  shows "export_odim p = ebind (export_root p)
           (efold (\<lambda>num. export_group p (num - 1, num)) [1 ..< nat (n_group_dataset p)])
    \<and> (\<forall>i num h. export_group p (i, num) h = ebind (export_elevation_groups p i h)
           (efold (\<lambda>nd. export_data p i num (nd - 1, nd)) [1 ..< nat (n_datasets p)]))
    \<and> (\<forall>path a. map_of hf path = Some (H5Dataset a) \<longrightarrow>
          (\<exists>i j. int i < n_group_dataset p - 1 \<and> int j < n_datasets p - 1
                 \<and> i < length (datasets p) \<and> j < length (datasets p ! i)
                 \<and> path = data_path i j \<and> a = map (map fround32) (datasets p ! i ! j)))
    \<and> card {path. \<exists>a. map_of hf path = Some (H5Dataset a)}
          \<le> nat (n_group_dataset p - 1) * nat (n_datasets p - 1)
    \<and> export_odim (without_last p) = Inr hf
    \<and> (canonical_paths p \<longrightarrow>
          set (filter (str_contains ''dataset'') (h5_children hf []))
            \<subseteq> dataset_name ` {i. int i < n_group_dataset p - 1}
        \<and> card (set (filter (str_contains ''dataset'') (h5_children hf [])))
            \<le> nat (n_group_dataset p - 1)
        \<and> (\<forall>g. set (filter (str_contains ''data'') (h5_children hf [g]))
                  \<subseteq> data_name ` {j. int j < n_datasets p - 1}
               \<and> card (set (filter (str_contains ''data'') (h5_children hf [g])))
                  \<le> nat (n_datasets p - 1)))"
proof -
  from assms have d: "only_datasets (written_array p) hf"
    by (rule export_odim_only_datasets)
  then have arrays: "\<forall>path a. map_of hf path = Some (H5Dataset a) \<longrightarrow>
          (\<exists>i j. int i < n_group_dataset p - 1 \<and> int j < n_datasets p - 1
                 \<and> i < length (datasets p) \<and> j < length (datasets p ! i)
                 \<and> path = data_path i j \<and> a = map (map fround32) (datasets p ! i ! j))"
    by (simp add: only_datasets_def written_array_def)
  have same: "export_odim (without_last p) = Inr hf"
    using assms by (simp only: export_odim_without_last)
  have groups: "canonical_paths p \<longrightarrow>
          set (filter (str_contains ''dataset'') (h5_children hf []))
            \<subseteq> dataset_name ` {i. int i < n_group_dataset p - 1}
        \<and> card (set (filter (str_contains ''dataset'') (h5_children hf [])))
            \<le> nat (n_group_dataset p - 1)
        \<and> (\<forall>g. set (filter (str_contains ''data'') (h5_children hf [g]))
                  \<subseteq> data_name ` {j. int j < n_datasets p - 1}
               \<and> card (set (filter (str_contains ''data'') (h5_children hf [g])))
                  \<le> nat (n_datasets p - 1))"
  proof
    assume "canonical_paths p"
    with assms have o: "only_paths (written_path p) hf" by (rule export_odim_only_paths)
    note e = elevation_group_names [OF o]
    note q = quantity_group_names [OF o]
    from e card_subset_image_below [OF e] q card_subset_image_below [OF q]
    show "set (filter (str_contains ''dataset'') (h5_children hf []))
            \<subseteq> dataset_name ` {i. int i < n_group_dataset p - 1}
        \<and> card (set (filter (str_contains ''dataset'') (h5_children hf [])))
            \<le> nat (n_group_dataset p - 1)
        \<and> (\<forall>g. set (filter (str_contains ''data'') (h5_children hf [g]))
                  \<subseteq> data_name ` {j. int j < n_datasets p - 1}
               \<and> card (set (filter (str_contains ''data'') (h5_children hf [g])))
                  \<le> nat (n_datasets p - 1))"
      by blast
  qed
  from export_odim_loop [of p] export_group_loop [of p] arrays card_datasets_bound [OF d] same groups
  show ?thesis by blast
qed

lemma mixed_sweeps_canonical: "canonical_paths mixed_sweeps"
proof -
  have n1: "n_group_dataset mixed_sweeps = 3"
    by code_simp
  have n2: "n_datasets mixed_sweeps = 3"
    by code_simp
  have r: "split_path (hierarchy (root_what mixed_sweeps)) = [''what'']
      \<and> split_path (hierarchy (root_where mixed_sweeps)) = [''where'']
      \<and> split_path (hierarchy (root_how mixed_sweeps)) = [''how'']"
    by code_simp
  have e: "\<forall>i \<in> {0, 1}.
          (i < length (group_datasets_what mixed_sweeps) \<longrightarrow>
               split_path (hierarchy (group_datasets_what mixed_sweeps ! i)) = [dataset_name i, ''what''])
          \<and> (i < length (group_datasets_where mixed_sweeps) \<longrightarrow>
               split_path (hierarchy (group_datasets_where mixed_sweeps ! i)) = [dataset_name i, ''where''])
          \<and> (i < length (group_datasets_how_polar mixed_sweeps) \<longrightarrow>
               split_path (hierarchy (group_datasets_how_polar mixed_sweeps ! i)) = [dataset_name i, ''how''])
          \<and> (i < length (group_datasets_how_radar mixed_sweeps) \<longrightarrow>
               split_path (hierarchy (group_datasets_how_radar mixed_sweeps ! i)) = [dataset_name i, ''how''])
          \<and> (\<forall>j \<in> {0, 1}.
                 i < length (group_datasets_data_what mixed_sweeps) \<longrightarrow>
                 j < length (group_datasets_data_what mixed_sweeps ! i) \<longrightarrow>
                 split_path (hierarchy (group_datasets_data_what mixed_sweeps ! i ! j))
                   = [dataset_name i, data_name j, ''what''])"
    by code_simp
  have two: "\<And>k :: nat. int k < 3 - 1 \<Longrightarrow> k \<in> {0, 1}"
    by auto
  show ?thesis
    unfolding canonical_paths_def n1 n2 using r e two by blast
qed

text \<open>The theorem at the example of three elevations and three quantities: the arrays
  of the first two elevations and the first two quantities are written.\<close>

theorem export_odim_one_short_witness:
  "(\<exists>hf. export_odim mixed_sweeps = Inr hf
        \<and> export_odim (without_last mixed_sweeps) = Inr hf
        \<and> card {path. \<exists>a. map_of hf path = Some (H5Dataset a)} \<le> 4
        \<and> map_of hf (data_path 0 0) = Some (H5Dataset [[Fin 10, Fin 20]])
        \<and> map_of hf (data_path 0 1) = Some (H5Dataset [[Fin 5, Fin 6]])
        \<and> map_of hf (data_path 1 0) = Some (H5Dataset [[Fin 30, Fin 40]])
        \<and> map_of hf (data_path 1 1) = Some (H5Dataset [[Fin 3, Fin 4]])
        \<and> map_of hf (data_path 0 2) = None
        \<and> map_of hf (data_path 2 0) = None
        \<and> filter (str_contains ''dataset'') (h5_children hf []) = [''dataset1'', ''dataset2'']
        \<and> card (set (filter (str_contains ''dataset'') (h5_children hf []))) \<le> 2
        \<and> filter (str_contains ''data'') (h5_children hf [''dataset1'']) = [''data1'', ''data2'']
        \<and> card (set (filter (str_contains ''data'') (h5_children hf [''dataset1'']))) \<le> 2)
   \<and> n_group_dataset mixed_sweeps = 3 \<and> n_datasets mixed_sweeps = 3"
proof -
  have "case export_odim mixed_sweeps of
          Inr hf \<Rightarrow> map_of hf (data_path 0 0) = Some (H5Dataset [[Fin 10, Fin 20]])
                    \<and> map_of hf (data_path 0 1) = Some (H5Dataset [[Fin 5, Fin 6]])
                    \<and> map_of hf (data_path 1 0) = Some (H5Dataset [[Fin 30, Fin 40]])
                    \<and> map_of hf (data_path 1 1) = Some (H5Dataset [[Fin 3, Fin 4]])
                    \<and> map_of hf (data_path 0 2) = None
                    \<and> map_of hf (data_path 2 0) = None
                    \<and> filter (str_contains ''dataset'') (h5_children hf []) = [''dataset1'', ''dataset2'']
                    \<and> filter (str_contains ''data'') (h5_children hf [''dataset1'']) = [''data1'', ''data2'']
        | Inl e \<Rightarrow> False"
    by code_simp
  then obtain hf where h: "export_odim mixed_sweeps = Inr hf"
    and m: "map_of hf (data_path 0 0) = Some (H5Dataset [[Fin 10, Fin 20]])"
      "map_of hf (data_path 0 1) = Some (H5Dataset [[Fin 5, Fin 6]])"
      "map_of hf (data_path 1 0) = Some (H5Dataset [[Fin 30, Fin 40]])"
      "map_of hf (data_path 1 1) = Some (H5Dataset [[Fin 3, Fin 4]])"
      "map_of hf (data_path 0 2) = None"
      "map_of hf (data_path 2 0) = None"
      "filter (str_contains ''dataset'') (h5_children hf []) = [''dataset1'', ''dataset2'']"
      "filter (str_contains ''data'') (h5_children hf [''dataset1'']) = [''data1'', ''data2'']"
    by (cases "export_odim mixed_sweeps") simp_all
  have n1: "n_group_dataset mixed_sweeps = 3"
    by code_simp
  have n2: "n_datasets mixed_sweeps = 3"
    by code_simp
  note t = export_odim_one_short [OF h, unfolded n1 n2]
  have c: "card {path. \<exists>a. map_of hf path = Some (H5Dataset a)} \<le> 4"
    using t by simp
  have x: "export_odim (without_last mixed_sweeps) = Inr hf"
    using t by (elim conjE)
  from t mixed_sweeps_canonical
  have g: "card (set (filter (str_contains ''dataset'') (h5_children hf []))) \<le> 2"
    and q: "card (set (filter (str_contains ''data'') (h5_children hf [''dataset1'']))) \<le> 2"
    by simp_all
  from h m c x g q n1 n2 show ?thesis
    by (intro conjI exI [of _ hf])
qed

text \<open>
  Claim C2 as stated (at most N - 1 elevation groups and, within each, at most M - 1
  what-groups) fails: the groups are created at the paths the objects carry. In the
  example \<open>scattered_sweeps\<close>, with N = 2 and M = 2, the groups of the first elevation
  carry the paths \<^verbatim>\<open>dataset5/what\<close>, \<^verbatim>\<open>dataset7/where\<close> and \<^verbatim>\<open>dataset9/how\<close>, and
  the what-group of its first quantity \<^verbatim>\<open>dataset1/data8/what\<close>; the written file has
  four elevation groups, and \<^verbatim>\<open>dataset1\<close> has two quantity groups.
\<close>

theorem export_odim_groups_at_carried_paths:
  "setistance None scattered_sweeps_args = Inr scattered_sweeps
   \<and> n_group_dataset scattered_sweeps = 2 \<and> n_datasets scattered_sweeps = 2
   \<and> map_sum id (\<lambda>hf. filter (str_contains ''dataset'') (h5_children hf []))
        (export_odim scattered_sweeps)
       = Inr [''dataset1'', ''dataset5'', ''dataset7'', ''dataset9'']
   \<and> map_sum id (\<lambda>hf. filter (str_contains ''data'') (h5_children hf [''dataset1'']))
        (export_odim scattered_sweeps)
       = Inr [''data1'', ''data8'']"
  by code_simp

subsection \<open>Width of the string attributes\<close>

text \<open>
  Claim C6. A string attribute is to be stored as a fixed-length ASCII byte array of
  the content length plus one. \<^verbatim>\<open>formatstr\<close> encodes "PVOL" with width 5;
  \<^verbatim>\<open>odim_setattrs\<close>, on the root what-group of the example volume and in the whole
  export, stores "PVOL" and "DBZH" with width 4, the content length.
\<close>

theorem odim_setattrs_string_width:
  "struct_getitem (root_what two_sweeps) ''object'' = PStr ''PVOL''
   \<and> formatstr ''PVOL'' = Inr (PBytes 5 ''PVOL'')
   \<and> ebind (odim_setattrs (root_what two_sweeps) [''object''] h5_new)
         (\<lambda>hf. read_attr hf ''what'' ''object'') = Inr (PBytes 4 ''PVOL'')
   \<and> ebind (export_odim two_sweeps) (\<lambda>hf. read_attr hf ''what'' ''object'')
       = Inr (PBytes 4 ''PVOL'')
   \<and> ebind (export_odim two_sweeps) (\<lambda>hf. read_attr hf ''dataset1/data1/what'' ''quantity'')
       = Inr (PBytes 4 ''DBZH'')"
  by code_simp

end
